theory Spec2Isabelle
  imports Main "HOL-Library.Word" "HOL-Library.Sublist"
begin

section \<open>The constants of example.go\<close>

definition location :: string where
  "location = ''westus''"

definition groupName :: string where
  "groupName = ''your-azure-sample-group''"

definition accountName :: string where
  "accountName = ''golangrocksonazure''"

definition provider :: string where
  "provider = ''Microsoft.Storage''"

section \<open>The values exchanged with the management SDK\<close>

text \<open>
  The SDK packages (arm/storage, arm/resources, go-autorest) are imported by example.go and
  are not part of the repository. Their request and response structs are modelled with the
  fields that example.go writes or reads. A Go pointer is an option: \<open>None\<close> is nil, and
  dereferencing it panics. A Go \<open>error\<close> is the text that \<open>%s\<close> prints for it; the nil
  error is \<open>None\<close>. Strings are byte lists, as in Go.
\<close>

type_synonym error = string

record AccountCheckNameAvailabilityParameters =
  check_Name :: "string option"
  check_Type :: "string option"

record CheckNameAvailabilityResult =
  NameAvailable :: "bool option"
  Reason :: string
  Message :: "string option"

record ResourceGroup =
  group_Location :: "string option"

definition StandardLRS :: string where
  "StandardLRS = ''Standard_LRS''"

record Sku =
  sku_Name :: string

datatype AccountPropertiesCreateParameters = AccountPropertiesCreateParameters

record AccountCreateParameters =
  create_Sku :: "Sku option"
  create_Location :: "string option"
  create_Properties :: "AccountPropertiesCreateParameters option"

record AccountProperties =
  ProvisioningState :: string

record Account =
  account_Name :: "string option"
  account_ID :: "string option"
  account_Sku :: "Sku option"
  account_Type :: "string option"
  account_Location :: "string option"
  account_Properties :: "AccountProperties option"

record AccountListResult =
  accounts_Value :: "Account list option"

record AccountKey =
  KeyName :: "string option"
  key_Value :: "string option"
  Permissions :: string

record AccountListKeysResult =
  Keys :: "AccountKey list option"

record AccountRegenerateKeyParameters =
  regen_KeyName :: "string option"

record AccountUpdateParameters =
  Tags :: "(string \<rightharpoonup> string option) option"

record UsageName =
  name_Value :: "string option"

record Usage =
  usage_Name :: "UsageName option"
  CurrentValue :: "32 word option"
  Limit :: "32 word option"

record UsageListResult =
  usage_Value :: "Usage list option"

text \<open>
  A client handle: the subscription it was built for and its authorizer. The zero value of
  the package-level variables has the nil authorizer; the SDK constructors install the null
  authorizer, which createClients then overwrites with the service principal token.
\<close>

datatype 't authorizer = NilAuthorizer | NullAuthorizer | TokenAuthorizer 't

record 't client =
  SubscriptionID :: string
  Authorizer :: "'t authorizer"

definition NewClient :: "string \<Rightarrow> 't client" where
  "NewClient subscriptionID = \<lparr>SubscriptionID = subscriptionID, Authorizer = NullAuthorizer\<rparr>"

definition zero_client :: "'t client" where
  "zero_client = \<lparr>SubscriptionID = [], Authorizer = NilAuthorizer\<rparr>"

text \<open>The remote calls that example.go issues, with their arguments.\<close>

datatype call =
    Register string
  | CheckNameAvailability AccountCheckNameAvailabilityParameters
  | CreateOrUpdate string ResourceGroup
  | Create string string AccountCreateParameters
  | GetProperties string string
  | ListByResourceGroup string
  | AccountsList
  | ListKeys string string
  | RegenerateKey string string AccountRegenerateKeyParameters
  | Update string string AccountUpdateParameters
  | UsageList
  | AccountsDelete string string
  | GroupsDelete string

datatype body =
    NoBody
  | CheckBody CheckNameAvailabilityResult
  | AccountBody Account
  | AccountsBody AccountListResult
  | KeysBody AccountListKeysResult
  | UsageBody UsageListResult

section \<open>The process: console, remote service, package-level variables\<close>

text \<open>
  Everything the process does to the outside is recorded in order in one trace: each write
  to standard output, the read from standard input, and each remote call with the client it
  was made through, its arguments, the body it returned and its error.
\<close>

datatype 't event =
    Printed string
  | Scanned string
  | Called "'t client" call body "error option"

record 't globals =
  resourcesClient :: "'t client"
  storageClient :: "'t client"
  groupClient :: "'t client"
  usageClient :: "'t client"

record ('t, 's) world =
  trace :: "'t event list"
  remote :: 's
  globals :: "'t globals"

text \<open>
  The SDK is a parameter. A management operation takes the client, the arguments and the
  state of the remote service, and returns its result, its error and the new state of the
  service; operations whose result example.go discards return the error only. The two
  functions of the identity library build values locally and contact no service.
\<close>

record ('c, 't, 's) sdk =
  OAuthConfigForTenant :: "string \<Rightarrow> 'c option \<times> error option"
  ResourceManagerEndpoint :: string
  NewServicePrincipalToken :: "'c \<Rightarrow> string \<Rightarrow> string \<Rightarrow> string \<Rightarrow> 't \<times> error option"
  providers_Register :: "'t client \<Rightarrow> string \<Rightarrow> 's \<Rightarrow> error option \<times> 's"
  accounts_CheckNameAvailability ::
    "'t client \<Rightarrow> AccountCheckNameAvailabilityParameters \<Rightarrow> 's
      \<Rightarrow> (CheckNameAvailabilityResult \<times> error option) \<times> 's"
  groups_CreateOrUpdate :: "'t client \<Rightarrow> string \<Rightarrow> ResourceGroup \<Rightarrow> 's \<Rightarrow> error option \<times> 's"
  accounts_Create ::
    "'t client \<Rightarrow> string \<Rightarrow> string \<Rightarrow> AccountCreateParameters \<Rightarrow> 's \<Rightarrow> error option \<times> 's"
  accounts_GetProperties ::
    "'t client \<Rightarrow> string \<Rightarrow> string \<Rightarrow> 's \<Rightarrow> (Account \<times> error option) \<times> 's"
  accounts_ListByResourceGroup ::
    "'t client \<Rightarrow> string \<Rightarrow> 's \<Rightarrow> (AccountListResult \<times> error option) \<times> 's"
  accounts_List :: "'t client \<Rightarrow> 's \<Rightarrow> (AccountListResult \<times> error option) \<times> 's"
  accounts_ListKeys ::
    "'t client \<Rightarrow> string \<Rightarrow> string \<Rightarrow> 's \<Rightarrow> (AccountListKeysResult \<times> error option) \<times> 's"
  accounts_RegenerateKey ::
    "'t client \<Rightarrow> string \<Rightarrow> string \<Rightarrow> AccountRegenerateKeyParameters \<Rightarrow> 's
      \<Rightarrow> (AccountListKeysResult \<times> error option) \<times> 's"
  accounts_Update ::
    "'t client \<Rightarrow> string \<Rightarrow> string \<Rightarrow> AccountUpdateParameters \<Rightarrow> 's \<Rightarrow> error option \<times> 's"
  usage_List :: "'t client \<Rightarrow> 's \<Rightarrow> (UsageListResult \<times> error option) \<times> 's"
  accounts_Delete :: "'t client \<Rightarrow> string \<Rightarrow> string \<Rightarrow> 's \<Rightarrow> error option \<times> 's"
  groups_Delete :: "'t client \<Rightarrow> string \<Rightarrow> 's \<Rightarrow> error option \<times> 's"

text \<open>
  A statement either continues with a value or stops the process: \<open>os.Exit\<close> with a status,
  or a run-time panic (nil dereference, index or slice out of range).
\<close>

datatype stop = Exit int | Panic

type_synonym ('a, 't, 's) prog = "('t, 's) world \<Rightarrow> (stop + 'a) \<times> ('t, 's) world"

definition ret :: "'a \<Rightarrow> ('a, 't, 's) prog" where
  "ret a = (\<lambda>w. (Inr a, w))"

definition bindp :: "('a, 't, 's) prog \<Rightarrow> ('a \<Rightarrow> ('b, 't, 's) prog) \<Rightarrow> ('b, 't, 's) prog" where
  "bindp m f = (\<lambda>w. case m w of (Inl s, w') \<Rightarrow> (Inl s, w') | (Inr a, w') \<Rightarrow> f a w')"

definition thenp :: "('a, 't, 's) prog \<Rightarrow> ('b, 't, 's) prog \<Rightarrow> ('b, 't, 's) prog" where
  "thenp m n = bindp m (\<lambda>_. n)"

definition os_Exit :: "int \<Rightarrow> ('a, 't, 's) prog" where
  "os_Exit code = (\<lambda>w. (Inl (Exit code), w))"

definition panic :: "('a, 't, 's) prog" where
  "panic = (\<lambda>w. (Inl Panic, w))"

definition deref :: "'a option \<Rightarrow> ('a, 't, 's) prog" where
  "deref p = (case p of None \<Rightarrow> panic | Some x \<Rightarrow> ret x)"

definition index0 :: "'a list \<Rightarrow> ('a, 't, 's) prog" where
  "index0 xs = (case xs of [] \<Rightarrow> panic | x # _ \<Rightarrow> ret x)"

definition slice5 :: "string \<Rightarrow> (string, 't, 's) prog" where
  "slice5 v = (if length v < 5 then panic else ret (take 5 v))"

definition fmt_Print :: "string \<Rightarrow> (unit, 't, 's) prog" where
  "fmt_Print s = (\<lambda>w. (Inr (), w\<lparr>trace := trace w @ [Printed s]\<rparr>))"

definition fmt_Println :: "string \<Rightarrow> (unit, 't, 's) prog" where
  "fmt_Println s = fmt_Print (s @ ''\<newline>'')"

text \<open>
  Standard input is the sequence of runes that the scanner of package fmt reads from it.
  \<open>fmt.Scanln(&input)\<close> with a string operand skips spaces, fails at a newline or at the
  end of the input when no word has begun, and otherwise stores the run of non-space runes
  that follows, as UTF-8 text; whatever follows the word on the line only makes Scanln
  return an error after the word is stored. \<open>main\<close> declares \<open>input\<close> just before the
  call and drops the error, so the variable holds the word, or the empty string when the
  scan failed before a word.
\<close>

type_synonym rune = nat

definition isSpace :: "rune \<Rightarrow> bool" where
  "isSpace r \<longleftrightarrow>
     (0x09 \<le> r \<and> r \<le> 0x0D) \<or> r = 0x20 \<or> r = 0x85 \<or> r = 0xA0 \<or> r = 0x1680 \<or>
     (0x2000 \<le> r \<and> r \<le> 0x200A) \<or> r = 0x2028 \<or> r = 0x2029 \<or> r = 0x202F \<or> r = 0x205F \<or>
     r = 0x3000"

fun SkipSpace :: "rune list \<Rightarrow> rune list option" where
  "SkipSpace [] = Some []"
| "SkipSpace (r # rs) =
     (if r = 0x0A then None
      else if isSpace r then SkipSpace rs
      else Some (r # rs))"

definition EncodeRune :: "rune \<Rightarrow> string" where
  "EncodeRune r =
     (if r \<le> 0x7F then [char_of r]
      else if r \<le> 0x7FF then [char_of (0xC0 + r div 0x40), char_of (0x80 + r mod 0x40)]
      else if 0x10FFFF < r \<or> (0xD800 \<le> r \<and> r \<le> 0xDFFF) then [CHR 0xEF, CHR 0xBF, CHR 0xBD]
      else if r \<le> 0xFFFF then
        [char_of (0xE0 + r div 0x1000), char_of (0x80 + r div 0x40 mod 0x40),
         char_of (0x80 + r mod 0x40)]
      else
        [char_of (0xF0 + r div 0x40000), char_of (0x80 + r div 0x1000 mod 0x40),
         char_of (0x80 + r div 0x40 mod 0x40), char_of (0x80 + r mod 0x40)])"

definition convertString :: "rune list \<Rightarrow> string option" where
  "convertString stdin =
     (case SkipSpace stdin of
        None \<Rightarrow> None
      | Some [] \<Rightarrow> None
      | Some (r # rs) \<Rightarrow> Some (concat (map EncodeRune (takeWhile (\<lambda>r. \<not> isSpace r) (r # rs)))))"

definition fmt_Scanln :: "rune list \<Rightarrow> (string, 't, 's) prog" where
  "fmt_Scanln stdin = (\<lambda>w.
     let input = (case convertString stdin of None \<Rightarrow> [] | Some word \<Rightarrow> word)
     in (Inr input, w\<lparr>trace := trace w @ [Scanned input]\<rparr>))"

definition os_Getenv :: "(string \<rightharpoonup> string) \<Rightarrow> string \<Rightarrow> string" where
  "os_Getenv env varName = (case env varName of None \<Rightarrow> [] | Some v \<Rightarrow> v)"

definition global :: "('t globals \<Rightarrow> 'a) \<Rightarrow> ('a, 't, 's) prog" where
  "global var = (\<lambda>w. (Inr (var (globals w)), w))"

definition assign :: "('t globals \<Rightarrow> 't globals) \<Rightarrow> (unit, 't, 's) prog" where
  "assign upd = (\<lambda>w. (Inr (), w\<lparr>globals := upd (globals w)\<rparr>))"

definition remote_call ::
  "'t client \<Rightarrow> call \<Rightarrow> ('r \<Rightarrow> body) \<Rightarrow> ('s \<Rightarrow> ('r \<times> error option) \<times> 's)
    \<Rightarrow> ('r \<times> error option, 't, 's) prog" where
  "remote_call c k wrap op = (\<lambda>w.
     case op (remote w) of
       ((r, err), s') \<Rightarrow>
         (Inr (r, err), w\<lparr>trace := trace w @ [Called c k (wrap r) err], remote := s'\<rparr>))"

definition remote_call_discard ::
  "'t client \<Rightarrow> call \<Rightarrow> ('s \<Rightarrow> error option \<times> 's) \<Rightarrow> (error option, 't, 's) prog" where
  "remote_call_discard c k op = (\<lambda>w.
     case op (remote w) of
       (err, s') \<Rightarrow> (Inr err, w\<lparr>trace := trace w @ [Called c k NoBody err], remote := s'\<rparr>))"

definition tab :: string where
  "tab = [CHR 0x09]"

definition quoted :: "string \<Rightarrow> string" where
  "quoted s = [CHR 0x27] @ s @ [CHR 0x27]"

fun show_nat :: "nat \<Rightarrow> string" where
  "show_nat n =
     (if n < 10 then [''0123456789'' ! n]
      else show_nat (n div 10) @ [''0123456789'' ! (n mod 10)])"

declare show_nat.simps [simp del]

definition show_int32 :: "32 word \<Rightarrow> string" where
  "show_int32 x = (if sint x < 0 then ''-'' @ show_nat (nat (- sint x)) else show_nat (nat (sint x)))"

section \<open>example.go\<close>

text \<open>
  Each \<open>fmt.Printf\<close> is the \<open>fmt_Print\<close> of its format string with the arguments filled
  in; an argument that dereferences a pointer is evaluated before the call prints.
\<close>

definition onErrorFail :: "error option \<Rightarrow> string \<Rightarrow> (unit, 't, 's) prog" where
  "onErrorFail err message =
     (case err of
        None \<Rightarrow> ret ()
      | Some e \<Rightarrow> thenp (fmt_Print (message @ '': '' @ e @ ''\<newline>'')) (os_Exit 1))"

definition getEnvVarOrExit :: "(string \<rightharpoonup> string) \<Rightarrow> string \<Rightarrow> (string, 't, 's) prog" where
  "getEnvVarOrExit env varName =
     (let val = os_Getenv env varName in
      thenp
        (if val = [] then
           thenp (fmt_Print (''Missing environment variable '' @ varName @ ''\<newline>'')) (os_Exit 1)
         else ret ())
        (ret val))"

definition createClients :: "string \<Rightarrow> 't \<Rightarrow> (unit, 't, 's) prog" where
  "createClients subscriptionID spToken =
     thenp (assign (\<lambda>g. g\<lparr>resourcesClient := NewClient subscriptionID\<rparr>))
    (thenp (assign (\<lambda>g. g\<lparr>resourcesClient := (resourcesClient g)\<lparr>Authorizer := TokenAuthorizer spToken\<rparr>\<rparr>))
    (thenp (assign (\<lambda>g. g\<lparr>storageClient := NewClient subscriptionID\<rparr>))
    (thenp (assign (\<lambda>g. g\<lparr>storageClient := (storageClient g)\<lparr>Authorizer := TokenAuthorizer spToken\<rparr>\<rparr>))
    (thenp (assign (\<lambda>g. g\<lparr>groupClient := NewClient subscriptionID\<rparr>))
    (thenp (assign (\<lambda>g. g\<lparr>groupClient := (groupClient g)\<lparr>Authorizer := TokenAuthorizer spToken\<rparr>\<rparr>))
    (thenp (assign (\<lambda>g. g\<lparr>usageClient := NewClient subscriptionID\<rparr>))
           (assign (\<lambda>g. g\<lparr>usageClient := (usageClient g)\<lparr>Authorizer := TokenAuthorizer spToken\<rparr>\<rparr>))))))))"

definition init :: "('c, 't, 's) sdk \<Rightarrow> (string \<rightharpoonup> string) \<Rightarrow> (unit, 't, 's) prog" where
  "init sdk env =
     bindp (getEnvVarOrExit env ''AZURE_SUBSCRIPTION_ID'') (\<lambda>subscriptionID.
     bindp (getEnvVarOrExit env ''AZURE_TENANT_ID'') (\<lambda>tenantID.
     case OAuthConfigForTenant sdk tenantID of
       (oauthConfig, err) \<Rightarrow>
     thenp (onErrorFail err ''OAuthConfigForTenant failed'')
    (bindp (getEnvVarOrExit env ''AZURE_CLIENT_ID'') (\<lambda>clientID.
     bindp (getEnvVarOrExit env ''AZURE_CLIENT_SECRET'') (\<lambda>clientSecret.
     bindp (deref oauthConfig) (\<lambda>config.
     case NewServicePrincipalToken sdk config clientID clientSecret (ResourceManagerEndpoint sdk) of
       (spToken, err') \<Rightarrow>
     thenp (onErrorFail err' ''NewServicePrincipalToken failed'')
           (createClients subscriptionID spToken)))))))"

definition registerResourceProvider :: "('c, 't, 's) sdk \<Rightarrow> (unit, 't, 's) prog" where
  "registerResourceProvider sdk =
     thenp (fmt_Println ''Register resource provider...'')
    (bindp (global resourcesClient) (\<lambda>c.
     bindp (remote_call_discard c (Register provider) (providers_Register sdk c provider)) (\<lambda>err.
     onErrorFail err ''Register failed'')))"

definition checkAccountAvailability :: "('c, 't, 's) sdk \<Rightarrow> (unit, 't, 's) prog" where
  "checkAccountAvailability sdk =
     thenp (fmt_Println ''Check account name availability...'')
    (bindp (global storageClient) (\<lambda>c.
     let params = \<lparr>check_Name = Some accountName,
                   check_Type = Some ''Microsoft.Storage/storageAccounts''\<rparr> in
     bindp (remote_call c (CheckNameAvailability params) CheckBody
              (accounts_CheckNameAvailability sdk c params)) (\<lambda>(result, err).
     thenp (onErrorFail err ''CheckNameAvailability failed'')
    (bindp (deref (NameAvailable result)) (\<lambda>available.
     if available = True then
       fmt_Print (tab @ quoted accountName @ '' is available!\<newline>'')
     else
       bindp (deref (Message result)) (\<lambda>message.
       thenp (fmt_Print (tab @ quoted accountName @ '' is not available :(\<newline>'' @
                tab @ ''Reason: '' @ Reason result @ ''\<newline>'' @
                tab @ ''Message: '' @ message @ ''\<newline>''))
      (thenp (fmt_Println ''No resources were created.'')
             (os_Exit 1))))))))"

definition createResourceGroup :: "('c, 't, 's) sdk \<Rightarrow> (unit, 't, 's) prog" where
  "createResourceGroup sdk =
     thenp (fmt_Println ''Create resource group...'')
    (bindp (global groupClient) (\<lambda>c.
     let parameters = \<lparr>group_Location = Some location\<rparr> in
     bindp (remote_call_discard c (CreateOrUpdate groupName parameters)
              (groups_CreateOrUpdate sdk c groupName parameters)) (\<lambda>err.
     onErrorFail err ''CreateOrUpdate failed'')))"

definition createStorageAccount :: "('c, 't, 's) sdk \<Rightarrow> (unit, 't, 's) prog" where
  "createStorageAccount sdk =
     thenp (fmt_Println ''Create storage account...'')
    (bindp (global storageClient) (\<lambda>c.
     let parameters = \<lparr>create_Sku = Some \<lparr>sku_Name = StandardLRS\<rparr>,
                       create_Location = Some location,
                       create_Properties = Some AccountPropertiesCreateParameters\<rparr> in
     bindp (remote_call_discard c (Create groupName accountName parameters)
              (accounts_Create sdk c groupName accountName parameters)) (\<lambda>err.
     onErrorFail err ''Create failed'')))"

definition getStorageAccountProperties :: "('c, 't, 's) sdk \<Rightarrow> (unit, 't, 's) prog" where
  "getStorageAccountProperties sdk =
     thenp (fmt_Println ''Get storage account properties...'')
    (bindp (global storageClient) (\<lambda>c.
     bindp (remote_call c (GetProperties groupName accountName) AccountBody
              (accounts_GetProperties sdk c groupName accountName)) (\<lambda>(account, err).
     thenp (onErrorFail err ''GetProperties failed'')
    (bindp (deref (account_Name account)) (\<lambda>name.
     thenp (fmt_Print (quoted name @ '' storage account properties\<newline>''))
    (bindp (deref (account_ID account)) (\<lambda>ident.
     thenp (fmt_Print (tab @ ''                ID: '' @ ident @ ''\<newline>''))
    (bindp (deref (account_Sku account)) (\<lambda>sku.
     thenp (fmt_Print (tab @ ''          Sku Name: '' @ sku_Name sku @ ''\<newline>''))
    (bindp (deref (account_Type account)) (\<lambda>ty.
     thenp (fmt_Print (tab @ ''              Type: '' @ ty @ ''\<newline>''))
    (bindp (deref (account_Location account)) (\<lambda>loc.
     thenp (fmt_Print (tab @ ''          Location: '' @ loc @ ''\<newline>''))
    (bindp (deref (account_Properties account)) (\<lambda>props.
     fmt_Print (tab @ ''Provisioning State: '' @ ProvisioningState props @ ''\<newline>''))))))))))))))))"

fun printAccounts :: "Account list \<Rightarrow> (unit, 't, 's) prog" where
  "printAccounts [] = ret ()"
| "printAccounts (acc # rest) =
     bindp (deref (account_Name acc)) (\<lambda>name.
     thenp (fmt_Print (tab @ name @ ''\<newline>''))
           (printAccounts rest))"

definition printAccountList :: "AccountListResult \<Rightarrow> (unit, 't, 's) prog" where
  "printAccountList list = bindp (deref (accounts_Value list)) printAccounts"

definition listStorageAccountsByResourceGroup :: "('c, 't, 's) sdk \<Rightarrow> (unit, 't, 's) prog" where
  "listStorageAccountsByResourceGroup sdk =
     thenp (fmt_Print (''List all storage accounts in '' @ quoted groupName @ '' resource group\<newline>''))
    (bindp (global storageClient) (\<lambda>c.
     bindp (remote_call c (ListByResourceGroup groupName) AccountsBody
              (accounts_ListByResourceGroup sdk c groupName)) (\<lambda>(list, err).
     thenp (onErrorFail err ''ListByResourceGroup failed'')
           (printAccountList list))))"

definition listStorageAccountsBySubscription :: "('c, 't, 's) sdk \<Rightarrow> (unit, 't, 's) prog" where
  "listStorageAccountsBySubscription sdk =
     thenp (fmt_Println ''List all storage accounts under the subscription'')
    (bindp (global storageClient) (\<lambda>c.
     bindp (remote_call c AccountsList AccountsBody (accounts_List sdk c)) (\<lambda>(list, err).
     thenp (onErrorFail err ''List failed'')
           (printAccountList list))))"

fun printKeys :: "AccountKey list \<Rightarrow> (unit, 't, 's) prog" where
  "printKeys [] = ret ()"
| "printKeys (key # rest) =
     bindp (deref (KeyName key)) (\<lambda>name.
     bindp (deref (key_Value key)) (\<lambda>val.
     bindp (slice5 val) (\<lambda>prefix5.
     thenp (fmt_Print (tab @ ''Key name: '' @ name @ ''\<newline>'' @
                       tab @ ''Value: '' @ prefix5 @ ''...\<newline>'' @
                       tab @ ''Permissions: '' @ Permissions key @ ''\<newline>''))
    (thenp (fmt_Println (tab @ ''----------------''))
           (printKeys rest)))))"

definition getStorageKeys :: "('c, 't, 's) sdk \<Rightarrow> (AccountListKeysResult, 't, 's) prog" where
  "getStorageKeys sdk =
     thenp (fmt_Println ''Get storage account keys...'')
    (bindp (global storageClient) (\<lambda>c.
     bindp (remote_call c (ListKeys groupName accountName) KeysBody
              (accounts_ListKeys sdk c groupName accountName)) (\<lambda>(keys, err).
     thenp (onErrorFail err ''ListKeys failed'')
    (thenp (fmt_Print (quoted accountName @ '' storage account keys\<newline>''))
    (bindp (deref (Keys keys)) (\<lambda>ks.
     thenp (printKeys ks)
           (ret keys)))))))"

definition regenStorageKey ::
  "('c, 't, 's) sdk \<Rightarrow> AccountListKeysResult \<Rightarrow> (unit, 't, 's) prog" where
  "regenStorageKey sdk keys =
     thenp (fmt_Println ''Regenerate account key...'')
    (bindp (global storageClient) (\<lambda>c.
     bindp (deref (Keys keys)) (\<lambda>ks.
     bindp (index0 ks) (\<lambda>first.
     let parameters = \<lparr>regen_KeyName = KeyName first\<rparr> in
     bindp (remote_call c (RegenerateKey groupName accountName parameters) KeysBody
              (accounts_RegenerateKey sdk c groupName accountName parameters)) (\<lambda>(newKeys, err).
     thenp (onErrorFail err ''RegenerateKey failed'')
    (thenp (fmt_Println ''New key'')
    (bindp (deref (Keys newKeys)) (\<lambda>nks.
     bindp (index0 nks) (\<lambda>new.
     bindp (deref (KeyName new)) (\<lambda>name.
     bindp (deref (key_Value new)) (\<lambda>val.
     bindp (slice5 val) (\<lambda>prefix5.
     fmt_Print (tab @ ''Key name: '' @ name @ ''\<newline>'' @
                tab @ ''Value: '' @ prefix5 @ ''...\<newline>'' @
                tab @ ''Permissions: '' @ Permissions new @ ''\<newline>'')))))))))))))"

definition updateStorageAccount :: "('c, 't, 's) sdk \<Rightarrow> (unit, 't, 's) prog" where
  "updateStorageAccount sdk =
     thenp (fmt_Println ''Update storage account...'')
    (bindp (global storageClient) (\<lambda>c.
     let parameters = \<lparr>Tags = Some [''who rocks'' \<mapsto> Some ''golang'',
                                     ''where'' \<mapsto> Some ''on azure'']\<rparr> in
     bindp (remote_call_discard c (Update groupName accountName parameters)
              (accounts_Update sdk c groupName accountName parameters)) (\<lambda>err.
     onErrorFail err ''Update failed'')))"

fun printUsages :: "Usage list \<Rightarrow> (unit, 't, 's) prog" where
  "printUsages [] = ret ()"
| "printUsages (usage # rest) =
     bindp (deref (usage_Name usage)) (\<lambda>uname.
     bindp (deref (name_Value uname)) (\<lambda>name.
     bindp (deref (CurrentValue usage)) (\<lambda>current.
     bindp (deref (Limit usage)) (\<lambda>limit.
     thenp (fmt_Print (tab @ name @ '': '' @ show_int32 current @ '' / '' @ show_int32 limit @ ''\<newline>''))
           (printUsages rest)))))"

definition listUsage :: "('c, 't, 's) sdk \<Rightarrow> (unit, 't, 's) prog" where
  "listUsage sdk =
     thenp (fmt_Println ''List usage for storage accounts in subscription...'')
    (bindp (global usageClient) (\<lambda>c.
     bindp (remote_call c UsageList UsageBody (usage_List sdk c)) (\<lambda>(usageList, err).
     thenp (onErrorFail err ''List failed'')
    (bindp (deref (usage_Value usageList)) printUsages))))"

definition delete :: "('c, 't, 's) sdk \<Rightarrow> (unit, 't, 's) prog" where
  "delete sdk =
     thenp (fmt_Println ''Delete storage account...'')
    (bindp (global storageClient) (\<lambda>c.
     bindp (remote_call_discard c (AccountsDelete groupName accountName)
              (accounts_Delete sdk c groupName accountName)) (\<lambda>err.
     thenp (onErrorFail err ''Delete failed'')
    (thenp (fmt_Println ''Delete resource group...'')
    (bindp (global groupClient) (\<lambda>g.
     bindp (remote_call_discard g (GroupsDelete groupName) (groups_Delete sdk g groupName)) (\<lambda>err'.
     onErrorFail err' ''Delete failed'')))))))"

text \<open>\<open>stdin\<close> is what standard input holds when \<open>main\<close> reaches the prompt.\<close>

definition main :: "('c, 't, 's) sdk \<Rightarrow> rune list \<Rightarrow> (unit, 't, 's) prog" where
  "main sdk stdin =
     thenp (registerResourceProvider sdk)
    (thenp (checkAccountAvailability sdk)
    (thenp (createResourceGroup sdk)
    (thenp (createStorageAccount sdk)
    (thenp (getStorageAccountProperties sdk)
    (thenp (listStorageAccountsByResourceGroup sdk)
    (thenp (listStorageAccountsBySubscription sdk)
    (bindp (getStorageKeys sdk) (\<lambda>keys.
     thenp (regenStorageKey sdk keys)
    (thenp (updateStorageAccount sdk)
    (thenp (listUsage sdk)
    (thenp (fmt_Print (''Press enter to delete the resource group '' @ quoted groupName @ ''... (y/n)''))
    (bindp (fmt_Scanln stdin) (\<lambda>input.
     if input = ''y'' then delete sdk else ret ())))))))))))))"

text \<open>
  The Go runtime runs \<open>init\<close> before \<open>main\<close>, starting from the zero values of the
  package-level variables, and exits with status 0 when \<open>main\<close> returns; a panic ends the
  process with status 2.
\<close>

definition world0 :: "'s \<Rightarrow> ('t, 's) world" where
  "world0 s =
     \<lparr>trace = [], remote = s,
      globals = \<lparr>resourcesClient = zero_client, storageClient = zero_client,
                 groupClient = zero_client, usageClient = zero_client\<rparr>\<rparr>"

definition run ::
  "('c, 't, 's) sdk \<Rightarrow> (string \<rightharpoonup> string) \<Rightarrow> rune list \<Rightarrow> 's \<Rightarrow> stop \<times> ('t, 's) world" where
  "run sdk env stdin s =
     (case thenp (init sdk env) (main sdk stdin) (world0 s) of
        (Inl st, w) \<Rightarrow> (st, w)
      | (Inr _, w) \<Rightarrow> (Exit 0, w))"

definition exit_status :: "stop \<Rightarrow> int" where
  "exit_status st = (case st of Exit code \<Rightarrow> code | Panic \<Rightarrow> 2)"

section \<open>What a trace shows\<close>

text \<open>
  \<open>answer\<close> is the value of the variable \<open>input\<close> after the call of Scanln, and
  \<open>first_word\<close> describes it on the input itself: the runes after the leading spaces of
  the line, up to the next space, newline or end of input. \<open>runes\<close> reads an ASCII text
  as input.
\<close>

definition answer :: "rune list \<Rightarrow> string" where
  "answer stdin = (case convertString stdin of None \<Rightarrow> [] | Some word \<Rightarrow> word)"

definition first_word :: "rune list \<Rightarrow> rune list" where
  "first_word stdin =
     takeWhile (\<lambda>r. \<not> isSpace r) (dropWhile (\<lambda>r. isSpace r \<and> r \<noteq> 0x0A) stdin)"

definition runes :: "string \<Rightarrow> rune list" where
  "runes s = map of_char s"

fun requests :: "'t event list \<Rightarrow> ('t client \<times> call) list" where
  "requests [] = []"
| "requests (Called c k b e # es) = (c, k) # requests es"
| "requests (_ # es) = requests es"

fun failed :: "'t event list \<Rightarrow> bool" where
  "failed [] = False"
| "failed (Called c k b (Some e) # es) = True"
| "failed (_ # es) = failed es"

fun scans :: "'t event list \<Rightarrow> string list" where
  "scans [] = []"
| "scans (Scanned t # es) = t # scans es"
| "scans (_ # es) = scans es"

definition call_name :: "call \<Rightarrow> string" where
  "call_name k =
     (case k of
        Register _ \<Rightarrow> ''Register''
      | CheckNameAvailability _ \<Rightarrow> ''CheckNameAvailability''
      | CreateOrUpdate _ _ \<Rightarrow> ''CreateOrUpdate''
      | Create _ _ _ \<Rightarrow> ''Create''
      | GetProperties _ _ \<Rightarrow> ''GetProperties''
      | ListByResourceGroup _ \<Rightarrow> ''ListByResourceGroup''
      | AccountsList \<Rightarrow> ''List''
      | ListKeys _ _ \<Rightarrow> ''ListKeys''
      | RegenerateKey _ _ _ \<Rightarrow> ''RegenerateKey''
      | Update _ _ _ \<Rightarrow> ''Update''
      | UsageList \<Rightarrow> ''List''
      | AccountsDelete _ _ \<Rightarrow> ''Delete''
      | GroupsDelete _ \<Rightarrow> ''Delete'')"

definition diagnostic :: "call \<Rightarrow> error \<Rightarrow> string" where
  "diagnostic k e = call_name k @ '' failed: '' @ e @ ''\<newline>''"

fun obeys_policy :: "'t event list \<Rightarrow> bool" where
  "obeys_policy [] = True"
| "obeys_policy (Called c k b (Some e) # es) = (es = [Printed (diagnostic k e)])"
| "obeys_policy (_ # es) = obeys_policy es"

definition hoare ::
  "(('t, 's) world \<Rightarrow> bool) \<Rightarrow> ('a, 't, 's) prog \<Rightarrow> ('a \<Rightarrow> ('t, 's) world \<Rightarrow> bool)
    \<Rightarrow> (stop \<Rightarrow> ('t, 's) world \<Rightarrow> bool) \<Rightarrow> bool" where
  "hoare P m Q E = (\<forall>w. P w \<longrightarrow> (case m w of (Inl st, w') \<Rightarrow> E st w' | (Inr a, w') \<Rightarrow> Q a w'))"

definition quiet :: "('a, 't, 's) prog \<Rightarrow> bool" where
  "quiet m = (\<forall>w. (\<exists>ps. snd (m w) = w\<lparr>trace := trace w @ map Printed ps\<rparr>) \<and> (\<forall>c. fst (m w) \<noteq> Inl (Exit c)))"

definition script :: "'t globals \<Rightarrow> string option \<Rightarrow> ('t client \<times> call) list" where
  "script g keyName =
     [(resourcesClient g, Register provider),
      (storageClient g, CheckNameAvailability
         \<lparr>check_Name = Some accountName, check_Type = Some ''Microsoft.Storage/storageAccounts''\<rparr>),
      (groupClient g, CreateOrUpdate groupName \<lparr>group_Location = Some location\<rparr>),
      (storageClient g, Create groupName accountName
         \<lparr>create_Sku = Some \<lparr>sku_Name = StandardLRS\<rparr>, create_Location = Some location,
          create_Properties = Some AccountPropertiesCreateParameters\<rparr>),
      (storageClient g, GetProperties groupName accountName),
      (storageClient g, ListByResourceGroup groupName),
      (storageClient g, AccountsList),
      (storageClient g, ListKeys groupName accountName),
      (storageClient g, RegenerateKey groupName accountName \<lparr>regen_KeyName = keyName\<rparr>),
      (storageClient g, Update groupName accountName
         \<lparr>Tags = Some [''who rocks'' \<mapsto> Some ''golang'', ''where'' \<mapsto> Some ''on azure'']\<rparr>),
      (usageClient g, UsageList),
      (storageClient g, AccountsDelete groupName accountName),
      (groupClient g, GroupsDelete groupName)]"

definition listed :: "'t event list \<Rightarrow> AccountListKeysResult list" where
  "listed tr =
     concat (map (\<lambda>ev. case ev of
                          Called c (ListKeys g a) (KeysBody ks) None \<Rightarrow> [ks]
                        | _ \<Rightarrow> []) tr)"

definition first_key_name :: "AccountListKeysResult \<Rightarrow> string option" where
  "first_key_name keys = (case Keys keys of Some (k # _) \<Rightarrow> KeyName k | _ \<Rightarrow> None)"

definition regen_arg :: "'t event list \<Rightarrow> string option" where
  "regen_arg tr = (case listed tr of [] \<Rightarrow> None | keys # _ \<Rightarrow> first_key_name keys)"

definition denied :: "'t event list \<Rightarrow> CheckNameAvailabilityResult list" where
  "denied tr =
     concat (map (\<lambda>ev. case ev of
                          Called c (CheckNameAvailability p) (CheckBody r) None \<Rightarrow>
                            (if NameAvailable r = Some False then [r] else [])
                        | _ \<Rightarrow> []) tr)"

definition denial_text :: "CheckNameAvailabilityResult \<Rightarrow> string \<Rightarrow> string" where
  "denial_text r message =
     tab @ quoted accountName @ '' is not available :(\<newline>'' @
     tab @ ''Reason: '' @ Reason r @ ''\<newline>'' @
     tab @ ''Message: '' @ message @ ''\<newline>''"

definition behaves ::
  "('a, 't, 's) prog \<Rightarrow> string \<Rightarrow> ('t globals \<Rightarrow> 't client) \<Rightarrow> call \<Rightarrow> ('a \<Rightarrow> body \<Rightarrow> bool) \<Rightarrow> bool" where
  "behaves m banner sel k V =
     (\<forall>w. \<exists>b err s' ps.
        snd (m w) = w\<lparr>trace := trace w @ Printed banner # Called (sel (globals w)) k b err # map Printed ps,
                       remote := s'\<rparr> \<and>
        (case err of
           Some e \<Rightarrow> fst (m w) = Inl (Exit 1) \<and> ps = [diagnostic k e]
         | None \<Rightarrow> (\<forall>c. fst (m w) \<noteq> Inl (Exit c)) \<and> (\<forall>a. fst (m w) = Inr a \<longrightarrow> V a b)))"

definition quietv :: "('a \<Rightarrow> bool) \<Rightarrow> ('a, 't, 's) prog \<Rightarrow> bool" where
  "quietv V m = (quiet m \<and> (\<forall>w a. fst (m w) = Inr a \<longrightarrow> V a))"

definition before_scan :: "'t event list \<Rightarrow> 't event list" where
  "before_scan tr = takeWhile (\<lambda>ev. case ev of Scanned _ \<Rightarrow> False | _ \<Rightarrow> True) tr"

fun denial_ok :: "stop \<Rightarrow> 't event list \<Rightarrow> bool" where
  "denial_ok st [] = True"
| "denial_ok st (ev # es) =
     (case ev of
        Called c (CheckNameAvailability p) (CheckBody r) None \<Rightarrow>
          (if NameAvailable r = Some False then
             (case Message r of
                None \<Rightarrow> es = [] \<and> st = Panic
              | Some m \<Rightarrow>
                  es = [Printed (denial_text r m), Printed ''No resources were created.\<newline>'']
                  \<and> st = Exit 1)
           else denial_ok st es)
      | _ \<Rightarrow> denial_ok st es)"

definition at_step :: "nat \<Rightarrow> 't globals \<Rightarrow> string option \<Rightarrow> ('t, 's) world \<Rightarrow> bool" where
  "at_step i g x w \<longleftrightarrow>
     globals w = g \<and> \<not> failed (trace w) \<and> scans (trace w) = [] \<and> denied (trace w) = [] \<and>
     regen_arg (trace w) = x \<and> requests (trace w) = take i (script g x) \<and>
     (i \<le> 7 \<longrightarrow> listed (trace w) = [])"

definition scanned_at :: "nat \<Rightarrow> 't globals \<Rightarrow> string \<Rightarrow> ('t, 's) world \<Rightarrow> bool" where
  "scanned_at i g token w \<longleftrightarrow>
     globals w = g \<and> \<not> failed (trace w) \<and> scans (trace w) = [token] \<and> denied (trace w) = [] \<and>
     requests (trace w) = take i (script g (regen_arg (trace w))) \<and>
     requests (before_scan (trace w)) = take 11 (script g (regen_arg (trace w)))"

definition finished :: "'t globals \<Rightarrow> string \<Rightarrow> ('t, 's) world \<Rightarrow> bool" where
  "finished g token w = scanned_at (if token = ''y'' then 13 else 11) g token w"

definition stopped :: "'t globals \<Rightarrow> string \<Rightarrow> stop \<Rightarrow> ('t, 's) world \<Rightarrow> bool" where
  "stopped g token st w \<longleftrightarrow>
     globals w = g \<and> obeys_policy (trace w) \<and> (failed (trace w) \<longrightarrow> st = Exit 1) \<and>
     (st = Exit 1 \<or> st = Panic) \<and>
     prefix (requests (trace w)) (script g (regen_arg (trace w))) \<and>
     prefix (requests (before_scan (trace w))) (take 11 (script g (regen_arg (trace w)))) \<and>
     (if scans (trace w) = [] then length (requests (trace w)) \<le> 11
      else scans (trace w) = [''y''] \<and> token = ''y'' \<and> failed (trace w) \<and>
           12 \<le> length (requests (trace w))) \<and>
     denial_ok st (trace w) \<and>
     (denied (trace w) \<noteq> [] \<longrightarrow> length (requests (trace w)) = 2)"

definition check_params :: AccountCheckNameAvailabilityParameters where
  "check_params = \<lparr>check_Name = Some accountName, check_Type = Some ''Microsoft.Storage/storageAccounts''\<rparr>"

definition handle :: "string \<Rightarrow> 't \<Rightarrow> 't client" where
  "handle subscriptionID spToken = \<lparr>SubscriptionID = subscriptionID, Authorizer = TokenAuthorizer spToken\<rparr>"

definition made_clients :: "string \<Rightarrow> 't \<Rightarrow> 't globals" where
  "made_clients subscriptionID spToken =
     \<lparr>resourcesClient = handle subscriptionID spToken, storageClient = handle subscriptionID spToken,
      groupClient = handle subscriptionID spToken, usageClient = handle subscriptionID spToken\<rparr>"

definition missing_message :: "string \<Rightarrow> string" where
  "missing_message varName = ''Missing environment variable '' @ varName @ ''\<newline>''"

definition required_vars :: "string list" where
  "required_vars = [''AZURE_SUBSCRIPTION_ID'', ''AZURE_TENANT_ID'', ''AZURE_CLIENT_ID'', ''AZURE_CLIENT_SECRET'']"

definition is_delete :: "call \<Rightarrow> bool" where
  "is_delete k = (case k of AccountsDelete _ _ \<Rightarrow> True | GroupsDelete _ \<Rightarrow> True | _ \<Rightarrow> False)"

definition deletes :: "'t event list \<Rightarrow> call list" where
  "deletes tr = filter is_delete (map snd (requests tr))"

definition mock_keys :: "nat \<Rightarrow> AccountListKeysResult" where
  "mock_keys n = \<lparr>Keys = Some
     [\<lparr>KeyName = Some ''key1'', key_Value = Some (if n = 0 then ''AAAAA11111'' else ''BBBBB22222''),
       Permissions = ''Full''\<rparr>,
      \<lparr>KeyName = Some ''key2'', key_Value = Some ''CCCCC33333'', Permissions = ''Full''\<rparr>]\<rparr>"

definition mock_account :: Account where
  "mock_account =
     \<lparr>account_Name = Some accountName, account_ID = Some ''/subscriptions/sub/x'',
      account_Sku = Some \<lparr>sku_Name = StandardLRS\<rparr>,
      account_Type = Some ''Microsoft.Storage/storageAccounts'',
      account_Location = Some location,
      account_Properties = Some \<lparr>ProvisioningState = ''Succeeded''\<rparr>\<rparr>"

definition mock_usage :: UsageListResult where
  "mock_usage = \<lparr>usage_Value = Some
     [\<lparr>usage_Name = Some \<lparr>name_Value = Some ''StorageAccounts''\<rparr>,
       CurrentValue = Some 3, Limit = Some 250\<rparr>]\<rparr>"

definition mock_available :: CheckNameAvailabilityResult where
  "mock_available = \<lparr>NameAvailable = Some True, Reason = [], Message = None\<rparr>"

definition mock :: "(string, string, nat) sdk" where
  "mock = \<lparr>
     OAuthConfigForTenant = (\<lambda>tenantID. (Some tenantID, None)),
     ResourceManagerEndpoint = ''https://management.azure.com/'',
     NewServicePrincipalToken = (\<lambda>config clientID secret resource. (clientID, None)),
     providers_Register = (\<lambda>c p s. (None, s)),
     accounts_CheckNameAvailability = (\<lambda>c a s. ((mock_available, None), s)),
     groups_CreateOrUpdate = (\<lambda>c g r s. (None, s)),
     accounts_Create = (\<lambda>c g a p s. (None, s)),
     accounts_GetProperties = (\<lambda>c g a s. ((mock_account, None), s)),
     accounts_ListByResourceGroup = (\<lambda>c g s. ((\<lparr>accounts_Value = Some [mock_account]\<rparr>, None), s)),
     accounts_List = (\<lambda>c s. ((\<lparr>accounts_Value = Some [mock_account]\<rparr>, None), s)),
     accounts_ListKeys = (\<lambda>c g a s. ((mock_keys s, None), s)),
     accounts_RegenerateKey = (\<lambda>c g a p s. ((mock_keys (Suc s), None), Suc s)),
     accounts_Update = (\<lambda>c g a p s. (None, s)),
     usage_List = (\<lambda>c s. ((mock_usage, None), s)),
     accounts_Delete = (\<lambda>c g a s. (None, s)),
     groups_Delete = (\<lambda>c g s. (None, s))\<rparr>"

definition mock_env :: "string \<rightharpoonup> string" where
  "mock_env = [''AZURE_SUBSCRIPTION_ID'' \<mapsto> ''sub'', ''AZURE_TENANT_ID'' \<mapsto> ''tenant'',
               ''AZURE_CLIENT_ID'' \<mapsto> ''cid'', ''AZURE_CLIENT_SECRET'' \<mapsto> ''secret'']"

definition mock_handle :: "string client" where
  "mock_handle = handle ''sub'' ''cid''"

definition mock_transcript :: "string event list" where
  "mock_transcript =
     [Printed ''Register resource provider...\<newline>'',
      Called mock_handle (Register provider) NoBody None,
      Printed ''Check account name availability...\<newline>'',
      Called mock_handle (CheckNameAvailability check_params) (CheckBody mock_available) None,
      Printed (tab @ quoted accountName @ '' is available!\<newline>''),
      Printed ''Create resource group...\<newline>'',
      Called mock_handle (CreateOrUpdate groupName \<lparr>group_Location = Some location\<rparr>) NoBody None,
      Printed ''Create storage account...\<newline>'',
      Called mock_handle
        (Create groupName accountName
           \<lparr>create_Sku = Some \<lparr>sku_Name = StandardLRS\<rparr>, create_Location = Some location,
            create_Properties = Some AccountPropertiesCreateParameters\<rparr>) NoBody None,
      Printed ''Get storage account properties...\<newline>'',
      Called mock_handle (GetProperties groupName accountName) (AccountBody mock_account) None,
      Printed (quoted accountName @ '' storage account properties\<newline>''),
      Printed (tab @ ''                ID: /subscriptions/sub/x\<newline>''),
      Printed (tab @ ''          Sku Name: Standard_LRS\<newline>''),
      Printed (tab @ ''              Type: Microsoft.Storage/storageAccounts\<newline>''),
      Printed (tab @ ''          Location: westus\<newline>''),
      Printed (tab @ ''Provisioning State: Succeeded\<newline>''),
      Printed (''List all storage accounts in '' @ quoted groupName @ '' resource group\<newline>''),
      Called mock_handle (ListByResourceGroup groupName)
        (AccountsBody \<lparr>accounts_Value = Some [mock_account]\<rparr>) None,
      Printed (tab @ ''golangrocksonazure\<newline>''),
      Printed ''List all storage accounts under the subscription\<newline>'',
      Called mock_handle AccountsList (AccountsBody \<lparr>accounts_Value = Some [mock_account]\<rparr>) None,
      Printed (tab @ ''golangrocksonazure\<newline>''),
      Printed ''Get storage account keys...\<newline>'',
      Called mock_handle (ListKeys groupName accountName) (KeysBody (mock_keys 0)) None,
      Printed (quoted accountName @ '' storage account keys\<newline>''),
      Printed (tab @ ''Key name: key1\<newline>'' @ tab @ ''Value: AAAAA...\<newline>'' @
               tab @ ''Permissions: Full\<newline>''),
      Printed (tab @ ''----------------\<newline>''),
      Printed (tab @ ''Key name: key2\<newline>'' @ tab @ ''Value: CCCCC...\<newline>'' @
               tab @ ''Permissions: Full\<newline>''),
      Printed (tab @ ''----------------\<newline>''),
      Printed ''Regenerate account key...\<newline>'',
      Called mock_handle (RegenerateKey groupName accountName \<lparr>regen_KeyName = Some ''key1''\<rparr>)
        (KeysBody (mock_keys 1)) None,
      Printed ''New key\<newline>'',
      Printed (tab @ ''Key name: key1\<newline>'' @ tab @ ''Value: BBBBB...\<newline>'' @
               tab @ ''Permissions: Full\<newline>''),
      Printed ''Update storage account...\<newline>'',
      Called mock_handle
        (Update groupName accountName
           \<lparr>Tags = Some [''who rocks'' \<mapsto> Some ''golang'', ''where'' \<mapsto> Some ''on azure'']\<rparr>)
        NoBody None,
      Printed ''List usage for storage accounts in subscription...\<newline>'',
      Called mock_handle UsageList (UsageBody mock_usage) None,
      Printed (tab @ ''StorageAccounts: 3 / 250\<newline>''),
      Printed (''Press enter to delete the resource group '' @ quoted groupName @ ''... (y/n)'')]"

definition mock_deletion :: "string event list" where
  "mock_deletion =
     [Printed ''Delete storage account...\<newline>'',
      Called mock_handle (AccountsDelete groupName accountName) NoBody None,
      Printed ''Delete resource group...\<newline>'',
      Called mock_handle (GroupsDelete groupName) NoBody None]"

definition mock_quota :: "(string, string, nat) sdk" where
  "mock_quota = mock\<lparr>accounts_Create := (\<lambda>c g a p s. (Some ''quota exceeded'', s))\<rparr>"

definition deletion :: "call list" where
  "deletion = [AccountsDelete groupName accountName, GroupsDelete groupName]"

definition first_missing :: "(string \<rightharpoonup> string) \<Rightarrow> string option" where
  "first_missing env = find (\<lambda>v. os_Getenv env v = []) required_vars"

definition stdout :: "'t event list \<Rightarrow> string" where
  "stdout tr = concat (map (\<lambda>ev. case ev of Printed s \<Rightarrow> s | _ \<Rightarrow> []) tr)"

definition taken :: CheckNameAvailabilityResult where
  "taken = \<lparr>NameAvailable = Some False, Reason = ''AlreadyExists'',
            Message = Some ''The storage account named golangrocksonazure is already taken.''\<rparr>"

definition mock_taken :: "(string, string, nat) sdk" where
  "mock_taken = mock\<lparr>accounts_CheckNameAvailability := (\<lambda>c a s. ((taken, None), s))\<rparr>"

definition mock_taken_silent :: "(string, string, nat) sdk" where
  "mock_taken_silent =
     mock\<lparr>accounts_CheckNameAvailability := (\<lambda>c a s. ((taken\<lparr>Message := None\<rparr>, None), s))\<rparr>"

definition mock_bad_tenant :: "(string, string, nat) sdk" where
  "mock_bad_tenant = mock\<lparr>OAuthConfigForTenant := (\<lambda>tenantID. (None, Some ''invalid URL escape''))\<rparr>"

definition printable :: "AccountKey \<Rightarrow> bool" where
  "printable k = (case (KeyName k, key_Value k) of (Some n, Some v) \<Rightarrow> 5 \<le> length v | _ \<Rightarrow> False)"

definition shown_value :: "AccountKey \<Rightarrow> string" where
  "shown_value k = (case key_Value k of Some v \<Rightarrow> take 5 v @ ''...'' | None \<Rightarrow> [])"

definition key_report :: "AccountKey \<Rightarrow> string" where
  "key_report k =
     tab @ ''Key name: '' @ (case KeyName k of Some n \<Rightarrow> n | None \<Rightarrow> []) @ ''\<newline>'' @
     tab @ ''Value: '' @ shown_value k @ ''\<newline>'' @
     tab @ ''Permissions: '' @ Permissions k @ ''\<newline>''"

definition separator :: string where
  "separator = tab @ ''----------------\<newline>''"

definition key_lines :: "AccountKey list \<Rightarrow> 't event list" where
  "key_lines ks = concat (map (\<lambda>k. [Printed (key_report k), Printed separator]) ks)"

definition fixed_tags :: "string \<rightharpoonup> string option" where
  "fixed_tags = [''who rocks'' \<mapsto> Some ''golang'', ''where'' \<mapsto> Some ''on azure'']"

definition mock_world :: "(string, nat) world" where
  "mock_world = (world0 0)\<lparr>globals := made_clients ''sub'' ''cid''\<rparr>"

definition good_key :: "string \<Rightarrow> string \<Rightarrow> AccountKey" where
  "good_key name val = \<lparr>KeyName = Some name, key_Value = Some val, Permissions = ''Full''\<rparr>"

definition mock_nameless :: "(string, string, nat) sdk" where
  "mock_nameless = mock\<lparr>accounts_ListKeys := (\<lambda>c g a s.
     ((\<lparr>Keys = Some [\<lparr>KeyName = None, key_Value = Some ''AAAAA11111'', Permissions = ''Full''\<rparr>]\<rparr>, None), s))\<rparr>"

definition mock_no_keys :: "(string, string, nat) sdk" where
  "mock_no_keys = mock\<lparr>accounts_ListKeys := (\<lambda>c g a s. ((\<lparr>Keys = Some []\<rparr>, None), s))\<rparr>"

definition short_keys :: AccountListKeysResult where
  "short_keys = \<lparr>Keys = Some [good_key ''key1'' ''AAAAA11111'', good_key ''key2'' ''abc'',
                              good_key ''key3'' ''CCCCC33333'']\<rparr>"

definition mock_short_key :: "(string, string, nat) sdk" where
  "mock_short_key = mock\<lparr>accounts_ListKeys := (\<lambda>c g a s. ((short_keys, None), s))\<rparr>"

definition same_prefix_keys :: AccountListKeysResult where
  "same_prefix_keys = \<lparr>Keys = Some [good_key ''key1'' ''AAAAA99999'', good_key ''key2'' ''CCCCC33333'']\<rparr>"

definition mock_same_prefix :: "(string, string, nat) sdk" where
  "mock_same_prefix = mock\<lparr>accounts_RegenerateKey := (\<lambda>c g a p s. ((same_prefix_keys, None), Suc s))\<rparr>"

text \<open>
  A response is accepted by its step when the step can print it and go on: every pointer
  that the step dereferences is non-nil, the name is available, each listed key has a
  value of at least five bytes, the key list that the regeneration step indexes is not
  empty. Calls whose result \<open>example.go\<close> discards have nothing to accept.
\<close>

definition named :: "Account \<Rightarrow> bool" where
  "named acc = (account_Name acc \<noteq> None)"

definition reportable :: "Usage \<Rightarrow> bool" where
  "reportable u =
     (case usage_Name u of
        None \<Rightarrow> False
      | Some n \<Rightarrow> name_Value n \<noteq> None \<and> CurrentValue u \<noteq> None \<and> Limit u \<noteq> None)"

fun accepted :: "call \<Rightarrow> body \<Rightarrow> bool" where
  "accepted (CheckNameAvailability p) (CheckBody r) = (NameAvailable r = Some True)"
| "accepted (GetProperties g a) (AccountBody acc) =
     (account_Name acc \<noteq> None \<and> account_ID acc \<noteq> None \<and> account_Sku acc \<noteq> None \<and>
      account_Type acc \<noteq> None \<and> account_Location acc \<noteq> None \<and> account_Properties acc \<noteq> None)"
| "accepted (ListByResourceGroup g) (AccountsBody l) =
     (case accounts_Value l of None \<Rightarrow> False | Some accs \<Rightarrow> list_all named accs)"
| "accepted AccountsList (AccountsBody l) =
     (case accounts_Value l of None \<Rightarrow> False | Some accs \<Rightarrow> list_all named accs)"
| "accepted (ListKeys g a) (KeysBody keys) =
     (case Keys keys of Some (k # rest) \<Rightarrow> list_all printable (k # rest) | _ \<Rightarrow> False)"
| "accepted (RegenerateKey g a p) (KeysBody keys) =
     (case Keys keys of Some (k # rest) \<Rightarrow> printable k | _ \<Rightarrow> False)"
| "accepted UsageList (UsageBody u) =
     (case usage_Value u of None \<Rightarrow> False | Some us \<Rightarrow> list_all reportable us)"
| "accepted (Register p) NoBody = True"
| "accepted (CreateOrUpdate g r) NoBody = True"
| "accepted (Create g a p) NoBody = True"
| "accepted (Update g a p) NoBody = True"
| "accepted (AccountsDelete g a) NoBody = True"
| "accepted (GroupsDelete g) NoBody = True"
| "accepted k b = False"

fun all_accepted :: "'t event list \<Rightarrow> bool" where
  "all_accepted [] = True"
| "all_accepted (Called c k b e # es) = (e = None \<and> accepted k b \<and> all_accepted es)"
| "all_accepted (_ # es) = all_accepted es"

section \<open>Lemmas: traces\<close>

lemma isSpace_newline [simp]: "isSpace 0x0A"
  by (simp add: isSpace_def)

lemma SkipSpace_eq:
  "SkipSpace stdin =
     (case dropWhile (\<lambda>r. isSpace r \<and> r \<noteq> 0x0A) stdin of
        [] \<Rightarrow> Some []
      | r # rs \<Rightarrow> if r = 0x0A then None else Some (r # rs))"
  by (induction stdin) auto

lemma char_of_eq_iff: "char_of (n :: nat) = c \<longleftrightarrow> n mod 256 = of_char c"
proof
  assume "char_of n = c"
  then have "of_char (char_of n :: char) = (of_char c :: nat)" by simp
  then show "n mod 256 = of_char c" by (simp add: of_char_of)
next
  assume "n mod 256 = of_char c"
  then have "char_of (n mod 256) = (char_of (of_char c :: nat) :: char)" by simp
  then show "char_of n = c" by simp
qed

lemma EncodeRune_nonempty: "EncodeRune r \<noteq> []"
  by (simp add: EncodeRune_def)

lemma EncodeRune_y: "EncodeRune r = ''y'' \<longleftrightarrow> r = 0x79"
proof
  assume a: "EncodeRune r = ''y''"
  then have le: "r \<le> 0x7F" and c: "char_of r = CHR ''y''"
    by (auto simp: EncodeRune_def split: if_splits)
  from c have "r mod 256 = 0x79" by (simp add: char_of_eq_iff)
  with le show "r = 0x79" by simp
next
  assume "r = 0x79"
  then show "EncodeRune r = ''y''" by (simp add: EncodeRune_def char_of_eq_iff)
qed

lemma encoded_y: "concat (map EncodeRune rs) = ''y'' \<longleftrightarrow> rs = [0x79]"
proof
  assume a: "concat (map EncodeRune rs) = ''y''"
  show "rs = [0x79]"
  proof (cases rs)
    case Nil
    with a show ?thesis by simp
  next
    case (Cons r rest)
    with a have e: "EncodeRune r @ concat (map EncodeRune rest) = ''y''" by simp
    obtain c cs where rc: "EncodeRune r = c # cs"
      using EncodeRune_nonempty[of r] by (cases "EncodeRune r") auto
    with e have cs: "cs = []" and tl: "concat (map EncodeRune rest) = []" and "c = CHR ''y''" by simp_all
    from tl have "rest = []"
      using EncodeRune_nonempty by (cases rest) auto
    moreover from rc cs \<open>c = CHR ''y''\<close> have "r = 0x79" by (simp add: EncodeRune_y[symmetric])
    ultimately show ?thesis using Cons by simp
  qed
next
  assume "rs = [0x79]"
  then show "concat (map EncodeRune rs) = ''y''" by (simp add: EncodeRune_y)
qed

lemma answer_first_word: "answer stdin = concat (map EncodeRune (first_word stdin))"
proof (cases "dropWhile (\<lambda>r. isSpace r \<and> r \<noteq> 0x0A) stdin")
  case Nil
  show ?thesis
    unfolding answer_def convertString_def SkipSpace_eq first_word_def Nil by simp
next
  case (Cons r rs)
  show ?thesis
    unfolding answer_def convertString_def SkipSpace_eq first_word_def Cons by simp
qed

lemma answer_y: "answer stdin = ''y'' \<longleftrightarrow> first_word stdin = [0x79]"
  by (simp add: answer_first_word encoded_y)

lemma first_word_y:
  "first_word stdin = [0x79] \<longleftrightarrow>
     (\<exists>sp rest. stdin = sp @ 0x79 # rest \<and> (\<forall>r \<in> set sp. isSpace r \<and> r \<noteq> 0x0A) \<and>
        (rest = [] \<or> isSpace (hd rest)))"
proof
  assume a: "first_word stdin = [0x79]"
  let ?P = "\<lambda>r. isSpace r \<and> r \<noteq> 0x0A"
  let ?sp = "takeWhile ?P stdin" and ?d = "dropWhile ?P stdin"
  from a have t: "takeWhile (\<lambda>r. \<not> isSpace r) ?d = [0x79]" by (simp add: first_word_def)
  then obtain rest where d: "?d = 0x79 # rest"
    by (cases ?d) (auto split: if_splits)
  with t have "takeWhile (\<lambda>r. \<not> isSpace r) rest = []" by (simp split: if_splits)
  then have r: "rest = [] \<or> isSpace (hd rest)" by (cases rest) (auto split: if_splits)
  have "stdin = ?sp @ ?d" by simp
  with d have "stdin = ?sp @ 0x79 # rest" by simp
  moreover have "\<forall>r \<in> set ?sp. ?P r" by (auto dest: set_takeWhileD)
  ultimately show "\<exists>sp rest. stdin = sp @ 0x79 # rest \<and> (\<forall>r \<in> set sp. isSpace r \<and> r \<noteq> 0x0A) \<and>
        (rest = [] \<or> isSpace (hd rest))"
    using r by blast
next
  assume "\<exists>sp rest. stdin = sp @ 0x79 # rest \<and> (\<forall>r \<in> set sp. isSpace r \<and> r \<noteq> 0x0A) \<and>
        (rest = [] \<or> isSpace (hd rest))"
  then obtain sp rest where s: "stdin = sp @ 0x79 # rest"
    and sp: "\<forall>r \<in> set sp. isSpace r \<and> r \<noteq> 0x0A" and r: "rest = [] \<or> isSpace (hd rest)" by blast
  have ny: "\<not> isSpace 0x79" by (simp add: isSpace_def)
  from sp ny have "dropWhile (\<lambda>r. isSpace r \<and> r \<noteq> 0x0A) stdin = 0x79 # rest"
    unfolding s by simp
  moreover from r have "takeWhile (\<lambda>r. \<not> isSpace r) rest = []" by (cases rest) auto
  ultimately show "first_word stdin = [0x79]" using ny by (simp add: first_word_def)
qed

lemma answer_examples [simp]:
  "answer (runes ''y\<newline>'') = ''y''"
  "answer (runes ''y'') = ''y''"
  "answer (runes ''n\<newline>'') = ''n''"
  "answer (runes ''\<newline>'') = []"
  "answer (runes []) = []"
  "answer (runes ''Y\<newline>'') = ''Y''"
  "answer (runes ''yes\<newline>'') = ''yes''"
  "answer (runes ''y no\<newline>'') = ''y''"
  "answer (runes '' y\<newline>'') = ''y''"
  by (simp_all add: answer_def convertString_def runes_def isSpace_def EncodeRune_def char_of_eq_iff)

lemma requests_append [simp]: "requests (a @ b) = requests a @ requests b"
  by (induction a rule: requests.induct) auto

lemma failed_append [simp]: "failed (a @ b) = (failed a \<or> failed b)"
  by (induction a rule: failed.induct) auto

lemma scans_append [simp]: "scans (a @ b) = scans a @ scans b"
  by (induction a rule: scans.induct) auto

lemma obeys_policy_append [simp]: "\<not> failed a \<Longrightarrow> obeys_policy (a @ b) = obeys_policy b"
  by (induction a rule: failed.induct) auto

lemma requests_prints [simp]: "requests (map Printed ps) = []"
  by (induction ps) auto

lemma failed_prints [simp]: "\<not> failed (map Printed ps)"
  by (induction ps) auto

lemma scans_prints [simp]: "scans (map Printed ps) = []"
  by (induction ps) auto

lemma obeys_policy_prints [simp]: "obeys_policy (map Printed ps)"
  by (induction ps) auto

lemma hoare_bindp:
  assumes "hoare P m R E" and "\<And>a. hoare (R a) (f a) Q E"
  shows "hoare P (bindp m f) Q E"
  using assms unfolding hoare_def bindp_def
  by (fastforce split: prod.splits sum.splits)

lemma hoare_thenp:
  assumes "hoare P m (\<lambda>_. R) E" and "hoare R n Q E"
  shows "hoare P (thenp m n) Q E"
  unfolding thenp_def using assms by (auto intro: hoare_bindp)

lemma quiet_ret: "quiet (ret a)"
  by (auto simp: quiet_def ret_def intro: exI[of _ "[]"])

lemma quiet_panic: "quiet panic"
  by (auto simp: quiet_def panic_def intro: exI[of _ "[]"])

lemma quiet_deref: "quiet (deref p)"
  by (cases p) (auto simp: deref_def quiet_ret quiet_panic)

lemma quiet_index0: "quiet (index0 xs)"
  by (cases xs) (auto simp: index0_def quiet_ret quiet_panic)

lemma quiet_slice5: "quiet (slice5 v)"
  by (auto simp: slice5_def quiet_ret quiet_panic)

lemma quiet_Print: "quiet (fmt_Print s)"
  by (auto simp: quiet_def fmt_Print_def intro: exI[of _ "[s]"])

lemma quiet_Println: "quiet (fmt_Println s)"
  by (simp add: fmt_Println_def quiet_Print)

lemma quiet_bindp:
  assumes "quiet m" and "\<And>a. quiet (f a)"
  shows "quiet (bindp m f)"
  unfolding quiet_def
proof (intro allI)
  fix w
  from assms(1) obtain ps where m: "snd (m w) = w\<lparr>trace := trace w @ map Printed ps\<rparr>"
    and nx: "\<forall>c. fst (m w) \<noteq> Inl (Exit c)" unfolding quiet_def by blast
  show "(\<exists>ps. snd (bindp m f w) = w\<lparr>trace := trace w @ map Printed ps\<rparr>) \<and> (\<forall>c. fst (bindp m f w) \<noteq> Inl (Exit c))"
  proof (cases "fst (m w)")
    case (Inl st)
    then have "bindp m f w = (Inl st, snd (m w))"
      by (cases "m w") (simp add: bindp_def)
    with m nx Inl show ?thesis by auto
  next
    case (Inr a)
    then have b: "bindp m f w = f a (snd (m w))"
      by (cases "m w") (simp add: bindp_def)
    from assms(2)[of a] obtain qs where
      "snd (f a (snd (m w))) = (snd (m w))\<lparr>trace := trace (snd (m w)) @ map Printed qs\<rparr>"
      and "\<forall>c. fst (f a (snd (m w))) \<noteq> Inl (Exit c)" unfolding quiet_def by blast
    with m b have "snd (bindp m f w) = w\<lparr>trace := trace w @ map Printed (ps @ qs)\<rparr>"
      and "\<forall>c. fst (bindp m f w) \<noteq> Inl (Exit c)" by auto
    then show ?thesis by blast
  qed
qed

lemma quiet_thenp: "quiet m \<Longrightarrow> quiet n \<Longrightarrow> quiet (thenp m n)"
  by (simp add: thenp_def quiet_bindp)

lemmas quiet_intros = quiet_ret quiet_panic quiet_deref quiet_index0 quiet_slice5 quiet_Print
  quiet_Println quiet_bindp quiet_thenp

lemma quiet_printAccounts: "quiet (printAccounts as)"
  by (induction as) (auto intro!: quiet_intros)

lemma quiet_printKeys: "quiet (printKeys ks)"
  by (induction ks) (auto intro!: quiet_intros)

lemma quiet_printUsages: "quiet (printUsages us)"
  by (induction us) (auto intro!: quiet_intros)

lemma quiet_printAccountList: "quiet (printAccountList l)"
  by (auto simp: printAccountList_def intro!: quiet_intros quiet_printAccounts)

lemma listed_append [simp]: "listed (a @ b) = listed a @ listed b"
  by (simp add: listed_def)

lemma denied_append [simp]: "denied (a @ b) = denied a @ denied b"
  by (simp add: denied_def)

lemma listed_Nil [simp]: "listed [] = []" by (simp add: listed_def)

lemma denied_Nil [simp]: "denied [] = []" by (simp add: denied_def)

lemma listed_Printed [simp]: "listed (Printed s # es) = listed es" by (simp add: listed_def)

lemma denied_Printed [simp]: "denied (Printed s # es) = denied es" by (simp add: denied_def)

lemma listed_Scanned [simp]: "listed (Scanned s # es) = listed es" by (simp add: listed_def)

lemma denied_Scanned [simp]: "denied (Scanned s # es) = denied es" by (simp add: denied_def)

lemma listed_prints [simp]: "listed (map Printed ps) = []" by (induction ps) auto

lemma denied_prints [simp]: "denied (map Printed ps) = []" by (induction ps) auto

lemma listed_Called:
  "listed (Called c k b e # es) =
     (case (k, b, e) of (ListKeys g a, KeysBody ks, None) \<Rightarrow> [ks] | _ \<Rightarrow> []) @ listed es"
  by (simp add: listed_def split: call.splits body.splits option.splits)

lemma denied_Called:
  "denied (Called c k b e # es) =
     (case (k, b, e) of
        (CheckNameAvailability p, CheckBody r, None) \<Rightarrow> (if NameAvailable r = Some False then [r] else [])
      | _ \<Rightarrow> []) @ denied es"
  by (simp add: denied_def split: call.splits body.splits option.splits)

lemma behaves_call:
  fixes tail :: "'r \<Rightarrow> ('a, 't, 's) prog"
  assumes tail: "\<And>r. quietv (\<lambda>a. V a (wrap r)) (tail r)"
    and msg: "message = call_name k @ '' failed''"
    and ban: "banner' = banner"
  shows "behaves
     (thenp (fmt_Print banner')
       (bindp (global sel) (\<lambda>c.
        bindp (remote_call c k wrap (op c)) (\<lambda>(r, err).
        thenp (onErrorFail err message) (tail r)))))
     banner sel k V"
  unfolding behaves_def
proof (intro allI)
  fix w :: "('t, 's) world"
  let ?c = "sel (globals w)"
  obtain r err s' where op: "op ?c (remote w) = ((r, err), s')"
    by (metis prod.exhaust)
  note ban [simp]
  let ?w1 = "w\<lparr>trace := trace w @ [Printed banner, Called ?c k (wrap r) err], remote := s'\<rparr>"
  let ?m = "thenp (fmt_Print banner')
       (bindp (global sel) (\<lambda>c.
        bindp (remote_call c k wrap (op c)) (\<lambda>(r, err).
        thenp (onErrorFail err message) (tail r))))"
  have run: "?m w = thenp (onErrorFail err message) (tail r) ?w1"
    using op by (simp add: thenp_def bindp_def fmt_Print_def global_def remote_call_def)
  show "\<exists>b err s' ps.
          snd (?m w) = w\<lparr>trace := trace w @ Printed banner # Called ?c k b err # map Printed ps, remote := s'\<rparr> \<and>
          (case err of
             Some e \<Rightarrow> fst (?m w) = Inl (Exit 1) \<and> ps = [diagnostic k e]
           | None \<Rightarrow> (\<forall>c. fst (?m w) \<noteq> Inl (Exit c)) \<and> (\<forall>a. fst (?m w) = Inr a \<longrightarrow> V a b))"
  proof (cases err)
    case None
    from tail[of r] obtain ps where
      t: "snd (tail r ?w1) = ?w1\<lparr>trace := trace ?w1 @ map Printed ps\<rparr>"
      and nx: "\<forall>c. fst (tail r ?w1) \<noteq> Inl (Exit c)"
      and v: "\<forall>a. fst (tail r ?w1) = Inr a \<longrightarrow> V a (wrap r)"
      unfolding quietv_def quiet_def by blast
    have "?m w = tail r ?w1"
      using run None by (simp add: onErrorFail_def thenp_def bindp_def ret_def)
    with t nx v None show ?thesis
      by (intro exI[of _ "wrap r"] exI[of _ err] exI[of _ s'] exI[of _ ps]) simp
  next
    case (Some e)
    have "?m w = (Inl (Exit 1), ?w1\<lparr>trace := trace ?w1 @ [Printed (message @ '': '' @ e @ ''\<newline>'')]\<rparr>)"
      using run Some by (simp add: onErrorFail_def thenp_def bindp_def fmt_Print_def os_Exit_def)
    with Some msg show ?thesis
      by (intro exI[of _ "wrap r"] exI[of _ err] exI[of _ s'] exI[of _ "[diagnostic k e]"])
         (simp add: diagnostic_def)
  qed
qed

lemma quietv_trivial: "quiet m \<Longrightarrow> quietv (\<lambda>_. True) m"
  by (simp add: quietv_def)

lemma quietv_ret: "V a \<Longrightarrow> quietv V (ret a)"
  by (simp add: quietv_def quiet_ret) (simp add: ret_def)

lemma quietv_bindp:
  assumes "quiet m" and "\<And>a. quietv V (f a)"
  shows "quietv V (bindp m f)"
proof -
  have "quiet (bindp m f)"
    using assms by (auto simp: quietv_def intro: quiet_bindp)
  moreover have "V b" if "fst (bindp m f w) = Inr b" for w b
  proof (cases "m w")
    case (Pair out w')
    with that obtain a where "out = Inr a" and "fst (f a w') = Inr b"
      by (cases out) (auto simp: bindp_def)
    with assms(2)[of a] show ?thesis by (auto simp: quietv_def)
  qed
  ultimately show ?thesis by (auto simp: quietv_def)
qed

lemma quietv_thenp: "quiet m \<Longrightarrow> quietv V n \<Longrightarrow> quietv V (thenp m n)"
  by (simp add: thenp_def quietv_bindp)

lemma behaves_call_discard:
  fixes op :: "'t client \<Rightarrow> 's \<Rightarrow> error option \<times> 's"
  assumes msg: "message = call_name k @ '' failed''"
    and ban: "banner' = banner"
  shows "behaves
     (thenp (fmt_Print banner')
       (bindp (global sel) (\<lambda>c.
        bindp (remote_call_discard c k (op c)) (\<lambda>err. onErrorFail err message))))
     banner sel k (\<lambda>_ _. True)"
  unfolding behaves_def
proof (intro allI)
  fix w :: "('t, 's) world"
  let ?c = "sel (globals w)"
  obtain err s' where op: "op ?c (remote w) = (err, s')"
    by (metis prod.exhaust)
  note ban [simp]
  let ?w1 = "w\<lparr>trace := trace w @ [Printed banner, Called ?c k NoBody err], remote := s'\<rparr>"
  let ?m = "thenp (fmt_Print banner')
       (bindp (global sel) (\<lambda>c.
        bindp (remote_call_discard c k (op c)) (\<lambda>err. onErrorFail err message)))"
  have run: "?m w = onErrorFail err message ?w1"
    using op by (simp add: thenp_def bindp_def fmt_Print_def global_def remote_call_discard_def)
  show "\<exists>b err s' ps.
          snd (?m w) = w\<lparr>trace := trace w @ Printed banner # Called ?c k b err # map Printed ps, remote := s'\<rparr> \<and>
          (case err of
             Some e \<Rightarrow> fst (?m w) = Inl (Exit 1) \<and> ps = [diagnostic k e]
           | None \<Rightarrow> (\<forall>c. fst (?m w) \<noteq> Inl (Exit c)) \<and> (\<forall>a. fst (?m w) = Inr a \<longrightarrow> True))"
  proof (cases err)
    case None
    with run show ?thesis
      by (intro exI[of _ NoBody] exI[of _ err] exI[of _ s'] exI[of _ "[]"])
         (simp add: onErrorFail_def ret_def)
  next
    case (Some e)
    with run msg show ?thesis
      by (intro exI[of _ NoBody] exI[of _ err] exI[of _ s'] exI[of _ "[diagnostic k e]"])
         (simp add: onErrorFail_def thenp_def bindp_def fmt_Print_def os_Exit_def diagnostic_def)
  qed
qed

lemma registerResourceProvider_behaves:
  "behaves (registerResourceProvider sdk) ''Register resource provider...\<newline>''
     resourcesClient (Register provider) (\<lambda>_ _. True)"
  unfolding registerResourceProvider_def fmt_Println_def
  by (rule behaves_call_discard) (simp_all add: call_name_def)

lemma createResourceGroup_behaves:
  "behaves (createResourceGroup sdk) ''Create resource group...\<newline>''
     groupClient (CreateOrUpdate groupName \<lparr>group_Location = Some location\<rparr>) (\<lambda>_ _. True)"
  unfolding createResourceGroup_def fmt_Println_def Let_def
  by (rule behaves_call_discard) (simp_all add: call_name_def)

lemma createStorageAccount_behaves:
  "behaves (createStorageAccount sdk) ''Create storage account...\<newline>''
     storageClient
     (Create groupName accountName
        \<lparr>create_Sku = Some \<lparr>sku_Name = StandardLRS\<rparr>, create_Location = Some location,
         create_Properties = Some AccountPropertiesCreateParameters\<rparr>) (\<lambda>_ _. True)"
  unfolding createStorageAccount_def fmt_Println_def Let_def
  by (rule behaves_call_discard) (simp_all add: call_name_def)

lemma updateStorageAccount_behaves:
  "behaves (updateStorageAccount sdk) ''Update storage account...\<newline>''
     storageClient
     (Update groupName accountName
        \<lparr>Tags = Some [''who rocks'' \<mapsto> Some ''golang'', ''where'' \<mapsto> Some ''on azure'']\<rparr>)
     (\<lambda>_ _. True)"
  unfolding updateStorageAccount_def fmt_Println_def Let_def
  by (rule behaves_call_discard) (simp_all add: call_name_def)

lemma getStorageAccountProperties_behaves:
  "behaves (getStorageAccountProperties sdk) ''Get storage account properties...\<newline>''
     storageClient (GetProperties groupName accountName) (\<lambda>_ _. True)"
  unfolding getStorageAccountProperties_def fmt_Println_def
  by (rule behaves_call) (auto simp: call_name_def intro!: quietv_trivial quiet_intros)

lemma listStorageAccountsByResourceGroup_behaves:
  "behaves (listStorageAccountsByResourceGroup sdk)
     (''List all storage accounts in '' @ quoted groupName @ '' resource group\<newline>'')
     storageClient (ListByResourceGroup groupName) (\<lambda>_ _. True)"
  unfolding listStorageAccountsByResourceGroup_def
  by (rule behaves_call) (auto simp: call_name_def intro!: quietv_trivial quiet_printAccountList)

lemma listStorageAccountsBySubscription_behaves:
  "behaves (listStorageAccountsBySubscription sdk)
     ''List all storage accounts under the subscription\<newline>''
     storageClient AccountsList (\<lambda>_ _. True)"
  unfolding listStorageAccountsBySubscription_def fmt_Println_def
  by (rule behaves_call) (auto simp: call_name_def intro!: quietv_trivial quiet_printAccountList)

lemma listUsage_behaves:
  "behaves (listUsage sdk) ''List usage for storage accounts in subscription...\<newline>''
     usageClient UsageList (\<lambda>_ _. True)"
  unfolding listUsage_def fmt_Println_def
  by (rule behaves_call)
     (auto simp: call_name_def intro!: quietv_trivial quiet_intros quiet_printUsages)

lemma getStorageKeys_behaves:
  "behaves (getStorageKeys sdk) ''Get storage account keys...\<newline>''
     storageClient (ListKeys groupName accountName) (\<lambda>keys b. b = KeysBody keys)"
  unfolding getStorageKeys_def fmt_Println_def
  by (rule behaves_call)
     (auto simp: call_name_def intro!: quietv_thenp quietv_bindp quietv_ret quiet_intros quiet_printKeys)

lemma before_scan_append [simp]: "scans a = [] \<Longrightarrow> before_scan (a @ b) = a @ before_scan b"
  by (induction a rule: scans.induct) (auto simp: before_scan_def)

lemma before_scan_id: "scans a = [] \<Longrightarrow> before_scan a = a"
  using before_scan_append[of a "[]"] by (simp add: before_scan_def)

lemma before_scan_Scanned [simp]: "before_scan (Scanned t # es) = []"
  by (simp add: before_scan_def)

lemma denial_ok_quiet: "denied tr = [] \<Longrightarrow> denial_ok st tr"
  by (induction tr) (auto simp: denied_Called split: event.splits call.splits body.splits option.splits if_splits)

lemma script_length [simp]: "length (script g x) = 13"
  by (simp add: script_def)

lemma prefix_take_take: "m \<le> n \<Longrightarrow> prefix (take m xs) (take n xs)"
  by (metis min.absorb1 take_is_prefix take_take)

lemma obeys_policy_unfailed: "\<not> failed tr \<Longrightarrow> obeys_policy tr"
  by (induction tr rule: failed.induct) auto

lemma stoppedI:
  assumes "globals w = g" "obeys_policy (trace w)" "failed (trace w) \<longrightarrow> st = Exit 1"
    "st = Exit 1 \<or> st = Panic"
    "prefix (requests (trace w)) (script g (regen_arg (trace w)))"
    "prefix (requests (before_scan (trace w))) (take 11 (script g (regen_arg (trace w))))"
    "if scans (trace w) = [] then length (requests (trace w)) \<le> 11
      else scans (trace w) = [''y''] \<and> token = ''y'' \<and> failed (trace w) \<and>
           12 \<le> length (requests (trace w))"
    "denial_ok st (trace w)"
    "denied (trace w) \<noteq> [] \<longrightarrow> length (requests (trace w)) = 2"
  shows "stopped g token st w"
  using assms unfolding stopped_def by blast

lemma step_hoare:
  fixes m :: "('a, 't, 's) prog"
  assumes b: "behaves m banner sel k V"
    and nxt: "take (Suc i) (script g x) = take i (script g x) @ [(sel g, k)]"
    and j: "j = Suc i"
    and i: "i \<le> 10"
    and k1: "\<And>g a. k \<noteq> ListKeys g a" and k2: "\<And>p. k \<noteq> CheckNameAvailability p"
  shows "hoare (at_step i g x) m (\<lambda>_. at_step j g x) (stopped g token)"
  unfolding hoare_def j
proof (intro allI impI)
  fix w :: "('t, 's) world"
  assume pre: "at_step i g x w"
  from b obtain bd err s' ps where
    w': "snd (m w) = w\<lparr>trace := trace w @ Printed banner # Called (sel (globals w)) k bd err # map Printed ps,
                        remote := s'\<rparr>"
    and out: "case err of
           Some e \<Rightarrow> fst (m w) = Inl (Exit 1) \<and> ps = [diagnostic k e]
         | None \<Rightarrow> (\<forall>c. fst (m w) \<noteq> Inl (Exit c)) \<and> (\<forall>a. fst (m w) = Inr a \<longrightarrow> V a bd)"
    unfolding behaves_def by blast
  from pre have g: "globals w = g" by (simp add: at_step_def)
  define tr where "tr = trace w @ Printed banner # Called (sel g) k bd err # map Printed ps"
  define w2 where "w2 = snd (m w)"
  have tr: "trace w2 = tr" and g2: "globals w2 = g"
    using w' g by (simp_all add: w2_def tr_def)
  have lst: "listed tr = listed (trace w)"
    using k1 by (cases k) (auto simp: tr_def listed_Called split: body.splits option.splits)
  have den: "denied tr = []"
    using pre k2 by (cases k) (auto simp: tr_def at_step_def denied_Called split: body.splits option.splits)
  have ra: "regen_arg tr = x"
    using lst pre by (simp add: regen_arg_def at_step_def)
  have req: "requests tr = take (Suc i) (script g x)"
    using pre nxt by (simp add: at_step_def tr_def)
  have sc: "scans tr = []"
    using pre by (simp add: at_step_def tr_def)
  have len: "length (requests tr) \<le> 11"
    using i unfolding req by simp
  have pf: "prefix (requests tr) (script g (regen_arg tr))"
    unfolding req ra by (simp add: take_is_prefix)
  have pf11: "prefix (requests (before_scan tr)) (take 11 (script g (regen_arg tr)))"
    using i unfolding before_scan_id[OF sc] req ra by (simp add: prefix_take_take)
  have mw: "m w = (fst (m w), w2)" by (simp add: w2_def)
  show "case m w of (Inl st, w') \<Rightarrow> stopped g token st w' | (Inr a, w') \<Rightarrow> at_step (Suc i) g x w'"
  proof (cases err)
    case None
    with out have nx: "\<forall>c. fst (m w) \<noteq> Inl (Exit c)" by simp
    have nf: "\<not> failed tr" using pre None by (simp add: at_step_def tr_def)
    show ?thesis
    proof (cases "fst (m w)")
      case (Inl st)
      with nx have st: "st = Panic" by (cases st) auto
      have "stopped g token st w2"
        by (rule stoppedI) (use g2 nf sc len pf pf11 den st in \<open>simp_all add: tr denial_ok_quiet obeys_policy_unfailed\<close>)
      then show ?thesis using Inl by (subst mw) simp
    next
      case (Inr a)
      have "at_step (Suc i) g x w2"
        unfolding at_step_def tr using g2 nf sc req den lst pre ra by (simp add: at_step_def)
      then show ?thesis using Inr by (subst mw) simp
    qed
  next
    case (Some e)
    with out have st: "fst (m w) = Inl (Exit 1)" and ps: "ps = [diagnostic k e]" by simp_all
    have pol: "obeys_policy tr"
      using pre Some ps by (simp add: at_step_def tr_def)
    have "stopped g token (Exit 1) w2"
      by (rule stoppedI) (use g2 pol sc len pf pf11 den in \<open>simp_all add: tr denial_ok_quiet\<close>)
    then show ?thesis using st by (subst mw) simp
  qed
qed

lemma script_take8: "take 8 (script g x) = take 8 (script g None)"
  by (simp add: script_def)

lemma getStorageKeys_hoare:
  fixes sdk :: "('c, 't, 's) sdk"
  shows "hoare (at_step 7 g None) (getStorageKeys sdk)
     (\<lambda>keys. at_step 8 g (first_key_name keys)) (stopped g token)"
  unfolding hoare_def
proof (intro allI impI)
  fix w :: "('t, 's) world"
  let ?m = "getStorageKeys sdk :: (AccountListKeysResult, 't, 's) prog"
  let ?k = "ListKeys groupName accountName"
  assume pre: "at_step 7 g None w"
  from getStorageKeys_behaves[of sdk] obtain bd err s' ps where
    w': "snd (?m w) = w\<lparr>trace := trace w @ Printed ''Get storage account keys...\<newline>'' #
                           Called (storageClient (globals w)) ?k bd err # map Printed ps,
                        remote := s'\<rparr>"
    and out: "case err of
           Some e \<Rightarrow> fst (?m w) = Inl (Exit 1) \<and> ps = [diagnostic ?k e]
         | None \<Rightarrow> (\<forall>c. fst (?m w) \<noteq> Inl (Exit c)) \<and> (\<forall>a. fst (?m w) = Inr a \<longrightarrow> bd = KeysBody a)"
    unfolding behaves_def by blast
  from pre have g: "globals w = g" by (simp add: at_step_def)
  define tr where "tr = trace w @ Printed ''Get storage account keys...\<newline>'' #
                           Called (storageClient g) ?k bd err # map Printed ps"
  define w2 where "w2 = snd (?m w)"
  have tr: "trace w2 = tr" and g2: "globals w2 = g"
    using w' g by (simp_all add: w2_def tr_def)
  have den: "denied tr = []"
    using pre by (auto simp: tr_def at_step_def denied_Called split: body.splits option.splits)
  have req: "requests tr = take 8 (script g (regen_arg tr))"
    using pre by (subst script_take8) (simp add: at_step_def tr_def script_def)
  have sc: "scans tr = []"
    using pre by (simp add: at_step_def tr_def)
  have len: "length (requests tr) \<le> 11"
    unfolding req by simp
  have pf: "prefix (requests tr) (script g (regen_arg tr))"
    unfolding req by (simp add: take_is_prefix)
  have pf11: "prefix (requests (before_scan tr)) (take 11 (script g (regen_arg tr)))"
    unfolding before_scan_id[OF sc] req by (simp add: prefix_take_take)
  have mw: "?m w = (fst (?m w), w2)" by (simp add: w2_def)
  show "case ?m w of (Inl st, w') \<Rightarrow> stopped g token st w'
          | (Inr keys, w') \<Rightarrow> at_step 8 g (first_key_name keys) w'"
  proof (cases err)
    case None
    with out have nx: "\<forall>c. fst (?m w) \<noteq> Inl (Exit c)" by simp
    have nf: "\<not> failed tr" using pre None by (simp add: at_step_def tr_def)
    show ?thesis
    proof (cases "fst (?m w)")
      case (Inl st)
      with nx have st: "st = Panic" by (cases st) auto
      have "stopped g token st w2"
        by (rule stoppedI) (use g2 nf sc len pf pf11 den st in \<open>simp_all add: tr denial_ok_quiet obeys_policy_unfailed\<close>)
      then show ?thesis using Inl by (subst mw) simp
    next
      case (Inr keys)
      with out None have bd: "bd = KeysBody keys" by simp
      have ra: "regen_arg tr = first_key_name keys"
        using pre None bd by (simp add: regen_arg_def tr_def at_step_def listed_Called)
      have "at_step 8 g (first_key_name keys) w2"
        unfolding at_step_def tr using g2 nf sc req den ra by simp
      then show ?thesis using Inr by (subst mw) simp
    qed
  next
    case (Some e)
    with out have st: "fst (?m w) = Inl (Exit 1)" and ps: "ps = [diagnostic ?k e]" by simp_all
    have pol: "obeys_policy tr"
      using pre Some ps by (simp add: at_step_def tr_def)
    have "stopped g token (Exit 1) w2"
      by (rule stoppedI) (use g2 pol sc len pf pf11 den in \<open>simp_all add: tr denial_ok_quiet\<close>)
    then show ?thesis using st by (subst mw) simp
  qed
qed

lemma checkAccountAvailability_run:
  assumes "accounts_CheckNameAvailability sdk (storageClient (globals w)) check_params (remote w)
             = ((r, err), s')"
  shows "checkAccountAvailability sdk w =
     (let w1 = w\<lparr>trace := trace w @
                   [Printed ''Check account name availability...\<newline>'',
                    Called (storageClient (globals w)) (CheckNameAvailability check_params) (CheckBody r) err],
                  remote := s'\<rparr>
      in case err of
           Some e \<Rightarrow>
             (Inl (Exit 1), w1\<lparr>trace := trace w1 @ [Printed (''CheckNameAvailability failed: '' @ e @ ''\<newline>'')]\<rparr>)
         | None \<Rightarrow>
             (case NameAvailable r of
                None \<Rightarrow> (Inl Panic, w1)
              | Some True \<Rightarrow>
                  (Inr (), w1\<lparr>trace := trace w1 @ [Printed (tab @ quoted accountName @ '' is available!\<newline>'')]\<rparr>)
              | Some False \<Rightarrow>
                  (case Message r of
                     None \<Rightarrow> (Inl Panic, w1)
                   | Some m \<Rightarrow>
                       (Inl (Exit 1),
                        w1\<lparr>trace := trace w1 @
                             [Printed (denial_text r m), Printed ''No resources were created.\<newline>'']\<rparr>))))"
  using assms
  by (simp add: checkAccountAvailability_def check_params_def thenp_def bindp_def fmt_Println_def
      fmt_Print_def global_def remote_call_def onErrorFail_def ret_def os_Exit_def deref_def
      panic_def denial_text_def Let_def split: option.splits)

lemma denial_ok_append: "denied a = [] \<Longrightarrow> denial_ok st (a @ b) = denial_ok st b"
  by (induction a) (auto simp: denied_Called split: event.splits call.splits body.splits option.splits if_splits)

lemma prefix_into_take: "prefix xs ys \<Longrightarrow> length xs \<le> n \<Longrightarrow> prefix xs (take n ys)"
  by (auto simp: prefix_def)

lemma regen_arg_extend: "listed ext = [] \<Longrightarrow> regen_arg (tr @ ext) = regen_arg tr"
  by (simp add: regen_arg_def)

lemma at_step_extend:
  assumes "at_step i g x w" and "trace w2 = trace w @ ext" and "globals w2 = g"
    and "\<not> failed ext" and "scans ext = []" and "denied ext = []" and "listed ext = []"
    and "take j (script g x) = take i (script g x) @ requests ext" and "j = Suc i"
  shows "at_step j g x w2"
  using assms by (simp add: at_step_def regen_arg_extend)

lemma stopped_extend:
  assumes pre: "at_step i g x w" and tr: "trace w2 = trace w @ ext" and g: "globals w2 = g"
    and pol: "obeys_policy ext" and fl: "failed ext \<longrightarrow> st = Exit 1"
    and st: "st = Exit 1 \<or> st = Panic"
    and sc: "scans ext = []" and dn: "denial_ok st ext"
    and d2: "denied ext \<noteq> [] \<longrightarrow> i + length (requests ext) = 2"
    and ls: "listed ext = []"
    and pf: "prefix (take i (script g x) @ requests ext) (script g x)"
    and len: "i + length (requests ext) \<le> 11"
  shows "stopped g token st w2"
proof (rule stoppedI)
  from pre have nf: "\<not> failed (trace w)" and s0: "scans (trace w) = []"
    and d0: "denied (trace w) = []" and ra: "regen_arg (trace w) = x"
    and rq: "requests (trace w) = take i (script g x)"
    by (simp_all add: at_step_def)
  have ra2: "regen_arg (trace w2) = x"
    using ra ls by (simp add: tr regen_arg_extend)
  have sc2: "scans (trace w2) = []" using s0 sc by (simp add: tr)
  have li: "length (take i (script g x)) \<le> i" by simp
  show "globals w2 = g" by fact
  show "obeys_policy (trace w2)" using nf pol by (simp add: tr)
  show "failed (trace w2) \<longrightarrow> st = Exit 1" using nf fl by (simp add: tr)
  show "st = Exit 1 \<or> st = Panic" by fact
  show "prefix (requests (trace w2)) (script g (regen_arg (trace w2)))"
    unfolding ra2 using pf rq by (simp add: tr)
  have "length (requests (trace w2)) \<le> 11"
    using len rq li by (simp add: tr)
  moreover have "prefix (requests (trace w2)) (script g x)"
    using pf rq by (simp add: tr)
  ultimately have "prefix (requests (trace w2)) (take 11 (script g x))"
    by (rule prefix_into_take[rotated])
  then show "prefix (requests (before_scan (trace w2))) (take 11 (script g (regen_arg (trace w2))))"
    unfolding ra2 before_scan_id[OF sc2] .
  show "if scans (trace w2) = [] then length (requests (trace w2)) \<le> 11
      else scans (trace w2) = [''y''] \<and> token = ''y'' \<and> failed (trace w2) \<and>
           12 \<le> length (requests (trace w2))"
    using sc2 len rq li by (simp add: tr)
  show "denial_ok st (trace w2)" using d0 dn by (simp add: tr denial_ok_append)
  show "denied (trace w2) \<noteq> [] \<longrightarrow> length (requests (trace w2)) = 2"
  proof
    assume "denied (trace w2) \<noteq> []"
    with d0 have "denied ext \<noteq> []" by (simp add: tr)
    with d2 have i2: "i + length (requests ext) = 2" by simp
    from pf have "length (take i (script g x)) + length (requests ext) \<le> 13"
      using prefix_length_le by fastforce
    moreover from i2 have "i \<le> 13" by simp
    ultimately show "length (requests (trace w2)) = 2"
      using i2 rq by (simp add: tr)
  qed
qed

lemma hoare_caseI:
  assumes "\<And>st. fst (m w) = Inl st \<Longrightarrow> E st (snd (m w))"
    and "\<And>a. fst (m w) = Inr a \<Longrightarrow> Q a (snd (m w))"
  shows "case m w of (Inl st, w') \<Rightarrow> E st w' | (Inr a, w') \<Rightarrow> Q a w'"
  using assms by (cases "m w") (auto split: sum.splits)

lemma checkAccountAvailability_hoare:
  fixes sdk :: "('c, 't, 's) sdk"
  shows "hoare (at_step 1 g None) (checkAccountAvailability sdk) (\<lambda>_. at_step 2 g None) (stopped g token)"
  unfolding hoare_def
proof (intro allI impI)
  fix w :: "('t, 's) world"
  assume pre: "at_step 1 g None w"
  then have g: "globals w = g" by (simp add: at_step_def)
  obtain r err s' where
    op: "accounts_CheckNameAvailability sdk (storageClient (globals w)) check_params (remote w) = ((r, err), s')"
    by (metis prod.exhaust)
  note run = checkAccountAvailability_run[OF op]
  let ?m = "checkAccountAvailability sdk"
  let ?call = "Called (storageClient g) (CheckNameAvailability check_params) (CheckBody r) err"
  let ?ban = "Printed ''Check account name availability...\<newline>''"
  have nxt: "take 2 (script g None) = take 1 (script g None) @ [(storageClient g, CheckNameAvailability check_params)]"
    by (simp add: script_def check_params_def)
  have pf: "prefix (take 1 (script g None) @ [(storageClient g, CheckNameAvailability check_params)]) (script g None)"
    by (simp add: script_def check_params_def)
  have post: "(case fst (?m w) of Inl st \<Rightarrow> stopped g token st (snd (?m w))
               | Inr a \<Rightarrow> at_step 2 g None (snd (?m w)))"
  proof (cases err)
    case (Some e)
    have "stopped g token (Exit 1) (snd (?m w))"
      by (rule stopped_extend[OF pre, where ext = "[?ban, ?call, Printed (''CheckNameAvailability failed: '' @ e @ ''\<newline>'')]"])
         (use g Some pf in \<open>simp_all add: run diagnostic_def call_name_def listed_Called denied_Called\<close>)
    with Some show ?thesis by (simp add: run)
  next
    case None
    show ?thesis
    proof (cases "NameAvailable r")
      case N: None
      have "stopped g token Panic (snd (?m w))"
        by (rule stopped_extend[OF pre, where ext = "[?ban, ?call]"])
           (use g None N pf in \<open>simp_all add: run listed_Called denied_Called\<close>)
      with None N show ?thesis by (simp add: run)
    next
      case (Some av)
      show ?thesis
      proof (cases av)
        case True
        have "at_step 2 g None (snd (?m w))"
          by (rule at_step_extend[OF pre, where ext = "[?ban, ?call, Printed (tab @ quoted accountName @ '' is available!\<newline>'')]"])
             (use g None Some True nxt in \<open>simp_all add: run listed_Called denied_Called\<close>)
        with None Some True show ?thesis by (simp add: run)
      next
        case False
        show ?thesis
        proof (cases "Message r")
          case M: None
          have "stopped g token Panic (snd (?m w))"
            by (rule stopped_extend[OF pre, where ext = "[?ban, ?call]"])
               (use g None Some False M pf in \<open>simp_all add: run listed_Called denied_Called\<close>)
          with None Some False M show ?thesis by (simp add: run)
        next
          case M: (Some m)
          have "stopped g token (Exit 1) (snd (?m w))"
            by (rule stopped_extend[OF pre, where ext = "[?ban, ?call, Printed (denial_text r m),
                                          Printed ''No resources were created.\<newline>'']"])
               (use g None Some False M pf in \<open>simp_all add: run listed_Called denied_Called\<close>)
          with None Some False M show ?thesis by (simp add: run)
        qed
      qed
    qed
  qed
  show "case ?m w of (Inl st, w') \<Rightarrow> stopped g token st w' | (Inr a, w') \<Rightarrow> at_step 2 g None w'"
    by (rule hoare_caseI) (use post in auto)
qed

lemma registerResourceProvider_hoare:
  "hoare (at_step 0 g None) (registerResourceProvider sdk) (\<lambda>_. at_step 1 g None) (stopped g token)"
  by (rule step_hoare[OF registerResourceProvider_behaves]) (simp_all add: script_def)

lemma createResourceGroup_hoare:
  "hoare (at_step 2 g None) (createResourceGroup sdk) (\<lambda>_. at_step 3 g None) (stopped g token)"
  by (rule step_hoare[OF createResourceGroup_behaves]) (simp_all add: script_def)

lemma createStorageAccount_hoare:
  "hoare (at_step 3 g None) (createStorageAccount sdk) (\<lambda>_. at_step 4 g None) (stopped g token)"
  by (rule step_hoare[OF createStorageAccount_behaves]) (simp_all add: script_def)

lemma getStorageAccountProperties_hoare:
  "hoare (at_step 4 g None) (getStorageAccountProperties sdk) (\<lambda>_. at_step 5 g None) (stopped g token)"
  by (rule step_hoare[OF getStorageAccountProperties_behaves]) (simp_all add: script_def)

lemma listStorageAccountsByResourceGroup_hoare:
  "hoare (at_step 5 g None) (listStorageAccountsByResourceGroup sdk) (\<lambda>_. at_step 6 g None) (stopped g token)"
  by (rule step_hoare[OF listStorageAccountsByResourceGroup_behaves]) (simp_all add: script_def)

lemma listStorageAccountsBySubscription_hoare:
  "hoare (at_step 6 g None) (listStorageAccountsBySubscription sdk) (\<lambda>_. at_step 7 g None) (stopped g token)"
  by (rule step_hoare[OF listStorageAccountsBySubscription_behaves]) (simp_all add: script_def)

lemma updateStorageAccount_hoare:
  "hoare (at_step 9 g x) (updateStorageAccount sdk) (\<lambda>_. at_step 10 g x) (stopped g token)"
  by (rule step_hoare[OF updateStorageAccount_behaves]) (simp_all add: script_def)

lemma listUsage_hoare:
  "hoare (at_step 10 g x) (listUsage sdk) (\<lambda>_. at_step 11 g x) (stopped g token)"
  by (rule step_hoare[OF listUsage_behaves]) (simp_all add: script_def)

lemma regenStorageKey_behaves:
  assumes "Keys keys = Some (first # rest)"
  shows "behaves (regenStorageKey sdk keys) ''Regenerate account key...\<newline>'' storageClient
           (RegenerateKey groupName accountName \<lparr>regen_KeyName = KeyName first\<rparr>) (\<lambda>_ _. True)"
proof -
  have "regenStorageKey sdk keys =
     thenp (fmt_Print (''Regenerate account key...'' @ ''\<newline>''))
    (bindp (global storageClient) (\<lambda>c.
     bindp (remote_call c (RegenerateKey groupName accountName \<lparr>regen_KeyName = KeyName first\<rparr>) KeysBody
              (accounts_RegenerateKey sdk c groupName accountName \<lparr>regen_KeyName = KeyName first\<rparr>))
       (\<lambda>(newKeys, err).
     thenp (onErrorFail err ''RegenerateKey failed'')
    (thenp (fmt_Println ''New key'')
    (bindp (deref (Keys newKeys)) (\<lambda>nks.
     bindp (index0 nks) (\<lambda>new.
     bindp (deref (KeyName new)) (\<lambda>name.
     bindp (deref (key_Value new)) (\<lambda>val.
     bindp (slice5 val) (\<lambda>prefix5.
     fmt_Print (tab @ ''Key name: '' @ name @ ''\<newline>'' @
                tab @ ''Value: '' @ prefix5 @ ''...\<newline>'' @
                tab @ ''Permissions: '' @ Permissions new @ ''\<newline>'')))))))))))"
    using assms
    by (simp add: regenStorageKey_def fmt_Println_def deref_def index0_def bindp_def ret_def Let_def)
  then show ?thesis
    by (simp only:) (rule behaves_call, auto simp: call_name_def intro!: quietv_trivial quiet_intros)
qed

lemma regenStorageKey_panics:
  assumes "Keys keys = None \<or> Keys keys = Some []"
  shows "regenStorageKey sdk keys w =
           (Inl Panic, w\<lparr>trace := trace w @ [Printed ''Regenerate account key...\<newline>'']\<rparr>)"
  using assms
  by (auto simp: regenStorageKey_def fmt_Println_def fmt_Print_def thenp_def global_def deref_def
      index0_def bindp_def ret_def panic_def)

lemma regenStorageKey_hoare:
  fixes sdk :: "('c, 't, 's) sdk"
  shows "hoare (at_step 8 g (first_key_name keys)) (regenStorageKey sdk keys)
           (\<lambda>_. at_step 9 g (first_key_name keys)) (stopped g token)"
proof (cases "Keys keys")
  case None
  show ?thesis
    unfolding hoare_def
  proof (intro allI impI)
    fix w :: "('t, 's) world"
    assume pre: "at_step 8 g (first_key_name keys) w"
    have "stopped g token Panic (w\<lparr>trace := trace w @ [Printed ''Regenerate account key...\<newline>'']\<rparr>)"
      by (rule stopped_extend[OF pre, where ext = "[Printed ''Regenerate account key...\<newline>'']"])
         (use pre in \<open>simp_all add: at_step_def take_is_prefix\<close>)
    then show "case regenStorageKey sdk keys w of (Inl st, w') \<Rightarrow> stopped g token st w'
                 | (Inr a, w') \<Rightarrow> at_step 9 g (first_key_name keys) w'"
      using None by (simp add: regenStorageKey_panics)
  qed
next
  case (Some ks)
  show ?thesis
  proof (cases ks)
    case Nil
    show ?thesis
      unfolding hoare_def
    proof (intro allI impI)
      fix w :: "('t, 's) world"
      assume pre: "at_step 8 g (first_key_name keys) w"
      have "stopped g token Panic (w\<lparr>trace := trace w @ [Printed ''Regenerate account key...\<newline>'']\<rparr>)"
        by (rule stopped_extend[OF pre, where ext = "[Printed ''Regenerate account key...\<newline>'']"])
           (use pre in \<open>simp_all add: at_step_def take_is_prefix\<close>)
      then show "case regenStorageKey sdk keys w of (Inl st, w') \<Rightarrow> stopped g token st w'
                   | (Inr a, w') \<Rightarrow> at_step 9 g (first_key_name keys) w'"
        using Some Nil by (simp add: regenStorageKey_panics)
    qed
  next
    case (Cons first rest)
    with Some have k: "Keys keys = Some (first # rest)" by simp
    then have x: "first_key_name keys = KeyName first" by (simp add: first_key_name_def)
    show ?thesis
      unfolding x
      by (rule step_hoare[OF regenStorageKey_behaves[OF k]]) (simp_all add: script_def)
  qed
qed

lemma fmt_Scanln_answer:
  "fmt_Scanln stdin = (\<lambda>w. (Inr (answer stdin), w\<lparr>trace := trace w @ [Scanned (answer stdin)]\<rparr>))"
  by (simp add: fmt_Scanln_def answer_def Let_def)

lemma fmt_Print_hoare: "hoare (at_step i g x) (fmt_Print s) (\<lambda>_. at_step i g x) E"
  by (simp add: hoare_def fmt_Print_def at_step_def regen_arg_def)

lemma fmt_Scanln_hoare:
  "hoare (at_step 11 g x) (fmt_Scanln stdin)
     (\<lambda>input w. input = answer stdin \<and> scanned_at 11 g (answer stdin) w) E"
  by (simp add: hoare_def fmt_Scanln_answer at_step_def scanned_at_def regen_arg_def)

lemma delete_run:
  assumes "accounts_Delete sdk (storageClient (globals w)) groupName accountName (remote w) = (err1, s1)"
    and "groups_Delete sdk (groupClient (globals w)) groupName s1 = (err2, s2)"
  shows "delete sdk w =
     (let e1 = [Printed ''Delete storage account...\<newline>'',
                Called (storageClient (globals w)) (AccountsDelete groupName accountName) NoBody err1];
          e2 = [Printed ''Delete resource group...\<newline>'',
                Called (groupClient (globals w)) (GroupsDelete groupName) NoBody err2]
      in case err1 of
           Some e \<Rightarrow>
             (Inl (Exit 1),
              w\<lparr>trace := trace w @ e1 @ [Printed (''Delete failed: '' @ e @ ''\<newline>'')], remote := s1\<rparr>)
         | None \<Rightarrow>
             (case err2 of
                Some e \<Rightarrow>
                  (Inl (Exit 1),
                   w\<lparr>trace := trace w @ e1 @ e2 @ [Printed (''Delete failed: '' @ e @ ''\<newline>'')],
                     remote := s2\<rparr>)
              | None \<Rightarrow> (Inr (), w\<lparr>trace := trace w @ e1 @ e2, remote := s2\<rparr>)))"
  using assms
  by (simp add: delete_def thenp_def bindp_def fmt_Println_def fmt_Print_def global_def
      remote_call_discard_def onErrorFail_def ret_def os_Exit_def Let_def split: option.splits)

lemma before_scan_scanned: "scans a \<noteq> [] \<Longrightarrow> before_scan (a @ b) = before_scan a"
  by (induction a rule: scans.induct) (auto simp: before_scan_def)

lemma scanned_at_extend:
  assumes "scanned_at i g token w" and "trace w2 = trace w @ ext" and "globals w2 = g"
    and "\<not> failed ext" and "scans ext = []" and "denied ext = []" and "listed ext = []"
    and "take j (script g (regen_arg (trace w))) = take i (script g (regen_arg (trace w))) @ requests ext"
  shows "scanned_at j g token w2"
proof -
  from assms(1) have "scans (trace w) \<noteq> []" by (simp add: scanned_at_def)
  then have "before_scan (trace w @ ext) = before_scan (trace w)"
    by (rule before_scan_scanned)
  with assms show ?thesis
    by (simp add: scanned_at_def regen_arg_extend)
qed

lemma stopped_after_scan:
  assumes pre: "scanned_at i g ''y'' w" and tr: "trace w2 = trace w @ ext" and g: "globals w2 = g"
    and pol: "obeys_policy ext" and fl: "failed ext"
    and sc: "scans ext = []" and dn: "denied ext = []" and ls: "listed ext = []"
    and pf: "prefix (take i (script g (regen_arg (trace w))) @ requests ext) (script g (regen_arg (trace w)))"
    and len: "12 \<le> i + length (requests ext)" and i: "i \<le> 13"
  shows "stopped g ''y'' (Exit 1) w2"
proof (rule stoppedI)
  from pre have nf: "\<not> failed (trace w)" and s0: "scans (trace w) = [''y'']"
    and d0: "denied (trace w) = []"
    and rq: "requests (trace w) = take i (script g (regen_arg (trace w)))"
    and bs: "requests (before_scan (trace w)) = take 11 (script g (regen_arg (trace w)))"
    by (simp_all add: scanned_at_def)
  have ra2: "regen_arg (trace w2) = regen_arg (trace w)"
    using ls by (simp add: tr regen_arg_extend)
  have b2: "before_scan (trace w2) = before_scan (trace w)"
    unfolding tr by (rule before_scan_scanned) (simp add: s0)
  show "globals w2 = g" by fact
  show "obeys_policy (trace w2)" using nf pol by (simp add: tr)
  show "failed (trace w2) \<longrightarrow> Exit 1 = Exit 1" by simp
  show "Exit 1 = Exit 1 \<or> Exit 1 = Panic" by simp
  show "prefix (requests (trace w2)) (script g (regen_arg (trace w2)))"
    unfolding ra2 using pf rq by (simp add: tr)
  show "prefix (requests (before_scan (trace w2))) (take 11 (script g (regen_arg (trace w2))))"
    unfolding ra2 b2 bs by simp
  show "if scans (trace w2) = [] then length (requests (trace w2)) \<le> 11
      else scans (trace w2) = [''y''] \<and> ''y'' = ''y'' \<and> failed (trace w2) \<and>
           12 \<le> length (requests (trace w2))"
    using s0 sc fl len rq i by (simp add: tr)
  show "denial_ok (Exit 1) (trace w2)"
    using d0 dn by (simp add: tr denial_ok_quiet)
  show "denied (trace w2) \<noteq> [] \<longrightarrow> length (requests (trace w2)) = 2"
    using d0 dn by (simp add: tr)
qed

lemma delete_hoare:
  fixes sdk :: "('c, 't, 's) sdk"
  shows "hoare (scanned_at 11 g ''y'') (delete sdk) (\<lambda>_. scanned_at 13 g ''y'') (stopped g ''y'')"
  unfolding hoare_def
proof (intro allI impI)
  fix w :: "('t, 's) world"
  assume pre: "scanned_at 11 g ''y'' w"
  then have g: "globals w = g" by (simp add: scanned_at_def)
  obtain err1 s1 where
    op1: "accounts_Delete sdk (storageClient (globals w)) groupName accountName (remote w) = (err1, s1)"
    by (metis prod.exhaust)
  obtain err2 s2 where
    op2: "groups_Delete sdk (groupClient (globals w)) groupName s1 = (err2, s2)"
    by (metis prod.exhaust)
  note run = delete_run[OF op1 op2]
  let ?m = "delete sdk"
  let ?e1 = "[Printed ''Delete storage account...\<newline>'',
              Called (storageClient g) (AccountsDelete groupName accountName) NoBody err1]"
  let ?e2 = "[Printed ''Delete resource group...\<newline>'',
              Called (groupClient g) (GroupsDelete groupName) NoBody err2]"
  have post: "(case fst (?m w) of Inl st \<Rightarrow> stopped g ''y'' st (snd (?m w))
               | Inr a \<Rightarrow> scanned_at 13 g ''y'' (snd (?m w)))"
  proof (cases err1)
    case (Some e)
    have "stopped g ''y'' (Exit 1) (snd (?m w))"
      by (rule stopped_after_scan[OF pre, where ext = "?e1 @ [Printed (''Delete failed: '' @ e @ ''\<newline>'')]"])
         (use g Some in \<open>simp_all add: run diagnostic_def call_name_def listed_Called denied_Called script_def\<close>)
    with Some show ?thesis by (simp add: run)
  next
    case None
    show ?thesis
    proof (cases err2)
      case E: (Some e)
      have "stopped g ''y'' (Exit 1) (snd (?m w))"
        by (rule stopped_after_scan[OF pre, where ext = "?e1 @ ?e2 @ [Printed (''Delete failed: '' @ e @ ''\<newline>'')]"])
           (use g None E in \<open>simp_all add: run diagnostic_def call_name_def listed_Called denied_Called script_def\<close>)
      with None E show ?thesis by (simp add: run)
    next
      case E: None
      have "scanned_at 13 g ''y'' (snd (?m w))"
        by (rule scanned_at_extend[OF pre, where ext = "?e1 @ ?e2"])
           (use g None E in \<open>simp_all add: run listed_Called denied_Called script_def\<close>)
      with None E show ?thesis by (simp add: run)
    qed
  qed
  show "case ?m w of (Inl st, w') \<Rightarrow> stopped g ''y'' st w' | (Inr a, w') \<Rightarrow> scanned_at 13 g ''y'' w'"
    by (rule hoare_caseI) (use post in auto)
qed

lemma final_hoare:
  fixes sdk :: "('c, 't, 's) sdk"
  shows "hoare (\<lambda>w. input = token \<and> scanned_at 11 g token w)
           (if input = ''y'' then delete sdk else ret ()) (\<lambda>_. finished g token) (stopped g token)"
proof (cases "token = ''y''")
  case True
  have f: "finished g ''y'' = scanned_at 13 g ''y''"
    by (rule ext) (simp add: finished_def)
  from delete_hoare[of g sdk] show ?thesis
    unfolding True f hoare_def by simp
next
  case False
  then show ?thesis
    by (simp add: hoare_def finished_def ret_def)
qed

lemma main_hoare:
  fixes sdk :: "('c, 't, 's) sdk"
  shows "hoare (at_step 0 g None) (main sdk stdin)
           (\<lambda>_. finished g (answer stdin)) (stopped g (answer stdin))"
  unfolding main_def
  apply (rule hoare_thenp, rule registerResourceProvider_hoare)
  apply (rule hoare_thenp, rule checkAccountAvailability_hoare)
  apply (rule hoare_thenp, rule createResourceGroup_hoare)
  apply (rule hoare_thenp, rule createStorageAccount_hoare)
  apply (rule hoare_thenp, rule getStorageAccountProperties_hoare)
  apply (rule hoare_thenp, rule listStorageAccountsByResourceGroup_hoare)
  apply (rule hoare_thenp, rule listStorageAccountsBySubscription_hoare)
  apply (rule hoare_bindp, rule getStorageKeys_hoare)
  apply (rule hoare_thenp, rule regenStorageKey_hoare)
  apply (rule hoare_thenp, rule updateStorageAccount_hoare)
  apply (rule hoare_thenp, rule listUsage_hoare)
  apply (rule hoare_thenp, rule fmt_Print_hoare)
  apply (rule hoare_bindp, rule fmt_Scanln_hoare)
  apply (rule final_hoare)
  done

lemma createClients_run:
  "createClients subscriptionID spToken w = (Inr (), w\<lparr>globals := made_clients subscriptionID spToken\<rparr>)"
  by (simp add: createClients_def thenp_def bindp_def assign_def NewClient_def made_clients_def handle_def)

lemma getEnvVarOrExit_run:
  "getEnvVarOrExit env v w =
     (if os_Getenv env v = [] then (Inl (Exit 1), w\<lparr>trace := trace w @ [Printed (missing_message v)]\<rparr>)
      else (Inr (os_Getenv env v), w))"
  by (simp add: getEnvVarOrExit_def Let_def thenp_def bindp_def fmt_Print_def os_Exit_def ret_def
      missing_message_def)

lemma onErrorFail_run:
  "onErrorFail err message w =
     (case err of
        None \<Rightarrow> (Inr (), w)
      | Some e \<Rightarrow> (Inl (Exit 1), w\<lparr>trace := trace w @ [Printed (message @ '': '' @ e @ ''\<newline>'')]\<rparr>))"
  by (simp add: onErrorFail_def thenp_def bindp_def fmt_Print_def os_Exit_def ret_def split: option.splits)

lemma init_run:
  "init sdk env w =
     (let sub = os_Getenv env ''AZURE_SUBSCRIPTION_ID''; tenant = os_Getenv env ''AZURE_TENANT_ID'';
          cid = os_Getenv env ''AZURE_CLIENT_ID''; secret = os_Getenv env ''AZURE_CLIENT_SECRET'';
          say = (\<lambda>m. (Inl (Exit 1), w\<lparr>trace := trace w @ [Printed m]\<rparr>))
      in if sub = [] then say (missing_message ''AZURE_SUBSCRIPTION_ID'')
         else if tenant = [] then say (missing_message ''AZURE_TENANT_ID'')
         else case OAuthConfigForTenant sdk tenant of
           (oauthConfig, Some e) \<Rightarrow> say (''OAuthConfigForTenant failed: '' @ e @ ''\<newline>'')
         | (oauthConfig, None) \<Rightarrow>
             if cid = [] then say (missing_message ''AZURE_CLIENT_ID'')
             else if secret = [] then say (missing_message ''AZURE_CLIENT_SECRET'')
             else case oauthConfig of
               None \<Rightarrow> (Inl Panic, w)
             | Some config \<Rightarrow>
                 (case NewServicePrincipalToken sdk config cid secret (ResourceManagerEndpoint sdk) of
                    (spToken, Some e) \<Rightarrow> say (''NewServicePrincipalToken failed: '' @ e @ ''\<newline>'')
                  | (spToken, None) \<Rightarrow> (Inr (), w\<lparr>globals := made_clients sub spToken\<rparr>)))"
  by (simp add: init_def Let_def bindp_def thenp_def getEnvVarOrExit_run onErrorFail_run
      createClients_run deref_def panic_def ret_def split: prod.splits option.splits)

lemma init_effect:
  assumes "init sdk env (world0 s) = (r, w1)"
  shows "(\<exists>ps. trace w1 = map Printed ps) \<and> remote w1 = s \<and>
         (case r of
            Inl st \<Rightarrow> st = Exit 1 \<or> st = Panic
          | Inr _ \<Rightarrow> trace w1 = [] \<and>
              (\<exists>config spToken.
                 OAuthConfigForTenant sdk (os_Getenv env ''AZURE_TENANT_ID'') = (Some config, None) \<and>
                 NewServicePrincipalToken sdk config (os_Getenv env ''AZURE_CLIENT_ID'')
                   (os_Getenv env ''AZURE_CLIENT_SECRET'') (ResourceManagerEndpoint sdk) = (spToken, None) \<and>
                 globals w1 = made_clients (os_Getenv env ''AZURE_SUBSCRIPTION_ID'') spToken))"
proof -
  have one: "\<exists>ps. [Printed m] = map Printed ps" for m :: string
    by (rule exI[of _ "[m]"]) simp
  have none: "\<exists>ps. ([] :: 't event list) = map Printed ps"
    by (rule exI[of _ "[]"]) simp
  show ?thesis
    using assms one none unfolding init_run
    by (auto simp: Let_def world0_def split: if_splits prod.splits option.splits)
qed

lemma run_spec:
  assumes "run sdk env stdin s = (st, w)"
  shows "(st = Exit 0 \<and> finished (globals w) (answer stdin) w) \<or> stopped (globals w) (answer stdin) st w"
proof (cases "init sdk env (world0 s)")
  case (Pair r w1)
  show ?thesis
  proof (cases r)
    case (Inl st1)
    with Pair assms have eq: "st = st1" "w = w1"
      by (simp_all add: run_def thenp_def bindp_def)
    from init_effect[OF Pair] Inl obtain ps where
      tr: "trace w1 = map Printed ps" and st1: "st1 = Exit 1 \<or> st1 = Panic" by auto
    have "stopped (globals w) (answer stdin) st w"
      by (rule stoppedI) (use tr st1 eq in \<open>simp_all add: denial_ok_quiet before_scan_id\<close>)
    then show ?thesis ..
  next
    case (Inr u)
    from init_effect[OF Pair] Inr have tr: "trace w1 = []" by simp
    have pre: "at_step 0 (globals w1) None w1"
      using tr by (simp add: at_step_def regen_arg_def)
    obtain r2 w2 where m: "main sdk stdin w1 = (r2, w2)" by (metis prod.exhaust)
    from main_hoare[of "globals w1" sdk stdin] pre m
    have post: "case r2 of Inl st \<Rightarrow> stopped (globals w1) (answer stdin) st w2
                  | Inr a \<Rightarrow> finished (globals w1) (answer stdin) w2"
      by (auto simp: hoare_def split: sum.splits)
    show ?thesis
    proof (cases r2)
      case (Inl st2)
      with Pair Inr m assms have eq: "st = st2" "w = w2"
        by (simp_all add: run_def thenp_def bindp_def)
      from post Inl have s: "stopped (globals w1) (answer stdin) st2 w2" by simp
      then have "globals w2 = globals w1" by (simp add: stopped_def)
      with s eq show ?thesis by simp
    next
      case I: (Inr a)
      with Pair Inr m assms have eq: "st = Exit 0" "w = w2"
        by (simp_all add: run_def thenp_def bindp_def)
      from post I have f: "finished (globals w1) (answer stdin) w2" by simp
      then have "globals w2 = globals w1" by (simp add: finished_def scanned_at_def)
      with f eq show ?thesis by simp
    qed
  qed
qed

lemma obeys_policy_at:
  assumes "obeys_policy tr" and "tr = pre @ Called c k b (Some e) # post"
  shows "post = [Printed (diagnostic k e)]"
  using assms
proof (induction pre arbitrary: tr)
  case Nil
  then show ?case by simp
next
  case (Cons ev pre)
  show ?case
  proof (cases "failed [ev]")
    case True
    then obtain c' k' b' e' where ev: "ev = Called c' k' b' (Some e')"
    proof (cases ev)
      case (Called c' k' b' eo)
      with True obtain e' where "eo = Some e'" by (cases eo) simp_all
      with Called that show ?thesis by simp
    qed simp_all
    from Cons.prems(1) have "pre @ Called c k b (Some e) # post = [Printed (diagnostic k' e')]"
      unfolding Cons.prems(2) ev by simp
    then have "length (pre @ Called c k b (Some e) # post) = 1 \<and> pre = []"
      by (cases pre) simp_all
    then show ?thesis using \<open>pre @ Called c k b (Some e) # post = [Printed (diagnostic k' e')]\<close>
      by simp
  next
    case False
    then have "obeys_policy (ev # rest) = obeys_policy rest" for rest :: "'a event list"
      using obeys_policy_append[of "[ev]" rest] by simp
    with Cons show ?thesis by simp
  qed
qed

lemma failed_at: "tr = pre @ Called c k b (Some e) # post \<Longrightarrow> failed tr"
  by simp

lemma finished_prefix:
  "finished g (answer stdin) w \<Longrightarrow> prefix (requests (trace w)) (script g (regen_arg (trace w)))"
  by (simp add: finished_def scanned_at_def take_is_prefix)

lemma init_missing:
  assumes "v \<in> set required_vars" and "env v = None"
  shows "\<exists>m. init sdk env w = (Inl (Exit 1), w\<lparr>trace := trace w @ [Printed m]\<rparr>)"
proof -
  from assms have "os_Getenv env v = []" by (simp add: os_Getenv_def)
  with assms(1) show ?thesis
    unfolding init_run required_vars_def
    by (auto simp: Let_def split: prod.splits option.splits)
qed

lemma run_init_stop:
  assumes "init sdk env (world0 s) = (Inl st, w)"
  shows "run sdk env stdin s = (st, w)"
  using assms by (simp add: run_def thenp_def bindp_def)

text \<open>
  Claim C5. The exit status is 0 exactly when the prompt was answered and no remote call
  failed: after a declining answer all eleven calls before the prompt were issued, after the
  answer \<open>y\<close> all thirteen. The status is 1 when one of the four required variables is unset,
  and 1 when a remote call returned an error.
\<close>

theorem exit_codes:
  assumes "run sdk env stdin s = (st, w)"
  shows "(exit_status st = 0 \<longleftrightarrow> scans (trace w) = [answer stdin] \<and> \<not> failed (trace w)) \<and>
         (scans (trace w) = [answer stdin] \<and> answer stdin \<noteq> ''y'' \<longrightarrow>
            exit_status st = 0 \<and> requests (trace w) = take 11 (script (globals w) (regen_arg (trace w)))) \<and>
         (scans (trace w) = [answer stdin] \<and> answer stdin = ''y'' \<and> \<not> failed (trace w) \<longrightarrow>
            exit_status st = 0 \<and> requests (trace w) = script (globals w) (regen_arg (trace w))) \<and>
         ((\<exists>v \<in> set required_vars. env v = None) \<longrightarrow> exit_status st = 1) \<and>
         (failed (trace w) \<longrightarrow> exit_status st = 1)"
proof -
  have missing: "exit_status st = 1" if "v \<in> set required_vars" "env v = None" for v
  proof -
    from init_missing[of v env sdk "world0 s"] that obtain m where
      "init sdk env (world0 s) = (Inl (Exit 1), (world0 s)\<lparr>trace := trace (world0 s) @ [Printed m]\<rparr>)"
      by blast
    from run_init_stop[OF this, of stdin] assms show ?thesis
      by (simp add: exit_status_def)
  qed
  from run_spec[OF assms] show ?thesis
  proof
    assume f: "st = Exit 0 \<and> finished (globals w) (answer stdin) w"
    then have "scans (trace w) = [answer stdin]" "\<not> failed (trace w)"
      "requests (trace w) = take (if answer stdin = ''y'' then 13 else 11) (script (globals w) (regen_arg (trace w)))"
      by (simp_all add: finished_def scanned_at_def)
    moreover have "\<not> (\<exists>v \<in> set required_vars. env v = None)"
      using missing f by (auto simp: exit_status_def)
    ultimately show ?thesis using f by (simp add: exit_status_def)
  next
    assume s: "stopped (globals w) (answer stdin) st w"
    then have st: "st = Exit 1 \<or> st = Panic" and fl: "failed (trace w) \<longrightarrow> st = Exit 1"
      and sc: "scans (trace w) = [] \<or> (scans (trace w) = [''y''] \<and> answer stdin = ''y'' \<and> failed (trace w))"
      by (auto simp: stopped_def split: if_splits)
    from st have n0: "exit_status st \<noteq> 0" by (auto simp: exit_status_def)
    from sc have a: "\<not> (scans (trace w) = [answer stdin] \<and> \<not> failed (trace w))" by auto
    from sc have b: "\<not> (scans (trace w) = [answer stdin] \<and> answer stdin \<noteq> ''y'')" by auto
    from fl have c: "failed (trace w) \<longrightarrow> exit_status st = 1" by (simp add: exit_status_def)
    from n0 a b c missing show ?thesis by blast
  qed
qed

lemma show_int32_3: "show_int32 3 = ''3''"
  by (simp add: show_int32_def show_nat.simps)

lemma show_int32_250: "show_int32 250 = ''250''"
  by (simp add: show_int32_def show_nat.simps)

lemmas run_eval = run_def main_def init_run world0_def thenp_def bindp_def ret_def fmt_Print_def
  fmt_Println_def fmt_Scanln_answer global_def remote_call_def remote_call_discard_def onErrorFail_run
  deref_def index0_def slice5_def panic_def os_Exit_def os_Getenv_def Let_def
  registerResourceProvider_def checkAccountAvailability_def createResourceGroup_def
  createStorageAccount_def getStorageAccountProperties_def listStorageAccountsByResourceGroup_def
  listStorageAccountsBySubscription_def printAccountList_def getStorageKeys_def regenStorageKey_def
  updateStorageAccount_def listUsage_def delete_def made_clients_def handle_def

lemma mock_run:
  "run mock mock_env stdin 0 =
     (Exit 0,
      \<lparr>trace = mock_transcript @ Scanned (answer stdin) # (if answer stdin = ''y'' then mock_deletion else []),
       remote = 1, globals = made_clients ''sub'' ''cid''\<rparr>)"
  by (simp add: run_eval mock_def mock_env_def mock_keys_def mock_account_def mock_usage_def
      mock_available_def mock_transcript_def mock_deletion_def mock_handle_def check_params_def
      show_int32_3 show_int32_250 accountName_def location_def StandardLRS_def)

lemma mock_quota_run:
  "run mock_quota mock_env stdin 0 =
     (Exit 1,
      \<lparr>trace = take 8 mock_transcript @
         [Called mock_handle
           (Create groupName accountName
              \<lparr>create_Sku = Some \<lparr>sku_Name = StandardLRS\<rparr>, create_Location = Some location,
               create_Properties = Some AccountPropertiesCreateParameters\<rparr>) NoBody (Some ''quota exceeded''),
          Printed ''Create failed: quota exceeded\<newline>''],
       remote = 0, globals = made_clients ''sub'' ''cid''\<rparr>)"
  by (simp add: run_eval mock_quota_def mock_def mock_env_def mock_available_def mock_transcript_def
      mock_handle_def check_params_def)

lemma mock_requests:
  "requests mock_transcript = take 11 (script (made_clients ''sub'' ''cid'') (Some ''key1''))"
  by (simp add: mock_transcript_def script_def made_clients_def mock_handle_def check_params_def)

lemma mock_observed [simp]:
  "\<not> failed mock_transcript" "scans mock_transcript = []"
  "regen_arg (mock_transcript @ ext) = Some ''key1''"
  by (simp_all add: mock_transcript_def regen_arg_def listed_Called first_key_name_def mock_keys_def)

lemma mock_deletion_observed [simp]:
  "\<not> failed mock_deletion" "scans mock_deletion = []"
  "requests mock_deletion = drop 11 (script (made_clients ''sub'' ''cid'') x)"
  by (simp_all add: mock_deletion_def script_def made_clients_def mock_handle_def)

text \<open>
  Runs against the provider that always succeeds, declining and confirming the deletion,
  a run with the client secret unset, and the run in which the creation is rejected.
\<close>

theorem exit_codes_witness:
  "exit_status (fst (run mock mock_env (runes ''n\<newline>'') 0)) = 0 \<and>
   exit_status (fst (run mock mock_env (runes ''y\<newline>'') 0)) = 0 \<and>
   requests (trace (snd (run mock mock_env (runes ''y\<newline>'') 0))) = script (made_clients ''sub'' ''cid'') (Some ''key1'') \<and>
   exit_status (fst (run mock (mock_env(''AZURE_CLIENT_SECRET'' := None)) (runes ''y\<newline>'') 0)) = 1 \<and>
   exit_status (fst (run mock_quota mock_env (runes ''y\<newline>'') 0)) = 1"
proof -
  have a: "exit_status (fst (run mock mock_env (runes ''n\<newline>'') 0)) = 0"
    using exit_codes[OF mock_run[of "runes ''n\<newline>''"]] by (simp add: mock_run)
  have b: "exit_status (fst (run mock mock_env (runes ''y\<newline>'') 0)) = 0 \<and>
           requests (trace (snd (run mock mock_env (runes ''y\<newline>'') 0))) = script (made_clients ''sub'' ''cid'') (Some ''key1'')"
    using exit_codes[OF mock_run[of "runes ''y\<newline>''"]] by (simp add: mock_run)
  have c: "exit_status (fst (run mock (mock_env(''AZURE_CLIENT_SECRET'' := None)) (runes ''y\<newline>'') 0)) = 1"
    using exit_codes[of mock "mock_env(''AZURE_CLIENT_SECRET'' := None)" "runes ''y\<newline>''" 0
        "fst (run mock (mock_env(''AZURE_CLIENT_SECRET'' := None)) (runes ''y\<newline>'') 0)"
        "snd (run mock (mock_env(''AZURE_CLIENT_SECRET'' := None)) (runes ''y\<newline>'') 0)"]
    by (simp add: required_vars_def)
  have d: "exit_status (fst (run mock_quota mock_env (runes ''y\<newline>'') 0)) = 1"
    using exit_codes[OF mock_quota_run[of "runes ''y\<newline>''"]]
    by (simp add: mock_quota_run)
  from a b c d show ?thesis by simp
qed

lemma script_split:
  "script g x = take 11 (script g x) @
     [(storageClient g, AccountsDelete groupName accountName), (groupClient g, GroupsDelete groupName)]"
  by (simp add: script_def)

lemma no_delete_before: "rq \<in> set (take 11 (script g x)) \<Longrightarrow> \<not> is_delete (snd rq)"
  by (auto simp: script_def is_delete_def)

lemma filter_none: "(\<And>x. x \<in> set xs \<Longrightarrow> \<not> P x) \<Longrightarrow> filter P xs = []"
  by (induction xs) auto

lemma deletes_take:
  "filter is_delete (map snd (take n (script g x))) = take (n - 11) deletion"
proof -
  have a: "filter is_delete (map snd (take n (take 11 (script g x)))) = []"
  proof (rule filter_none)
    fix k assume "k \<in> set (map snd (take n (take 11 (script g x))))"
    then obtain rq where "rq \<in> set (take n (take 11 (script g x)))" and k: "k = snd rq" by auto
    then have "rq \<in> set (take 11 (script g x))" by (blast dest: in_set_takeD)
    with k show "\<not> is_delete k" by (simp add: no_delete_before)
  qed
  have l: "length (take 11 (script g x)) = 11" by simp
  have "take n (script g x) = take n (take 11 (script g x)) @
      take (n - 11) [(storageClient g, AccountsDelete groupName accountName), (groupClient g, GroupsDelete groupName)]"
    by (subst script_split) (simp only: take_append l)
  moreover have "filter is_delete (map snd (take m
      [(storageClient g, AccountsDelete groupName accountName), (groupClient g, GroupsDelete groupName)]))
      = take m deletion" for m
    by (cases m; cases "m - 1") (simp_all add: is_delete_def deletion_def)
  ultimately show ?thesis using a by simp
qed

lemma prefix_is_take: "prefix xs ys \<Longrightarrow> xs = take (length xs) ys"
  by (auto simp: prefix_def)

lemma deletes_prefix:
  assumes "prefix (requests tr) (script g x)"
  shows "deletes tr = take (length (requests tr) - 11) deletion"
proof -
  from prefix_is_take[OF assms] have "requests tr = take (length (requests tr)) (script g x)" .
  then have "deletes tr = filter is_delete (map snd (take (length (requests tr)) (script g x)))"
    by (simp add: deletes_def)
  then show ?thesis by (simp only: deletes_take)
qed

lemma deletes_before:
  assumes "prefix (requests tr) (take 11 (script g x))"
  shows "deletes tr = []"
  unfolding deletes_def
proof (rule filter_none)
  fix k assume "k \<in> set (map snd (requests tr))"
  then obtain rq where "rq \<in> set (requests tr)" and k: "k = snd rq" by auto
  with assms have "rq \<in> set (take 11 (script g x))"
    using set_mono_prefix by blast
  with k show "\<not> is_delete k" by (simp add: no_delete_before)
qed

lemma deletes_iff_scanned_y:
  assumes "run sdk env stdin s = (st, w)"
  shows "(deletes (trace w) \<noteq> [] \<longleftrightarrow> scans (trace w) = [''y'']) \<and>
         (scans (trace w) = [] \<or> scans (trace w) = [answer stdin]) \<and>
         deletes (before_scan (trace w)) = [] \<and>
         prefix (deletes (trace w)) deletion \<and>
         (scans (trace w) = [''y''] \<and> \<not> failed (trace w) \<longrightarrow> deletes (trace w) = deletion)"
proof -
  from run_spec[OF assms] show ?thesis
  proof
    assume "st = Exit 0 \<and> finished (globals w) (answer stdin) w"
    then have sc: "scans (trace w) = [answer stdin]" and nf: "\<not> failed (trace w)"
      and rq: "requests (trace w) =
                 take (if answer stdin = ''y'' then 13 else 11) (script (globals w) (regen_arg (trace w)))"
      and bs: "requests (before_scan (trace w)) = take 11 (script (globals w) (regen_arg (trace w)))"
      by (simp_all add: finished_def scanned_at_def)
    from rq have d: "deletes (trace w) = take ((if answer stdin = ''y'' then 13 else 11) - 11) deletion"
      by (simp only: deletes_def deletes_take)
    have b: "deletes (before_scan (trace w)) = []"
      by (rule deletes_before[where g = "globals w" and x = "regen_arg (trace w)"]) (simp add: bs)
    from d sc b show ?thesis
      by (cases "answer stdin = ''y''") (simp_all add: deletion_def)
  next
    assume "stopped (globals w) (answer stdin) st w"
    then have pf: "prefix (requests (trace w)) (script (globals w) (regen_arg (trace w)))"
      and pb: "prefix (requests (before_scan (trace w))) (take 11 (script (globals w) (regen_arg (trace w))))"
      and sc: "if scans (trace w) = [] then length (requests (trace w)) \<le> 11
               else scans (trace w) = [''y''] \<and> answer stdin = ''y'' \<and> failed (trace w) \<and>
                    12 \<le> length (requests (trace w))"
      by (simp_all add: stopped_def)
    note d = deletes_prefix[OF pf]
    have b: "deletes (before_scan (trace w)) = []"
      by (rule deletes_before[OF pb])
    have p: "prefix (deletes (trace w)) deletion"
      unfolding d by (rule take_is_prefix)
    show ?thesis
    proof (cases "scans (trace w) = []")
      case True
      with sc have "length (requests (trace w)) \<le> 11" by simp
      with d have "deletes (trace w) = []" by simp
      with True b p show ?thesis by simp
    next
      case False
      with sc have y: "scans (trace w) = [''y'']" "answer stdin = ''y''" "failed (trace w)"
        and l: "12 \<le> length (requests (trace w))" by simp_all
      from l d have "deletes (trace w) \<noteq> []" by (simp add: deletion_def)
      with y b p show ?thesis by simp
    qed
  qed
qed

lemma denied_member:
  assumes "Called c (CheckNameAvailability p) (CheckBody r) None \<in> set tr"
    and "NameAvailable r = Some False"
  shows "denied tr \<noteq> []"
proof -
  from assms(1) obtain pre post where
    "tr = pre @ Called c (CheckNameAvailability p) (CheckBody r) None # post"
    by (auto simp: in_set_conv_decomp)
  with assms(2) show ?thesis by (simp add: denied_Called)
qed

lemma denied_single:
  "denied [ev] \<noteq> [] \<longleftrightarrow>
     (\<exists>c p r. ev = Called c (CheckNameAvailability p) (CheckBody r) None \<and> NameAvailable r = Some False)"
proof (cases ev)
  case (Called c k b e)
  then show ?thesis
    by (cases k; cases b; cases e) (simp_all add: denied_Called)
qed simp_all

lemma denial_ok_skip: "denied [ev] = [] \<Longrightarrow> denial_ok st (ev # es) = denial_ok st es"
  using denial_ok_append[of "[ev]" st es] by (simp del: denial_ok.simps)

lemma denial_at:
  assumes "denial_ok st tr"
    and "Called c (CheckNameAvailability p) (CheckBody r) None \<in> set tr"
    and "NameAvailable r = Some False"
  shows "case Message r of
           None \<Rightarrow> st = Panic \<and> (\<exists>pre. tr = pre @ [Called c (CheckNameAvailability p) (CheckBody r) None])
         | Some m \<Rightarrow> st = Exit 1 \<and>
             (\<exists>pre. tr = pre @ [Called c (CheckNameAvailability p) (CheckBody r) None,
                                Printed (denial_text r m), Printed ''No resources were created.\<newline>''])"
  using assms
proof (induction tr)
  case Nil
  then show ?case by simp
next
  case (Cons ev es)
  let ?ev = "Called c (CheckNameAvailability p) (CheckBody r) None"
  show ?case
  proof (cases "denied [ev] = []")
    case True
    from Cons.prems(1) have ok: "denial_ok st es"
      by (simp only: denial_ok_skip[OF True])
    from True Cons.prems(3) have "ev \<noteq> ?ev"
      using denied_single[of ev] by auto
    with Cons.prems(2) have "?ev \<in> set es" by simp
    from Cons.IH[OF ok this Cons.prems(3)] show ?thesis
      by (cases "Message r") (auto intro: exI[of _ "ev # _"])
  next
    case False
    then obtain c' p' r' where ev: "ev = Called c' (CheckNameAvailability p') (CheckBody r') None"
      and r': "NameAvailable r' = Some False"
      using denied_single[of ev] by auto
    show ?thesis
    proof (cases "Message r'")
      case None
      with Cons.prems(1) ev r' have es: "es = []" and st: "st = Panic" by simp_all
      with Cons.prems(2) ev have "c' = c \<and> p' = p \<and> r' = r" by simp
      with None es st ev show ?thesis by simp
    next
      case (Some m)
      with Cons.prems(1) ev r' have
        es: "es = [Printed (denial_text r' m), Printed ''No resources were created.\<newline>'']"
        and st: "st = Exit 1" by simp_all
      with Cons.prems(2) ev have "c' = c \<and> p' = p \<and> r' = r" by simp
      with Some es st ev show ?thesis by simp
    qed
  qed
qed

lemma script_take2:
  "map snd (take 2 (script g x)) = [Register provider, CheckNameAvailability check_params]"
  by (simp add: script_def check_params_def)

text \<open>
  Claim C1, as amended. Whenever the availability check of a run returns, without error, a
  result whose NameAvailable is false: if its Message is not nil, the run ends with that
  call, the printed reason and message, the line \<open>No resources were created.\<close> and status 1;
  if its Message is nil, the run ends with that call in a panic. In both cases the only
  remote calls of the run are Register and CheckNameAvailability, so neither the resource
  group nor the storage account is created.
\<close>

theorem unavailable_name_stops:
  assumes "run sdk env stdin s = (st, w)"
    and "Called c (CheckNameAvailability p) (CheckBody r) None \<in> set (trace w)"
    and "NameAvailable r = Some False"
  shows "map snd (requests (trace w)) = [Register provider, CheckNameAvailability check_params] \<and>
         (case Message r of
            None \<Rightarrow> st = Panic \<and>
              (\<exists>pre. trace w = pre @ [Called c (CheckNameAvailability p) (CheckBody r) None])
          | Some m \<Rightarrow> st = Exit 1 \<and>
              (\<exists>pre. trace w = pre @ [Called c (CheckNameAvailability p) (CheckBody r) None,
                                       Printed (denial_text r m),
                                       Printed ''No resources were created.\<newline>'']))"
proof -
  from denied_member[OF assms(2,3)] have d: "denied (trace w) \<noteq> []" .
  from run_spec[OF assms(1)] show ?thesis
  proof
    assume "st = Exit 0 \<and> finished (globals w) (answer stdin) w"
    then have "denied (trace w) = []" by (simp add: finished_def scanned_at_def)
    with d show ?thesis by simp
  next
    assume "stopped (globals w) (answer stdin) st w"
    then have ok: "denial_ok st (trace w)"
      and len: "denied (trace w) \<noteq> [] \<longrightarrow> length (requests (trace w)) = 2"
      and pf: "prefix (requests (trace w)) (script (globals w) (regen_arg (trace w)))"
      by (simp_all add: stopped_def)
    from len d have "length (requests (trace w)) = 2" by simp
    with prefix_is_take[OF pf]
    have "requests (trace w) = take 2 (script (globals w) (regen_arg (trace w)))" by simp
    then have "map snd (requests (trace w)) = [Register provider, CheckNameAvailability check_params]"
      by (simp only: script_take2)
    with denial_at[OF ok assms(2,3)] show ?thesis by simp
  qed
qed

lemma behaves_globals: "behaves m banner sel k V \<Longrightarrow> globals (snd (m w)) = globals w"
  unfolding behaves_def
proof -
  assume "\<forall>w. \<exists>b err s' ps.
      snd (m w) = w\<lparr>trace := trace w @ Printed banner # Called (sel (globals w)) k b err # map Printed ps,
                     remote := s'\<rparr> \<and>
      (case err of
         Some e \<Rightarrow> fst (m w) = Inl (Exit 1) \<and> ps = [diagnostic k e]
       | None \<Rightarrow> (\<forall>c. fst (m w) \<noteq> Inl (Exit c)) \<and> (\<forall>a. fst (m w) = Inr a \<longrightarrow> V a b))"
  then obtain b err s' ps where
    "snd (m w) = w\<lparr>trace := trace w @ Printed banner # Called (sel (globals w)) k b err # map Printed ps,
                    remote := s'\<rparr>"
    by blast
  then show ?thesis by simp
qed

lemma checkAccountAvailability_globals: "globals (snd (checkAccountAvailability sdk w)) = globals w"
proof -
  obtain r err s' where
    "accounts_CheckNameAvailability sdk (storageClient (globals w)) check_params (remote w) = ((r, err), s')"
    by (metis prod.exhaust)
  from checkAccountAvailability_run[OF this] show ?thesis
    by (simp add: Let_def split: option.splits bool.splits)
qed

lemma regenStorageKey_globals: "globals (snd (regenStorageKey sdk keys w)) = globals w"
proof (cases "Keys keys")
  case None
  then show ?thesis by (simp add: regenStorageKey_panics)
next
  case (Some ks)
  show ?thesis
  proof (cases ks)
    case Nil
    with Some show ?thesis by (simp add: regenStorageKey_panics)
  next
    case (Cons first rest)
    with Some have "Keys keys = Some (first # rest)" by simp
    from behaves_globals[OF regenStorageKey_behaves[OF this]] show ?thesis .
  qed
qed

lemma delete_globals: "globals (snd (delete sdk w)) = globals w"
proof -
  obtain err1 s1 where a:
    "accounts_Delete sdk (storageClient (globals w)) groupName accountName (remote w) = (err1, s1)"
    by (metis prod.exhaust)
  obtain err2 s2 where b: "groups_Delete sdk (groupClient (globals w)) groupName s1 = (err2, s2)"
    by (metis prod.exhaust)
  from delete_run[OF a b] show ?thesis
    by (simp add: Let_def split: option.splits)
qed

lemma script_handles:
  "rq \<in> set (script (made_clients subscriptionID spToken) x) \<Longrightarrow> fst rq = handle subscriptionID spToken"
  by (auto simp: script_def made_clients_def)

lemma run_globals:
  assumes "run sdk env stdin s = (st, w)" and "requests (trace w) \<noteq> []"
  shows "\<exists>config spToken.
           OAuthConfigForTenant sdk (os_Getenv env ''AZURE_TENANT_ID'') = (Some config, None) \<and>
           NewServicePrincipalToken sdk config (os_Getenv env ''AZURE_CLIENT_ID'')
             (os_Getenv env ''AZURE_CLIENT_SECRET'') (ResourceManagerEndpoint sdk) = (spToken, None) \<and>
           globals w = made_clients (os_Getenv env ''AZURE_SUBSCRIPTION_ID'') spToken"
proof (cases "init sdk env (world0 s)")
  case (Pair r w1)
  show ?thesis
  proof (cases r)
    case (Inl st1)
    with Pair assms(1) have "w = w1" by (simp add: run_def thenp_def bindp_def)
    moreover from init_effect[OF Pair] obtain ps where "trace w1 = map Printed ps" by blast
    ultimately have "requests (trace w) = []" by simp
    with assms(2) show ?thesis by simp
  next
    case (Inr u)
    from init_effect[OF Pair] Inr obtain config spToken where
      tr: "trace w1 = []"
      and a: "OAuthConfigForTenant sdk (os_Getenv env ''AZURE_TENANT_ID'') = (Some config, None)"
      and b: "NewServicePrincipalToken sdk config (os_Getenv env ''AZURE_CLIENT_ID'')
             (os_Getenv env ''AZURE_CLIENT_SECRET'') (ResourceManagerEndpoint sdk) = (spToken, None)"
      and g: "globals w1 = made_clients (os_Getenv env ''AZURE_SUBSCRIPTION_ID'') spToken"
      by auto
    have pre: "at_step 0 (globals w1) None w1"
      using tr by (simp add: at_step_def regen_arg_def)
    obtain r2 w2 where m: "main sdk stdin w1 = (r2, w2)" by (metis prod.exhaust)
    from main_hoare[of "globals w1" sdk stdin] pre m
    have post: "case r2 of Inl st \<Rightarrow> stopped (globals w1) (answer stdin) st w2
                  | Inr a \<Rightarrow> finished (globals w1) (answer stdin) w2"
      by (auto simp: hoare_def split: sum.splits)
    then have "globals w2 = globals w1"
      by (cases r2) (simp_all add: stopped_def finished_def scanned_at_def)
    moreover from Pair Inr m assms(1) have "w = w2"
      by (cases r2) (simp_all add: run_def thenp_def bindp_def)
    ultimately show ?thesis using a b g by auto
  qed
qed

text \<open>
  Claim C10. A run that issues any remote call has passed \<open>init\<close>, which built the token once
  and stored in each of the four package-level variables a client holding the subscription
  ID of the environment and that token. Every remote call of the run is made through that
  client value, the variables still hold it when the run ends, and each of the twelve
  functions that \<open>main\<close> calls returns the package-level variables unchanged, from any state.
\<close>

theorem clients_fixed_after_init:
  assumes "run sdk env stdin s = (st, w)" and "requests (trace w) \<noteq> []"
  shows "(\<exists>config spToken.
            OAuthConfigForTenant sdk (os_Getenv env ''AZURE_TENANT_ID'') = (Some config, None) \<and>
            NewServicePrincipalToken sdk config (os_Getenv env ''AZURE_CLIENT_ID'')
              (os_Getenv env ''AZURE_CLIENT_SECRET'') (ResourceManagerEndpoint sdk) = (spToken, None) \<and>
            globals w = made_clients (os_Getenv env ''AZURE_SUBSCRIPTION_ID'') spToken \<and>
            (\<forall>rq \<in> set (requests (trace w)).
               fst rq = handle (os_Getenv env ''AZURE_SUBSCRIPTION_ID'') spToken)) \<and>
         (\<forall>w0 :: ('t, 's) world.
            globals (snd (registerResourceProvider sdk w0)) = globals w0 \<and>
            globals (snd (checkAccountAvailability sdk w0)) = globals w0 \<and>
            globals (snd (createResourceGroup sdk w0)) = globals w0 \<and>
            globals (snd (createStorageAccount sdk w0)) = globals w0 \<and>
            globals (snd (getStorageAccountProperties sdk w0)) = globals w0 \<and>
            globals (snd (listStorageAccountsByResourceGroup sdk w0)) = globals w0 \<and>
            globals (snd (listStorageAccountsBySubscription sdk w0)) = globals w0 \<and>
            globals (snd (getStorageKeys sdk w0)) = globals w0 \<and>
            (\<forall>keys. globals (snd (regenStorageKey sdk keys w0)) = globals w0) \<and>
            globals (snd (updateStorageAccount sdk w0)) = globals w0 \<and>
            globals (snd (listUsage sdk w0)) = globals w0 \<and>
            globals (snd (delete sdk w0)) = globals w0)"
proof -
  from run_globals[OF assms] obtain config spToken where
    a: "OAuthConfigForTenant sdk (os_Getenv env ''AZURE_TENANT_ID'') = (Some config, None)"
    and b: "NewServicePrincipalToken sdk config (os_Getenv env ''AZURE_CLIENT_ID'')
             (os_Getenv env ''AZURE_CLIENT_SECRET'') (ResourceManagerEndpoint sdk) = (spToken, None)"
    and g: "globals w = made_clients (os_Getenv env ''AZURE_SUBSCRIPTION_ID'') spToken"
    by blast
  have pf: "prefix (requests (trace w)) (script (globals w) (regen_arg (trace w)))"
    using run_spec[OF assms(1)] by (auto simp: stopped_def finished_prefix)
  have h: "fst rq = handle (os_Getenv env ''AZURE_SUBSCRIPTION_ID'') spToken"
    if "rq \<in> set (requests (trace w))" for rq
  proof -
    from that pf have "rq \<in> set (script (globals w) (regen_arg (trace w)))"
      using set_mono_prefix by blast
    then show ?thesis unfolding g by (rule script_handles)
  qed
  have steps: "globals (snd (registerResourceProvider sdk w0)) = globals w0 \<and>
            globals (snd (checkAccountAvailability sdk w0)) = globals w0 \<and>
            globals (snd (createResourceGroup sdk w0)) = globals w0 \<and>
            globals (snd (createStorageAccount sdk w0)) = globals w0 \<and>
            globals (snd (getStorageAccountProperties sdk w0)) = globals w0 \<and>
            globals (snd (listStorageAccountsByResourceGroup sdk w0)) = globals w0 \<and>
            globals (snd (listStorageAccountsBySubscription sdk w0)) = globals w0 \<and>
            globals (snd (getStorageKeys sdk w0)) = globals w0 \<and>
            (\<forall>keys. globals (snd (regenStorageKey sdk keys w0)) = globals w0) \<and>
            globals (snd (updateStorageAccount sdk w0)) = globals w0 \<and>
            globals (snd (listUsage sdk w0)) = globals w0 \<and>
            globals (snd (delete sdk w0)) = globals w0" for w0 :: "('t, 's) world"
    by (intro conjI allI behaves_globals[OF registerResourceProvider_behaves]
        checkAccountAvailability_globals behaves_globals[OF createResourceGroup_behaves]
        behaves_globals[OF createStorageAccount_behaves]
        behaves_globals[OF getStorageAccountProperties_behaves]
        behaves_globals[OF listStorageAccountsByResourceGroup_behaves]
        behaves_globals[OF listStorageAccountsBySubscription_behaves]
        behaves_globals[OF getStorageKeys_behaves] regenStorageKey_globals
        behaves_globals[OF updateStorageAccount_behaves] behaves_globals[OF listUsage_behaves]
        delete_globals)
  from a b g h steps show ?thesis by blast
qed

text \<open>
  Claim C4, as amended. When one of the four required variables is unset, the run exits
  with status 1 having issued no remote call and left the remote service and the
  package-level variables untouched, and it has printed exactly one line. That line is
  \<open>Missing environment variable NAME\<close> for the first variable, in the order subscription ID,
  tenant ID, client ID, client secret, that is unset or empty; except that when that variable
  is the client ID or the client secret and the OAuth configuration for the tenant cannot
  be built, the line is the \<open>OAuthConfigForTenant failed\<close> diagnostic, which comes first.
\<close>

theorem missing_variable_exit:
  assumes "v \<in> set required_vars" and "env v = None" and "run sdk env stdin s = (st, w)"
  shows "st = Exit 1 \<and> requests (trace w) = [] \<and> remote w = s \<and> globals w = globals (world0 s) \<and>
         (\<exists>name. first_missing env = Some name \<and>
            trace w =
              [Printed
                (case snd (OAuthConfigForTenant sdk (os_Getenv env ''AZURE_TENANT_ID'')) of
                   Some e \<Rightarrow>
                     if name = ''AZURE_CLIENT_ID'' \<or> name = ''AZURE_CLIENT_SECRET''
                     then ''OAuthConfigForTenant failed: '' @ e @ ''\<newline>''
                     else ''Missing environment variable '' @ name @ ''\<newline>''
                 | None \<Rightarrow> ''Missing environment variable '' @ name @ ''\<newline>'')])"
proof -
  from assms(1,2) have e: "os_Getenv env v = []" by (simp add: os_Getenv_def)
  from init_missing[of v env sdk "world0 s"] assms(1,2) obtain m where
    i: "init sdk env (world0 s) = (Inl (Exit 1), (world0 s)\<lparr>trace := trace (world0 s) @ [Printed m]\<rparr>)"
    by blast
  from run_init_stop[OF i, of stdin] assms(3)
  have st: "st = Exit 1" and w: "w = (world0 s)\<lparr>trace := trace (world0 s) @ [Printed m]\<rparr>"
    by simp_all
  have tr: "trace w = [Printed m]" and r: "remote w = s" and g: "globals w = globals (world0 s)"
    by (simp_all add: w world0_def)
  from i e assms(1) have
    "\<exists>name. first_missing env = Some name \<and>
       m = (case snd (OAuthConfigForTenant sdk (os_Getenv env ''AZURE_TENANT_ID'')) of
                   Some e \<Rightarrow>
                     if name = ''AZURE_CLIENT_ID'' \<or> name = ''AZURE_CLIENT_SECRET''
                     then ''OAuthConfigForTenant failed: '' @ e @ ''\<newline>''
                     else ''Missing environment variable '' @ name @ ''\<newline>''
                 | None \<Rightarrow> ''Missing environment variable '' @ name @ ''\<newline>'')"
    unfolding init_run first_missing_def required_vars_def
    by (auto simp: Let_def missing_message_def world0_def split: prod.splits option.splits if_splits)
  with st tr r g show ?thesis by simp
qed

lemma mock_taken_run:
  "run mock_taken mock_env stdin 0 =
     (Exit 1,
      \<lparr>trace = take 3 mock_transcript @
         [Called mock_handle (CheckNameAvailability check_params) (CheckBody taken) None,
          Printed (denial_text taken ''The storage account named golangrocksonazure is already taken.''),
          Printed ''No resources were created.\<newline>''],
       remote = 0, globals = made_clients ''sub'' ''cid''\<rparr>)"
  by (simp add: run_eval mock_taken_def mock_def mock_env_def taken_def mock_transcript_def
      mock_handle_def check_params_def denial_text_def)

text \<open>
  A run in which the provider reports the name as taken, with a reason and a message.
\<close>

theorem unavailable_name_stops_witness:
  "fst (run mock_taken mock_env (runes ''y\<newline>'') 0) = Exit 1 \<and>
   map snd (requests (trace (snd (run mock_taken mock_env (runes ''y\<newline>'') 0)))) =
     [Register provider, CheckNameAvailability check_params] \<and>
   stdout (trace (snd (run mock_taken mock_env (runes ''y\<newline>'') 0))) =
     ''Register resource provider...\<newline>'' @ ''Check account name availability...\<newline>'' @
     denial_text taken ''The storage account named golangrocksonazure is already taken.'' @
     ''No resources were created.\<newline>''"
  using unavailable_name_stops[OF mock_taken_run[of "runes ''y\<newline>''"], of mock_handle check_params taken]
  by (simp add: mock_taken_run mock_transcript_def stdout_def taken_def)

text \<open>
  The provider reports the name as taken and leaves the message nil: the run panics right
  after the call, and neither the reason nor \<open>No resources were created.\<close> is printed.
\<close>

theorem unavailable_without_message_counterexample:
  "run mock_taken_silent mock_env (runes ''y\<newline>'') 0 =
     (Panic,
      \<lparr>trace =
         [Printed ''Register resource provider...\<newline>'',
          Called mock_handle (Register provider) NoBody None,
          Printed ''Check account name availability...\<newline>'',
          Called mock_handle (CheckNameAvailability check_params)
            (CheckBody \<lparr>NameAvailable = Some False, Reason = ''AlreadyExists'', Message = None\<rparr>) None],
       remote = 0, globals = made_clients ''sub'' ''cid''\<rparr>) \<and>
   stdout (trace (snd (run mock_taken_silent mock_env (runes ''y\<newline>'') 0))) =
     ''Register resource provider...\<newline>'' @ ''Check account name availability...\<newline>''"
  by (simp add: run_eval mock_taken_silent_def mock_def mock_env_def taken_def
      mock_handle_def check_params_def stdout_def)

text \<open>A run with the tenant ID unset.\<close>

theorem missing_variable_exit_witness:
  "run mock (mock_env(''AZURE_TENANT_ID'' := None)) (runes ''y\<newline>'') 0 =
     (Exit 1, (world0 0)\<lparr>trace := [Printed ''Missing environment variable AZURE_TENANT_ID\<newline>'']\<rparr>)"
proof -
  let ?env = "mock_env(''AZURE_TENANT_ID'' := None)"
  have "run mock ?env (runes ''y\<newline>'') 0 = (fst (run mock ?env (runes ''y\<newline>'') 0), snd (run mock ?env (runes ''y\<newline>'') 0))"
    by simp
  from missing_variable_exit[OF _ _ this, of "''AZURE_TENANT_ID''"]
  show ?thesis
    by (simp add: required_vars_def first_missing_def os_Getenv_def mock_env_def mock_def world0_def
        prod_eq_iff)
qed

text \<open>
  The client ID is unset and the OAuth configuration cannot be built for the tenant: the
  line printed is the diagnostic of \<open>OAuthConfigForTenant\<close>, and no variable is named.
\<close>

theorem missing_variable_other_message_counterexample:
  "(mock_env(''AZURE_CLIENT_ID'' := None)) ''AZURE_CLIENT_ID'' = None \<and>
   run mock_bad_tenant (mock_env(''AZURE_CLIENT_ID'' := None)) (runes ''y\<newline>'') 0 =
     (Exit 1, (world0 0)\<lparr>trace := [Printed ''OAuthConfigForTenant failed: invalid URL escape\<newline>'']\<rparr>)"
  by (simp add: run_def init_run thenp_def bindp_def world0_def os_Getenv_def mock_env_def
      mock_bad_tenant_def mock_def Let_def)

text \<open>A full run: all thirteen calls go through the client built from the environment.\<close>

theorem clients_fixed_after_init_witness:
  "globals (snd (run mock mock_env (runes ''y\<newline>'') 0)) = made_clients ''sub'' ''cid'' \<and>
   map fst (requests (trace (snd (run mock mock_env (runes ''y\<newline>'') 0)))) = replicate 13 (handle ''sub'' ''cid'')"
  using clients_fixed_after_init[OF mock_run[of "runes ''y\<newline>''"]]
  by (simp add: mock_run mock_requests script_def made_clients_def mock_deletion_def mock_handle_def
      numeral_eq_Suc)

lemma printKeys_run:
  "printKeys ks w =
     (if list_all printable ks then Inr () else Inl Panic,
      w\<lparr>trace := trace w @ key_lines (takeWhile printable ks)\<rparr>)"
proof (induction ks arbitrary: w)
  case Nil
  then show ?case by (simp add: ret_def key_lines_def)
next
  case (Cons k ks)
  show ?case
  proof (cases "printable k")
    case False
    then show ?thesis
      by (auto simp: printable_def bindp_def deref_def slice5_def panic_def ret_def key_lines_def
          split: option.splits)
  next
    case True
    then obtain n v where k: "KeyName k = Some n" "key_Value k = Some v" "5 \<le> length v"
      by (auto simp: printable_def split: option.splits)
    have "printKeys (k # ks) w =
            printKeys ks (w\<lparr>trace := trace w @ [Printed (key_report k), Printed separator]\<rparr>)"
      using k
      by (simp add: bindp_def thenp_def deref_def slice5_def ret_def fmt_Print_def fmt_Println_def
          key_report_def shown_value_def separator_def)
    with True show ?thesis by (simp add: Cons.IH key_lines_def)
  qed
qed

lemma getStorageKeys_run:
  assumes "accounts_ListKeys sdk (storageClient (globals w)) groupName accountName (remote w)
             = ((keys, err), s')"
  shows "getStorageKeys sdk w =
     (let w1 = w\<lparr>trace := trace w @
                   [Printed ''Get storage account keys...\<newline>'',
                    Called (storageClient (globals w)) (ListKeys groupName accountName) (KeysBody keys) err],
                  remote := s'\<rparr>;
          header = Printed (quoted accountName @ '' storage account keys\<newline>'')
      in case err of
           Some e \<Rightarrow> (Inl (Exit 1), w1\<lparr>trace := trace w1 @ [Printed (''ListKeys failed: '' @ e @ ''\<newline>'')]\<rparr>)
         | None \<Rightarrow>
             (case Keys keys of
                None \<Rightarrow> (Inl Panic, w1\<lparr>trace := trace w1 @ [header]\<rparr>)
              | Some ks \<Rightarrow>
                  (if list_all printable ks then Inr keys else Inl Panic,
                   w1\<lparr>trace := trace w1 @ header # key_lines (takeWhile printable ks)\<rparr>)))"
  using assms
  by (simp add: getStorageKeys_def thenp_def bindp_def fmt_Println_def fmt_Print_def global_def
      remote_call_def onErrorFail_run deref_def panic_def ret_def printKeys_run Let_def
      split: option.splits)

lemma regenStorageKey_run:
  assumes "Keys keys = Some (first # rest)"
    and "accounts_RegenerateKey sdk (storageClient (globals w)) groupName accountName
           \<lparr>regen_KeyName = KeyName first\<rparr> (remote w) = ((newKeys, err), s')"
  shows "regenStorageKey sdk keys w =
     (let w1 = w\<lparr>trace := trace w @
                   [Printed ''Regenerate account key...\<newline>'',
                    Called (storageClient (globals w))
                      (RegenerateKey groupName accountName \<lparr>regen_KeyName = KeyName first\<rparr>)
                      (KeysBody newKeys) err],
                  remote := s'\<rparr>
      in case err of
           Some e \<Rightarrow>
             (Inl (Exit 1), w1\<lparr>trace := trace w1 @ [Printed (''RegenerateKey failed: '' @ e @ ''\<newline>'')]\<rparr>)
         | None \<Rightarrow>
             (case Keys newKeys of
                Some (new # others) \<Rightarrow>
                  if printable new
                  then (Inr (), w1\<lparr>trace := trace w1 @ [Printed ''New key\<newline>'', Printed (key_report new)]\<rparr>)
                  else (Inl Panic, w1\<lparr>trace := trace w1 @ [Printed ''New key\<newline>'']\<rparr>)
              | _ \<Rightarrow> (Inl Panic, w1\<lparr>trace := trace w1 @ [Printed ''New key\<newline>'']\<rparr>)))"
  using assms
  by (auto simp: regenStorageKey_def thenp_def bindp_def fmt_Println_def fmt_Print_def global_def
      remote_call_def onErrorFail_run deref_def index0_def slice5_def panic_def ret_def Let_def
      printable_def key_report_def shown_value_def
      split: option.splits list.splits)

lemma updateStorageAccount_run:
  assumes "accounts_Update sdk (storageClient (globals w)) groupName accountName
             \<lparr>Tags = Some fixed_tags\<rparr> (remote w) = (err, s')"
  shows "updateStorageAccount sdk w =
     (case err of None \<Rightarrow> Inr () | Some e \<Rightarrow> Inl (Exit 1),
      w\<lparr>trace := trace w @
           [Printed ''Update storage account...\<newline>'',
            Called (storageClient (globals w)) (Update groupName accountName \<lparr>Tags = Some fixed_tags\<rparr>)
              NoBody err] @
           (case err of None \<Rightarrow> [] | Some e \<Rightarrow> [Printed (''Update failed: '' @ e @ ''\<newline>'')]),
         remote := s'\<rparr>)"
  using assms
  by (simp add: updateStorageAccount_def thenp_def bindp_def fmt_Println_def fmt_Print_def global_def
      remote_call_discard_def onErrorFail_run fixed_tags_def Let_def split: option.splits)

lemma printable_iff:
  "printable k \<longleftrightarrow> (\<exists>n v. KeyName k = Some n \<and> key_Value k = Some v \<and> 5 \<le> length v)"
  by (auto simp: printable_def split: option.splits)

lemma key_report_eq:
  "KeyName k = Some n \<Longrightarrow> key_Value k = Some v \<Longrightarrow>
     key_report k = tab @ ''Key name: '' @ n @ ''\<newline>'' @ tab @ ''Value: '' @ take 5 v @ ''...\<newline>'' @
                    tab @ ''Permissions: '' @ Permissions k @ ''\<newline>''"
  by (simp add: key_report_def shown_value_def)

text \<open>
  Claim C9, as amended. After a successful ListKeys call that returns a non-nil list, the
  key-listing step prints the heading and then, for the keys of the list in order up to the
  first key that is not printable (nil name, nil value, or a value shorter than five bytes),
  the key's name, the first five bytes of its value followed by \<open>...\<close>, and its permission
  scope, each followed by a separator line. It returns the fetched keys when every key is
  printable and panics at the first key that is not.
\<close>

theorem key_listing_prints:
  assumes "accounts_ListKeys sdk (storageClient (globals w)) groupName accountName (remote w)
             = ((keys, None), s')"
    and "Keys keys = Some ks"
  shows "getStorageKeys sdk w =
           (if list_all printable ks then Inr keys else Inl Panic,
            w\<lparr>trace := trace w @
                 [Printed ''Get storage account keys...\<newline>'',
                  Called (storageClient (globals w)) (ListKeys groupName accountName) (KeysBody keys) None,
                  Printed (quoted accountName @ '' storage account keys\<newline>'')] @
                 concat (map (\<lambda>k. [Printed (key_report k), Printed (tab @ ''----------------\<newline>'')])
                           (takeWhile printable ks)),
               remote := s'\<rparr>) \<and>
         (\<forall>k n v. KeyName k = Some n \<longrightarrow> key_Value k = Some v \<longrightarrow>
            key_report k =
              tab @ ''Key name: '' @ n @ ''\<newline>'' @ tab @ ''Value: '' @ take 5 v @ ''...\<newline>'' @
              tab @ ''Permissions: '' @ Permissions k @ ''\<newline>'') \<and>
         (\<forall>k. printable k \<longleftrightarrow> (\<exists>n v. KeyName k = Some n \<and> key_Value k = Some v \<and> 5 \<le> length v))"
  using assms
  by (simp add: getStorageKeys_run key_lines_def separator_def key_report_eq printable_iff)

text \<open>
  Claim C7, as amended. Inside \<open>main\<close>, the regeneration step receives the result of the
  key listing before it. When that listing fetched a non-empty list of printable keys and
  the RegenerateKey call succeeds with a list whose first key is printable, the call names
  the first key of the fetched list (index 0), and the new key is printed by the same
  function of the key as each key of the listing: name, first five bytes of the value
  followed by \<open>...\<close>, permissions. The printed value of the new key differs from the printed
  value of the original first key exactly when the two values differ within their first
  five bytes.
\<close>

theorem regenerates_first_key:
  assumes "accounts_ListKeys sdk (storageClient (globals w)) groupName accountName (remote w)
             = ((keys, None), s1)"
    and "Keys keys = Some (first # rest)" and "list_all printable (first # rest)"
    and "accounts_RegenerateKey sdk (storageClient (globals w)) groupName accountName
           \<lparr>regen_KeyName = KeyName first\<rparr> s1 = ((newKeys, None), s2)"
    and "Keys newKeys = Some (new # others)" and "printable new"
  shows "bindp (getStorageKeys sdk) (\<lambda>fetched. thenp (regenStorageKey sdk fetched) continue) w =
           continue
             (w\<lparr>trace := trace w @
                  [Printed ''Get storage account keys...\<newline>'',
                   Called (storageClient (globals w)) (ListKeys groupName accountName) (KeysBody keys) None,
                   Printed (quoted accountName @ '' storage account keys\<newline>'')] @
                  concat (map (\<lambda>k. [Printed (key_report k), Printed (tab @ ''----------------\<newline>'')])
                            (first # rest)) @
                  [Printed ''Regenerate account key...\<newline>'',
                   Called (storageClient (globals w))
                     (RegenerateKey groupName accountName \<lparr>regen_KeyName = KeyName first\<rparr>)
                     (KeysBody newKeys) None,
                   Printed ''New key\<newline>'',
                   Printed (key_report new)],
                remote := s2\<rparr>) \<and>
         (\<forall>k. key_report k =
            tab @ ''Key name: '' @ (case KeyName k of Some n \<Rightarrow> n | None \<Rightarrow> []) @ ''\<newline>'' @
            tab @ ''Value: '' @ shown_value k @ ''\<newline>'' @
            tab @ ''Permissions: '' @ Permissions k @ ''\<newline>'') \<and>
         (\<forall>v0 v. key_Value first = Some v0 \<longrightarrow> key_Value new = Some v \<longrightarrow>
            shown_value first = take 5 v0 @ ''...'' \<and> shown_value new = take 5 v @ ''...'' \<and>
            (shown_value new \<noteq> shown_value first \<longleftrightarrow> take 5 v \<noteq> take 5 v0))"
proof -
  define w1 where "w1 = w\<lparr>trace := trace w @
                 [Printed ''Get storage account keys...\<newline>'',
                  Called (storageClient (globals w)) (ListKeys groupName accountName) (KeysBody keys) None,
                  Printed (quoted accountName @ '' storage account keys\<newline>'')] @
                 key_lines (first # rest),
               remote := s1\<rparr>"
  have tw: "takeWhile printable rest = rest"
    using assms(3) by (simp add: takeWhile_eq_all_conv list_all_iff)
  have a: "getStorageKeys sdk w = (Inr keys, w1)"
    using assms(1,2,3) by (simp add: getStorageKeys_run tw w1_def)
  have "accounts_RegenerateKey sdk (storageClient (globals w1)) groupName accountName
           \<lparr>regen_KeyName = KeyName first\<rparr> (remote w1) = ((newKeys, None), s2)"
    using assms(4) by (simp add: w1_def)
  from regenStorageKey_run[OF assms(2) this] assms(5,6)
  have b: "regenStorageKey sdk keys w1 =
             (Inr (), w1\<lparr>trace := trace w1 @
                  [Printed ''Regenerate account key...\<newline>'',
                   Called (storageClient (globals w1))
                     (RegenerateKey groupName accountName \<lparr>regen_KeyName = KeyName first\<rparr>)
                     (KeysBody newKeys) None,
                   Printed ''New key\<newline>'',
                   Printed (key_report new)],
                remote := s2\<rparr>)"
    by simp
  have "bindp (getStorageKeys sdk) (\<lambda>fetched. thenp (regenStorageKey sdk fetched) continue) w =
          continue (w1\<lparr>trace := trace w1 @
                  [Printed ''Regenerate account key...\<newline>'',
                   Called (storageClient (globals w1))
                     (RegenerateKey groupName accountName \<lparr>regen_KeyName = KeyName first\<rparr>)
                     (KeysBody newKeys) None,
                   Printed ''New key\<newline>'',
                   Printed (key_report new)],
                remote := s2\<rparr>)"
    by (simp only: bindp_def thenp_def a b prod.case sum.case)
  then show ?thesis
    by (simp add: w1_def key_lines_def separator_def key_report_def shown_value_def)
qed

text \<open>
  Claim C8. From every state, the update step calls Update for the fixed group and account
  with a tag set that is exactly the two pairs \<open>who rocks\<close> to \<open>golang\<close> and \<open>where\<close> to
  \<open>on azure\<close>, whatever the remote service holds; and every Update call in the trace of any
  run carries these arguments.
\<close>

theorem update_sends_fixed_tags:
  "(\<exists>err s'.
      accounts_Update sdk (storageClient (globals w)) groupName accountName
        \<lparr>Tags = Some fixed_tags\<rparr> (remote w) = (err, s') \<and>
      updateStorageAccount sdk w =
        (case err of None \<Rightarrow> Inr () | Some e \<Rightarrow> Inl (Exit 1),
         w\<lparr>trace := trace w @
              [Printed ''Update storage account...\<newline>'',
               Called (storageClient (globals w))
                 (Update groupName accountName \<lparr>Tags = Some fixed_tags\<rparr>) NoBody err] @
              (case err of None \<Rightarrow> [] | Some e \<Rightarrow> [Printed (''Update failed: '' @ e @ ''\<newline>'')]),
            remote := s'\<rparr>)) \<and>
   dom fixed_tags = {''who rocks'', ''where''} \<and>
   fixed_tags ''who rocks'' = Some (Some ''golang'') \<and>
   fixed_tags ''where'' = Some (Some ''on azure'') \<and>
   (run sdk env stdin s = (st, w2) \<longrightarrow>
      (\<forall>rq \<in> set (requests (trace w2)). \<forall>g a p.
         snd rq = Update g a p \<longrightarrow> g = groupName \<and> a = accountName \<and> p = \<lparr>Tags = Some fixed_tags\<rparr>))"
proof (intro conjI impI ballI allI)
  obtain err s' where op: "accounts_Update sdk (storageClient (globals w)) groupName accountName
        \<lparr>Tags = Some fixed_tags\<rparr> (remote w) = (err, s')"
    by (metis prod.exhaust)
  from updateStorageAccount_run[OF op] op
  show "\<exists>err s'.
      accounts_Update sdk (storageClient (globals w)) groupName accountName
        \<lparr>Tags = Some fixed_tags\<rparr> (remote w) = (err, s') \<and>
      updateStorageAccount sdk w =
        (case err of None \<Rightarrow> Inr () | Some e \<Rightarrow> Inl (Exit 1),
         w\<lparr>trace := trace w @
              [Printed ''Update storage account...\<newline>'',
               Called (storageClient (globals w))
                 (Update groupName accountName \<lparr>Tags = Some fixed_tags\<rparr>) NoBody err] @
              (case err of None \<Rightarrow> [] | Some e \<Rightarrow> [Printed (''Update failed: '' @ e @ ''\<newline>'')]),
            remote := s'\<rparr>)"
    by blast
next
  show "dom fixed_tags = {''who rocks'', ''where''}"
    by (auto simp: fixed_tags_def)
next
  show "fixed_tags ''who rocks'' = Some (Some ''golang'')"
    by (simp add: fixed_tags_def)
next
  show "fixed_tags ''where'' = Some (Some ''on azure'')"
    by (simp add: fixed_tags_def)
next
  fix rq g a p
  assume r: "run sdk env stdin s = (st, w2)" and m: "rq \<in> set (requests (trace w2))"
    and u: "snd rq = Update g a p"
  have "prefix (requests (trace w2)) (script (globals w2) (regen_arg (trace w2)))"
    using run_spec[OF r] by (auto simp: stopped_def finished_prefix)
  with m have "rq \<in> set (script (globals w2) (regen_arg (trace w2)))"
    using set_mono_prefix by blast
  with u have "g = groupName \<and> a = accountName \<and> p = \<lparr>Tags = Some fixed_tags\<rparr>"
    by (auto simp: script_def fixed_tags_def)
  then show "g = groupName" "a = accountName" "p = \<lparr>Tags = Some fixed_tags\<rparr>" by simp_all
qed

lemma mock_world_simps [simp]:
  "trace mock_world = []" "remote mock_world = 0"
  "storageClient (globals mock_world) = mock_handle"
  by (simp_all add: mock_world_def world0_def made_clients_def mock_handle_def)

lemma mock_ListKeys: "accounts_ListKeys mock c g a s = ((mock_keys s, None), s)"
  by (simp add: mock_def)

lemma mock_RegenerateKey: "accounts_RegenerateKey mock c g a p s = ((mock_keys (Suc s), None), Suc s)"
  by (simp add: mock_def)

lemma mock_Update: "accounts_Update mock c g a p s = (None, s)"
  by (simp add: mock_def)

lemma mock_short_ListKeys: "accounts_ListKeys mock_short_key c g a s = ((short_keys, None), s)"
  by (simp add: mock_short_key_def)

lemma mock_nameless_ListKeys:
  "accounts_ListKeys mock_nameless c g a s =
     ((\<lparr>Keys = Some [\<lparr>KeyName = None, key_Value = Some ''AAAAA11111'', Permissions = ''Full''\<rparr>]\<rparr>, None), s)"
  by (simp add: mock_nameless_def)

lemma mock_no_keys_ListKeys: "accounts_ListKeys mock_no_keys c g a s = ((\<lparr>Keys = Some []\<rparr>, None), s)"
  by (simp add: mock_no_keys_def)

lemma mock_same_prefix_ops:
  "accounts_ListKeys mock_same_prefix c g a s = ((mock_keys s, None), s)"
  "accounts_RegenerateKey mock_same_prefix c g a p s = ((same_prefix_keys, None), Suc s)"
  by (simp_all add: mock_same_prefix_def mock_def)

lemma mock_keys_simps:
  "Keys (mock_keys 0) = Some [good_key ''key1'' ''AAAAA11111'', good_key ''key2'' ''CCCCC33333'']"
  "Keys (mock_keys (Suc n)) = Some [good_key ''key1'' ''BBBBB22222'', good_key ''key2'' ''CCCCC33333'']"
  by (simp_all add: mock_keys_def good_key_def)

lemma good_key_printable [simp]: "printable (good_key n v) = (5 \<le> length v)"
  by (simp add: printable_def good_key_def)

lemma good_key_report:
  "key_report (good_key n v) =
     tab @ ''Key name: '' @ n @ ''\<newline>'' @ tab @ ''Value: '' @ take 5 v @ ''...\<newline>'' @
     tab @ ''Permissions: Full\<newline>''"
  by (simp add: key_report_def shown_value_def good_key_def)

text \<open>A listing of two printable keys.\<close>

theorem key_listing_prints_witness:
  "getStorageKeys mock mock_world =
     (Inr (mock_keys 0),
      mock_world\<lparr>trace :=
        [Printed ''Get storage account keys...\<newline>'',
         Called mock_handle (ListKeys groupName accountName) (KeysBody (mock_keys 0)) None,
         Printed (quoted accountName @ '' storage account keys\<newline>''),
         Printed (tab @ ''Key name: key1\<newline>'' @ tab @ ''Value: AAAAA...\<newline>'' @
                  tab @ ''Permissions: Full\<newline>''),
         Printed (tab @ ''----------------\<newline>''),
         Printed (tab @ ''Key name: key2\<newline>'' @ tab @ ''Value: CCCCC...\<newline>'' @
                  tab @ ''Permissions: Full\<newline>''),
         Printed (tab @ ''----------------\<newline>'')]\<rparr>)"
  using key_listing_prints[of mock mock_world "mock_keys 0" 0
      "[good_key ''key1'' ''AAAAA11111'', good_key ''key2'' ''CCCCC33333'']"]
  by (simp add: mock_ListKeys mock_keys_simps good_key_report)

text \<open>
  A list whose second key has a three-byte value: the first key is printed, the step panics
  at the second, and the third key is never printed.
\<close>

theorem key_listing_stops_counterexample:
  "getStorageKeys mock_short_key mock_world =
     (Inl Panic,
      mock_world\<lparr>trace :=
        [Printed ''Get storage account keys...\<newline>'',
         Called mock_handle (ListKeys groupName accountName) (KeysBody short_keys) None,
         Printed (quoted accountName @ '' storage account keys\<newline>''),
         Printed (tab @ ''Key name: key1\<newline>'' @ tab @ ''Value: AAAAA...\<newline>'' @
                  tab @ ''Permissions: Full\<newline>''),
         Printed (tab @ ''----------------\<newline>'')]\<rparr>) \<and>
   Keys short_keys =
     Some [good_key ''key1'' ''AAAAA11111'', good_key ''key2'' ''abc'', good_key ''key3'' ''CCCCC33333'']"
  by (simp add: getStorageKeys_run[OF mock_short_ListKeys] short_keys_def good_key_report
      key_lines_def separator_def)

text \<open>
  Listing and regeneration against the provider that returns a new value for the first key.
\<close>

theorem regenerates_first_key_witness:
  "map snd (requests (trace (snd
      (bindp (getStorageKeys mock) (\<lambda>fetched. thenp (regenStorageKey mock fetched) (ret ())) mock_world)))) =
     [ListKeys groupName accountName,
      RegenerateKey groupName accountName \<lparr>regen_KeyName = Some ''key1''\<rparr>] \<and>
   shown_value (good_key ''key1'' ''BBBBB22222'') \<noteq> shown_value (good_key ''key1'' ''AAAAA11111'')"
  using regenerates_first_key[of mock mock_world "mock_keys 0" 0 "good_key ''key1'' ''AAAAA11111''"
      "[good_key ''key2'' ''CCCCC33333'']" "mock_keys 1" 1 "good_key ''key1'' ''BBBBB22222''"
      "[good_key ''key2'' ''CCCCC33333'']" "ret ()"]
  by (simp add: mock_ListKeys mock_RegenerateKey mock_keys_simps ret_def)
     (simp add: good_key_def shown_value_def)

text \<open>
  The provider returns a new value for the first key that differs from the original one
  after its fifth byte: listing and regeneration print the same text for that key.
\<close>

theorem same_prefix_counterexample:
  "key_Value (good_key ''key1'' ''AAAAA99999'') \<noteq> key_Value (good_key ''key1'' ''AAAAA11111'') \<and>
   bindp (getStorageKeys mock_same_prefix) (regenStorageKey mock_same_prefix) mock_world =
     (Inr (),
      mock_world\<lparr>trace :=
        [Printed ''Get storage account keys...\<newline>'',
         Called mock_handle (ListKeys groupName accountName) (KeysBody (mock_keys 0)) None,
         Printed (quoted accountName @ '' storage account keys\<newline>''),
         Printed (tab @ ''Key name: key1\<newline>'' @ tab @ ''Value: AAAAA...\<newline>'' @
                  tab @ ''Permissions: Full\<newline>''),
         Printed (tab @ ''----------------\<newline>''),
         Printed (tab @ ''Key name: key2\<newline>'' @ tab @ ''Value: CCCCC...\<newline>'' @
                  tab @ ''Permissions: Full\<newline>''),
         Printed (tab @ ''----------------\<newline>''),
         Printed ''Regenerate account key...\<newline>'',
         Called mock_handle (RegenerateKey groupName accountName \<lparr>regen_KeyName = Some ''key1''\<rparr>)
           (KeysBody same_prefix_keys) None,
         Printed ''New key\<newline>'',
         Printed (tab @ ''Key name: key1\<newline>'' @ tab @ ''Value: AAAAA...\<newline>'' @
                  tab @ ''Permissions: Full\<newline>'')],
       remote := 1\<rparr>) \<and>
   Keys (mock_keys 0) = Some [good_key ''key1'' ''AAAAA11111'', good_key ''key2'' ''CCCCC33333''] \<and>
   Keys same_prefix_keys = Some [good_key ''key1'' ''AAAAA99999'', good_key ''key2'' ''CCCCC33333'']"
proof -
  have k: "Keys same_prefix_keys = Some [good_key ''key1'' ''AAAAA99999'', good_key ''key2'' ''CCCCC33333'']"
    by (simp add: same_prefix_keys_def)
  have a: "getStorageKeys mock_same_prefix mock_world =
     (Inr (mock_keys 0),
      mock_world\<lparr>trace :=
        [Printed ''Get storage account keys...\<newline>'',
         Called mock_handle (ListKeys groupName accountName) (KeysBody (mock_keys 0)) None,
         Printed (quoted accountName @ '' storage account keys\<newline>''),
         Printed (key_report (good_key ''key1'' ''AAAAA11111'')), Printed separator,
         Printed (key_report (good_key ''key2'' ''CCCCC33333'')), Printed separator]\<rparr>)"
    by (simp add: getStorageKeys_run[OF mock_same_prefix_ops(1)] mock_keys_simps key_lines_def)
  show ?thesis
    unfolding bindp_def a
    by (simp add: regenStorageKey_run[OF mock_keys_simps(1) mock_same_prefix_ops(2)] k
        mock_keys_simps good_key_report separator_def)
      (simp add: good_key_def)
qed

text \<open>The update step alone, and the tenth call of a full run.\<close>

theorem update_sends_fixed_tags_witness:
  "updateStorageAccount mock mock_world =
     (Inr (),
      mock_world\<lparr>trace :=
        [Printed ''Update storage account...\<newline>'',
         Called mock_handle (Update groupName accountName \<lparr>Tags = Some fixed_tags\<rparr>) NoBody None]\<rparr>) \<and>
   requests (trace (snd (run mock mock_env (runes ''n\<newline>'') 0))) ! 9 =
     (mock_handle, Update groupName accountName \<lparr>Tags = Some fixed_tags\<rparr>)"
proof -
  have a: "updateStorageAccount mock mock_world =
     (Inr (),
      mock_world\<lparr>trace :=
        [Printed ''Update storage account...\<newline>'',
         Called mock_handle (Update groupName accountName \<lparr>Tags = Some fixed_tags\<rparr>) NoBody None]\<rparr>)"
    using update_sends_fixed_tags[of mock mock_world]
    by (simp add: mock_Update)
  have b: "requests (trace (snd (run mock mock_env (runes ''n\<newline>'') 0))) ! 9 =
     (mock_handle, Update groupName accountName \<lparr>Tags = Some fixed_tags\<rparr>)"
    by (simp add: mock_run mock_requests script_def fixed_tags_def made_clients_def mock_handle_def)
  from a b show ?thesis by simp
qed

lemma all_accepted_append [simp]: "all_accepted (a @ b) = (all_accepted a \<and> all_accepted b)"
  by (induction a rule: all_accepted.induct) auto

lemma all_accepted_prints [simp]: "all_accepted (map Printed ps)"
  by (induction ps) auto

lemma discard_proceeds:
  fixes op :: "'t client \<Rightarrow> 's \<Rightarrow> error option \<times> 's"
  shows "hoare (\<lambda>_. True)
     (thenp (fmt_Print banner)
       (bindp (global sel) (\<lambda>c.
        bindp (remote_call_discard c k (op c)) (\<lambda>err. onErrorFail err message))))
     (\<lambda>_ _. True) (\<lambda>st w. \<not> all_accepted (trace w))"
  unfolding hoare_def
proof (intro allI impI)
  fix w :: "('t, 's) world"
  obtain err s' where op: "op (sel (globals w)) (remote w) = (err, s')"
    by (metis prod.exhaust)
  show "case thenp (fmt_Print banner)
       (bindp (global sel) (\<lambda>c.
        bindp (remote_call_discard c k (op c)) (\<lambda>err. onErrorFail err message))) w of
          (Inl st, w') \<Rightarrow> \<not> all_accepted (trace w') | (Inr a, w') \<Rightarrow> True"
    using op
    by (cases err)
       (simp_all add: thenp_def bindp_def fmt_Print_def global_def remote_call_discard_def
          onErrorFail_run)
qed

lemma call_proceeds:
  fixes tail :: "'r \<Rightarrow> ('a, 't, 's) prog"
  assumes q: "\<And>r. quiet (tail r)"
    and ok: "\<And>r w. accepted k (wrap r) \<Longrightarrow> \<exists>a w'. tail r w = (Inr a, w')"
  shows "hoare (\<lambda>_. True)
     (thenp (fmt_Print banner)
       (bindp (global sel) (\<lambda>c.
        bindp (remote_call c k wrap (op c)) (\<lambda>(r, err).
        thenp (onErrorFail err message) (tail r)))))
     (\<lambda>_ _. True) (\<lambda>st w. \<not> all_accepted (trace w))"
  unfolding hoare_def
proof (intro allI impI)
  fix w :: "('t, 's) world"
  let ?c = "sel (globals w)"
  obtain r err s' where op: "op ?c (remote w) = ((r, err), s')"
    by (metis prod.exhaust)
  define w1 where "w1 = w\<lparr>trace := trace w @ [Printed banner, Called ?c k (wrap r) err], remote := s'\<rparr>"
  let ?m = "thenp (fmt_Print banner)
       (bindp (global sel) (\<lambda>c.
        bindp (remote_call c k wrap (op c)) (\<lambda>(r, err).
        thenp (onErrorFail err message) (tail r))))"
  have run: "?m w = thenp (onErrorFail err message) (tail r) w1"
    using op by (simp add: thenp_def bindp_def fmt_Print_def global_def remote_call_def w1_def)
  show "case ?m w of (Inl st, w') \<Rightarrow> \<not> all_accepted (trace w') | (Inr a, w') \<Rightarrow> True"
  proof (cases err)
    case (Some e)
    then have "?m w = (Inl (Exit 1), w1\<lparr>trace := trace w1 @ [Printed (message @ '': '' @ e @ ''\<newline>'')]\<rparr>)"
      using run by (simp add: thenp_def bindp_def onErrorFail_run)
    then show ?thesis using Some by (simp add: w1_def)
  next
    case None
    then have m: "?m w = tail r w1"
      using run by (simp add: thenp_def bindp_def onErrorFail_run)
    show ?thesis
    proof (cases "accepted k (wrap r)")
      case True
      from ok[OF True, of w1] m show ?thesis by auto
    next
      case False
      from q[of r] obtain ps where "snd (tail r w1) = w1\<lparr>trace := trace w1 @ map Printed ps\<rparr>"
        unfolding quiet_def by blast
      then have "\<not> all_accepted (trace (snd (tail r w1)))"
        using False by (simp add: w1_def)
      then show ?thesis unfolding m by (cases "tail r w1") (auto split: sum.splits)
    qed
  qed
qed

lemma registerResourceProvider_proceeds:
  "hoare (\<lambda>_. True) (registerResourceProvider sdk) (\<lambda>_ _. True) (\<lambda>st w. \<not> all_accepted (trace w))"
  unfolding registerResourceProvider_def fmt_Println_def by (rule discard_proceeds)

lemma createResourceGroup_proceeds:
  "hoare (\<lambda>_. True) (createResourceGroup sdk) (\<lambda>_ _. True) (\<lambda>st w. \<not> all_accepted (trace w))"
  unfolding createResourceGroup_def fmt_Println_def Let_def by (rule discard_proceeds)

lemma createStorageAccount_proceeds:
  "hoare (\<lambda>_. True) (createStorageAccount sdk) (\<lambda>_ _. True) (\<lambda>st w. \<not> all_accepted (trace w))"
  unfolding createStorageAccount_def fmt_Println_def Let_def by (rule discard_proceeds)

lemma updateStorageAccount_proceeds:
  "hoare (\<lambda>_. True) (updateStorageAccount sdk) (\<lambda>_ _. True) (\<lambda>st w. \<not> all_accepted (trace w))"
  unfolding updateStorageAccount_def fmt_Println_def Let_def by (rule discard_proceeds)

lemma getStorageAccountProperties_proceeds:
  "hoare (\<lambda>_. True) (getStorageAccountProperties sdk) (\<lambda>_ _. True) (\<lambda>st w. \<not> all_accepted (trace w))"
  unfolding getStorageAccountProperties_def fmt_Println_def
proof (rule call_proceeds, goal_cases)
  case (1 account)
  show ?case by (auto intro!: quiet_intros)
next
  case (2 account w)
  then show ?case
    by (auto simp: bindp_def thenp_def deref_def ret_def fmt_Print_def)
qed

lemma printAccounts_returns: "list_all named accs \<Longrightarrow> \<exists>w'. printAccounts accs w = (Inr (), w')"
proof (induction accs arbitrary: w)
  case Nil
  then show ?case by (simp add: ret_def)
next
  case (Cons acc accs)
  then obtain name where n: "account_Name acc = Some name" by (auto simp: named_def)
  from Cons have "list_all named accs" by simp
  from Cons.IH[OF this] show ?case
    using n by (simp add: bindp_def thenp_def deref_def ret_def fmt_Print_def)
qed

lemma printAccountList_returns:
  assumes "accounts_Value l = Some accs" and "list_all named accs"
  shows "\<exists>w'. printAccountList l w = (Inr (), w')"
  using printAccounts_returns[OF assms(2), of w] assms(1)
  by (auto simp: printAccountList_def bindp_def deref_def ret_def)

lemma listStorageAccountsByResourceGroup_proceeds:
  "hoare (\<lambda>_. True) (listStorageAccountsByResourceGroup sdk) (\<lambda>_ _. True)
     (\<lambda>st w. \<not> all_accepted (trace w))"
  unfolding listStorageAccountsByResourceGroup_def
  by (rule call_proceeds)
     (auto intro: quiet_printAccountList printAccountList_returns split: option.splits)

lemma listStorageAccountsBySubscription_proceeds:
  "hoare (\<lambda>_. True) (listStorageAccountsBySubscription sdk) (\<lambda>_ _. True)
     (\<lambda>st w. \<not> all_accepted (trace w))"
  unfolding listStorageAccountsBySubscription_def fmt_Println_def
  by (rule call_proceeds)
     (auto intro: quiet_printAccountList printAccountList_returns split: option.splits)

lemma printUsages_returns: "list_all reportable us \<Longrightarrow> \<exists>w'. printUsages us w = (Inr (), w')"
proof (induction us arbitrary: w)
  case Nil
  then show ?case by (simp add: ret_def)
next
  case (Cons u us)
  then obtain un name cur lim where n: "usage_Name u = Some un" "name_Value un = Some name"
      "CurrentValue u = Some cur" "Limit u = Some lim"
    by (auto simp: reportable_def split: option.splits)
  from Cons have "list_all reportable us" by simp
  from Cons.IH[OF this] show ?case
    using n by (simp add: bindp_def thenp_def deref_def ret_def fmt_Print_def)
qed

lemma listUsage_proceeds:
  "hoare (\<lambda>_. True) (listUsage sdk) (\<lambda>_ _. True) (\<lambda>st w. \<not> all_accepted (trace w))"
  unfolding listUsage_def fmt_Println_def
proof (rule call_proceeds, goal_cases)
  case (1 usageList)
  show ?case by (auto intro!: quiet_intros quiet_printUsages)
next
  case (2 usageList w)
  then obtain us where u: "usage_Value usageList = Some us" and r: "list_all reportable us"
    by (auto split: option.splits)
  from printUsages_returns[OF r, of w] u show ?case
    by (auto simp: bindp_def deref_def ret_def)
qed

lemma checkAccountAvailability_proceeds:
  fixes sdk :: "('c, 't, 's) sdk"
  shows "hoare (\<lambda>_. True) (checkAccountAvailability sdk) (\<lambda>_ _. True) (\<lambda>st w. \<not> all_accepted (trace w))"
  unfolding hoare_def
proof (intro allI impI)
  fix w :: "('t, 's) world"
  obtain r err s' where
    "accounts_CheckNameAvailability sdk (storageClient (globals w)) check_params (remote w) = ((r, err), s')"
    by (metis prod.exhaust)
  from checkAccountAvailability_run[OF this]
  show "case checkAccountAvailability sdk w of
          (Inl st, w') \<Rightarrow> \<not> all_accepted (trace w') | (Inr a, w') \<Rightarrow> True"
    by (simp add: Let_def split: option.splits bool.splits)
qed

lemma getStorageKeys_proceeds:
  fixes sdk :: "('c, 't, 's) sdk"
  shows "hoare (\<lambda>_. True) (getStorageKeys sdk)
     (\<lambda>keys w. all_accepted (trace w) \<longrightarrow> (\<exists>first rest. Keys keys = Some (first # rest)))
     (\<lambda>st w. \<not> all_accepted (trace w))"
  unfolding hoare_def
proof (intro allI impI)
  fix w :: "('t, 's) world"
  obtain keys err s' where
    "accounts_ListKeys sdk (storageClient (globals w)) groupName accountName (remote w) = ((keys, err), s')"
    by (metis prod.exhaust)
  from getStorageKeys_run[OF this]
  show "case getStorageKeys sdk w of
          (Inl st, w') \<Rightarrow> \<not> all_accepted (trace w')
        | (Inr keys, w') \<Rightarrow> all_accepted (trace w') \<longrightarrow> (\<exists>first rest. Keys keys = Some (first # rest))"
    by (auto simp: Let_def split: option.splits list.splits)
qed

lemma regenStorageKey_proceeds:
  fixes sdk :: "('c, 't, 's) sdk"
  shows "hoare (\<lambda>w. all_accepted (trace w) \<longrightarrow> (\<exists>first rest. Keys keys = Some (first # rest)))
     (regenStorageKey sdk keys) (\<lambda>_ _. True) (\<lambda>st w. \<not> all_accepted (trace w))"
  unfolding hoare_def
proof (intro allI impI)
  fix w :: "('t, 's) world"
  assume pre: "all_accepted (trace w) \<longrightarrow> (\<exists>first rest. Keys keys = Some (first # rest))"
  show "case regenStorageKey sdk keys w of
          (Inl st, w') \<Rightarrow> \<not> all_accepted (trace w') | (Inr a, w') \<Rightarrow> True"
  proof (cases "\<exists>first rest. Keys keys = Some (first # rest)")
    case False
    then have "Keys keys = None \<or> Keys keys = Some []"
    proof (cases "Keys keys")
      case (Some ks)
      with False show ?thesis by (cases ks) auto
    qed simp
    from regenStorageKey_panics[OF this, of sdk w] pre False show ?thesis by simp
  next
    case True
    then obtain first rest where k: "Keys keys = Some (first # rest)" by blast
    obtain newKeys err s' where
      "accounts_RegenerateKey sdk (storageClient (globals w)) groupName accountName
           \<lparr>regen_KeyName = KeyName first\<rparr> (remote w) = ((newKeys, err), s')"
      by (metis prod.exhaust)
    from regenStorageKey_run[OF k this] show ?thesis
      by (auto simp: Let_def split: option.splits list.splits)
  qed
qed

lemma delete_proceeds:
  fixes sdk :: "('c, 't, 's) sdk"
  shows "hoare (\<lambda>_. True) (delete sdk) (\<lambda>_ _. True) (\<lambda>st w. \<not> all_accepted (trace w))"
  unfolding hoare_def
proof (intro allI impI)
  fix w :: "('t, 's) world"
  obtain err1 s1 where a:
    "accounts_Delete sdk (storageClient (globals w)) groupName accountName (remote w) = (err1, s1)"
    by (metis prod.exhaust)
  obtain err2 s2 where b: "groups_Delete sdk (groupClient (globals w)) groupName s1 = (err2, s2)"
    by (metis prod.exhaust)
  from delete_run[OF a b]
  show "case delete sdk w of (Inl st, w') \<Rightarrow> \<not> all_accepted (trace w') | (Inr a, w') \<Rightarrow> True"
    by (simp add: Let_def split: option.splits)
qed

lemma returns_proceeds:
  assumes "\<And>w. \<exists>a w'. m w = (Inr a, w')"
  shows "hoare P m (\<lambda>_ _. True) E"
  unfolding hoare_def
proof (intro allI impI)
  fix w
  from assms[of w] show "case m w of (Inl st, w') \<Rightarrow> E st w' | (Inr a, w') \<Rightarrow> True" by auto
qed

lemma main_proceeds:
  fixes sdk :: "('c, 't, 's) sdk"
  shows "hoare (\<lambda>_. True) (main sdk stdin) (\<lambda>_ _. True) (\<lambda>st w. \<not> all_accepted (trace w))"
  unfolding main_def
  apply (rule hoare_thenp, rule registerResourceProvider_proceeds)
  apply (rule hoare_thenp, rule checkAccountAvailability_proceeds)
  apply (rule hoare_thenp, rule createResourceGroup_proceeds)
  apply (rule hoare_thenp, rule createStorageAccount_proceeds)
  apply (rule hoare_thenp, rule getStorageAccountProperties_proceeds)
  apply (rule hoare_thenp, rule listStorageAccountsByResourceGroup_proceeds)
  apply (rule hoare_thenp, rule listStorageAccountsBySubscription_proceeds)
  apply (rule hoare_bindp, rule getStorageKeys_proceeds)
  apply (rule hoare_thenp, rule regenStorageKey_proceeds)
  apply (rule hoare_thenp, rule updateStorageAccount_proceeds)
  apply (rule hoare_thenp, rule listUsage_proceeds)
  apply (rule hoare_thenp[where R = "\<lambda>_. True"], rule returns_proceeds, simp add: fmt_Print_def)
  apply (rule hoare_bindp[where R = "\<lambda>_ _. True"], rule returns_proceeds, simp add: fmt_Scanln_answer)
  subgoal for keys input
    by (cases "input = ''y''") (simp_all add: delete_proceeds returns_proceeds ret_def)
  done

lemma run_proceeds:
  assumes r: "run sdk env stdin s = (st, w)"
    and i: "init sdk env (world0 s) = (Inr (), w1)"
    and a: "all_accepted (trace w)"
  shows "st = Exit 0"
proof -
  obtain r2 w2 where m: "main sdk stdin w1 = (r2, w2)" by (metis prod.exhaust)
  show ?thesis
  proof (cases r2)
    case (Inl st2)
    with r i m have "w = w2" by (simp add: run_def thenp_def bindp_def)
    moreover from main_proceeds[of sdk stdin]
    have "case main sdk stdin w1 of (Inl st, w') \<Rightarrow> \<not> all_accepted (trace w') | (Inr a, w') \<Rightarrow> True"
      by (simp add: hoare_def)
    with m Inl have "\<not> all_accepted (trace w2)" by simp
    ultimately show ?thesis using a by simp
  next
    case (Inr u)
    with r i m show ?thesis by (simp add: run_def thenp_def bindp_def)
  qed
qed

lemma init_library_failure:
  assumes "run sdk env stdin s = (st, w)"
    and "os_Getenv env ''AZURE_SUBSCRIPTION_ID'' \<noteq> []" and "os_Getenv env ''AZURE_TENANT_ID'' \<noteq> []"
  shows "(\<forall>e. snd (OAuthConfigForTenant sdk (os_Getenv env ''AZURE_TENANT_ID'')) = Some e \<longrightarrow>
            st = Exit 1 \<and> trace w = [Printed (''OAuthConfigForTenant failed: '' @ e @ ''\<newline>'')]) \<and>
         (\<forall>config spToken e.
            os_Getenv env ''AZURE_CLIENT_ID'' \<noteq> [] \<and> os_Getenv env ''AZURE_CLIENT_SECRET'' \<noteq> [] \<and>
            OAuthConfigForTenant sdk (os_Getenv env ''AZURE_TENANT_ID'') = (Some config, None) \<and>
            NewServicePrincipalToken sdk config (os_Getenv env ''AZURE_CLIENT_ID'')
              (os_Getenv env ''AZURE_CLIENT_SECRET'') (ResourceManagerEndpoint sdk) = (spToken, Some e) \<longrightarrow>
            st = Exit 1 \<and> trace w = [Printed (''NewServicePrincipalToken failed: '' @ e @ ''\<newline>'')])"
proof (rule conjI; intro allI impI)
  fix e
  assume a: "snd (OAuthConfigForTenant sdk (os_Getenv env ''AZURE_TENANT_ID'')) = Some e"
  then obtain oauthConfig where
    "OAuthConfigForTenant sdk (os_Getenv env ''AZURE_TENANT_ID'') = (oauthConfig, Some e)"
    by (cases "OAuthConfigForTenant sdk (os_Getenv env ''AZURE_TENANT_ID'')") simp
  with assms(2,3) have "init sdk env (world0 s) =
          (Inl (Exit 1), (world0 s)\<lparr>trace := trace (world0 s) @ [Printed (''OAuthConfigForTenant failed: '' @ e @ ''\<newline>'')]\<rparr>)"
    by (simp add: init_run Let_def)
  from run_init_stop[OF this, of stdin] assms(1)
  show "st = Exit 1 \<and> trace w = [Printed (''OAuthConfigForTenant failed: '' @ e @ ''\<newline>'')]"
    by (auto simp: world0_def)
next
  fix config spToken e
  assume a: "os_Getenv env ''AZURE_CLIENT_ID'' \<noteq> [] \<and> os_Getenv env ''AZURE_CLIENT_SECRET'' \<noteq> [] \<and>
            OAuthConfigForTenant sdk (os_Getenv env ''AZURE_TENANT_ID'') = (Some config, None) \<and>
            NewServicePrincipalToken sdk config (os_Getenv env ''AZURE_CLIENT_ID'')
              (os_Getenv env ''AZURE_CLIENT_SECRET'') (ResourceManagerEndpoint sdk) = (spToken, Some e)"
  with assms(2,3) have "init sdk env (world0 s) =
          (Inl (Exit 1), (world0 s)\<lparr>trace := trace (world0 s) @ [Printed (''NewServicePrincipalToken failed: '' @ e @ ''\<newline>'')]\<rparr>)"
    by (simp add: init_run Let_def)
  from run_init_stop[OF this, of stdin] assms(1)
  show "st = Exit 1 \<and> trace w = [Printed (''NewServicePrincipalToken failed: '' @ e @ ''\<newline>'')]"
    by (auto simp: world0_def)
qed

lemma run_completes:
  assumes r: "run sdk env stdin s = (st, w)"
    and e: "os_Getenv env ''AZURE_SUBSCRIPTION_ID'' \<noteq> []" "os_Getenv env ''AZURE_TENANT_ID'' \<noteq> []"
      "os_Getenv env ''AZURE_CLIENT_ID'' \<noteq> []" "os_Getenv env ''AZURE_CLIENT_SECRET'' \<noteq> []"
    and o: "OAuthConfigForTenant sdk (os_Getenv env ''AZURE_TENANT_ID'') = (Some config, None)"
    and n: "NewServicePrincipalToken sdk config (os_Getenv env ''AZURE_CLIENT_ID'')
              (os_Getenv env ''AZURE_CLIENT_SECRET'') (ResourceManagerEndpoint sdk) = (spToken, None)"
    and a: "all_accepted (trace w)"
  shows "st = Exit 0 \<and> scans (trace w) = [answer stdin] \<and>
         requests (trace w) =
           take (if answer stdin = ''y'' then 13 else 11) (script (globals w) (regen_arg (trace w)))"
proof -
  from e o n have "init sdk env (world0 s) =
      (Inr (), (world0 s)\<lparr>globals := made_clients (os_Getenv env ''AZURE_SUBSCRIPTION_ID'') spToken\<rparr>)"
    by (simp add: init_run Let_def)
  from run_proceeds[OF r this a] have st: "st = Exit 0" .
  from run_spec[OF r] st have "finished (globals w) (answer stdin) w"
    by (auto simp: stopped_def)
  with st show ?thesis by (simp add: finished_def scanned_at_def)
qed


lemma mock_all_accepted: "all_accepted (mock_transcript @ Scanned t # mock_deletion)"
  "all_accepted (mock_transcript @ [Scanned t])"
  by (simp_all add: mock_transcript_def mock_deletion_def mock_available_def mock_account_def
      mock_keys_def mock_usage_def named_def reportable_def printable_def)


lemma mock_deletes:
  "deletes (mock_transcript @ Scanned t # mock_deletion) = deletion"
  "deletes (mock_transcript @ [Scanned t]) = []"
  by (simp_all add: deletes_def mock_requests mock_deletion_def script_def is_delete_def deletion_def)

text \<open>
  Claim C2, as amended. In every run, a delete call is issued if and only if the prompt is
  reached and the first word of the input line is exactly \<open>y\<close> (the rune 0x79): the word
  that Scanln stores is what follows the leading spaces of the line, up to the next space,
  newline or end of input, so that the lines \<open>y no\<close> and \<open> y\<close> also delete, while the empty
  line, the end of input, \<open>n\<close>, \<open>Y\<close> and \<open>yes\<close> do not. No delete call precedes the read; the
  delete calls issued are an initial segment of the pair (delete storage account, delete
  resource group), in that order, and both are issued unless a remote call fails. The
  prompt is read at most once.
\<close>

theorem delete_gate:
  assumes "run sdk env stdin s = (st, w)"
  shows "(deletes (trace w) \<noteq> [] \<longleftrightarrow> scans (trace w) \<noteq> [] \<and> first_word stdin = [0x79]) \<and>
         (scans (trace w) = [] \<or> scans (trace w) = [answer stdin]) \<and>
         (answer stdin = ''y'' \<longleftrightarrow> first_word stdin = [0x79]) \<and>
         (first_word stdin = [0x79] \<longleftrightarrow>
            (\<exists>sp rest. stdin = sp @ 0x79 # rest \<and> (\<forall>r \<in> set sp. isSpace r \<and> r \<noteq> 0x0A) \<and>
               (rest = [] \<or> isSpace (hd rest)))) \<and>
         deletes (before_scan (trace w)) = [] \<and>
         prefix (deletes (trace w)) deletion \<and>
         (scans (trace w) \<noteq> [] \<and> first_word stdin = [0x79] \<and> \<not> failed (trace w) \<longrightarrow>
            deletes (trace w) = deletion)"
proof -
  from deletes_iff_scanned_y[OF assms] have
    a: "deletes (trace w) \<noteq> [] \<longleftrightarrow> scans (trace w) = [''y'']"
    and b: "scans (trace w) = [] \<or> scans (trace w) = [answer stdin]"
    and c: "deletes (before_scan (trace w)) = []"
    and d: "prefix (deletes (trace w)) deletion"
    and e: "scans (trace w) = [''y''] \<and> \<not> failed (trace w) \<longrightarrow> deletes (trace w) = deletion"
    by blast+
  have y: "scans (trace w) = [''y''] \<longleftrightarrow> scans (trace w) \<noteq> [] \<and> first_word stdin = [0x79]"
  proof
    assume s: "scans (trace w) = [''y'']"
    with b have "answer stdin = ''y''" by auto
    with s show "scans (trace w) \<noteq> [] \<and> first_word stdin = [0x79]" by (simp add: answer_y)
  next
    assume "scans (trace w) \<noteq> [] \<and> first_word stdin = [0x79]"
    then have "scans (trace w) \<noteq> []" and "answer stdin = ''y''" by (simp_all add: answer_y)
    with b show "scans (trace w) = [''y'']" by auto
  qed
  from a b c d e show ?thesis
    unfolding y by (simp add: answer_y first_word_y)
qed

text \<open>
  Runs against the provider that always succeeds: the answers \<open>y\<close> and \<open>y no\<close> delete the
  storage account and the resource group; \<open>n\<close>, the empty line, the end of input, \<open>Y\<close> and
  \<open>yes\<close> delete nothing.
\<close>

theorem delete_gate_witness:
  "deletes (trace (snd (run mock mock_env (runes ''y\<newline>'') 0))) = deletion \<and>
   deletes (trace (snd (run mock mock_env (runes ''y no\<newline>'') 0))) = deletion \<and>
   deletes (trace (snd (run mock mock_env (runes ''n\<newline>'') 0))) = [] \<and>
   deletes (trace (snd (run mock mock_env (runes ''\<newline>'') 0))) = [] \<and>
   deletes (trace (snd (run mock mock_env (runes []) 0))) = [] \<and>
   deletes (trace (snd (run mock mock_env (runes ''Y\<newline>'') 0))) = [] \<and>
   deletes (trace (snd (run mock mock_env (runes ''yes\<newline>'') 0))) = [] \<and>
   scans (trace (snd (run mock mock_env (runes ''yes\<newline>'') 0))) = [''yes'']"
proof -
  have w: "first_word (runes ''y\<newline>'') = [0x79]" "first_word (runes ''y no\<newline>'') = [0x79]"
    "first_word (runes ''n\<newline>'') \<noteq> [0x79]" "first_word (runes ''\<newline>'') \<noteq> [0x79]"
    "first_word (runes []) \<noteq> [0x79]" "first_word (runes ''Y\<newline>'') \<noteq> [0x79]"
    "first_word (runes ''yes\<newline>'') \<noteq> [0x79]"
    by (simp_all add: first_word_def runes_def isSpace_def)
  have a: "deletes (trace (snd (run mock mock_env (runes ''y\<newline>'') 0))) = deletion"
    using delete_gate[OF mock_run[of "runes ''y\<newline>''"]] w by (simp add: mock_run)
  have b: "deletes (trace (snd (run mock mock_env (runes ''y no\<newline>'') 0))) = deletion"
    using delete_gate[OF mock_run[of "runes ''y no\<newline>''"]] w by (simp add: mock_run)
  have c: "deletes (trace (snd (run mock mock_env (runes ''n\<newline>'') 0))) = []"
    using delete_gate[OF mock_run[of "runes ''n\<newline>''"]] w by (simp add: mock_run)
  have d: "deletes (trace (snd (run mock mock_env (runes ''\<newline>'') 0))) = []"
    using delete_gate[OF mock_run[of "runes ''\<newline>''"]] w by (simp add: mock_run)
  have e: "deletes (trace (snd (run mock mock_env (runes []) 0))) = []"
    using delete_gate[OF mock_run[of "runes []"]] w by (simp add: mock_run)
  have f: "deletes (trace (snd (run mock mock_env (runes ''Y\<newline>'') 0))) = []"
    using delete_gate[OF mock_run[of "runes ''Y\<newline>''"]] w by (simp add: mock_run)
  have g: "deletes (trace (snd (run mock mock_env (runes ''yes\<newline>'') 0))) = [] \<and>
           scans (trace (snd (run mock mock_env (runes ''yes\<newline>'') 0))) = [''yes'']"
    using delete_gate[OF mock_run[of "runes ''yes\<newline>''"]] w by (simp add: mock_run)
  from a b c d e f g show ?thesis by simp
qed

text \<open>
  The input lines \<open>y no\<close> and \<open> y\<close> are not the line \<open>y\<close>, and both delete calls are issued.
\<close>

theorem other_line_deletes_counterexample:
  "runes ''y no\<newline>'' \<noteq> runes ''y\<newline>'' \<and> runes '' y\<newline>'' \<noteq> runes ''y\<newline>'' \<and>
   deletes (trace (snd (run mock mock_env (runes ''y no\<newline>'') 0))) =
     [AccountsDelete groupName accountName, GroupsDelete groupName] \<and>
   deletes (trace (snd (run mock mock_env (runes '' y\<newline>'') 0))) =
     [AccountsDelete groupName accountName, GroupsDelete groupName]"
  by (simp add: mock_run mock_deletes) (simp add: runes_def deletion_def)

text \<open>
  Claim C6, as amended. The key prints slice the first five bytes of a value and
  dereference the name and value pointers unguarded. After a successful ListKeys call the
  listing prints the heading and panics there when the list pointer is nil; otherwise it
  prints the keys up to the first one that is not printable (nil name, nil value, or a
  value shorter than five bytes) and panics at that key, and it returns when every key is
  printable, so an empty list is listed without a panic. The regeneration step panics
  right after its banner, before issuing its call, when the fetched list is nil or empty;
  after a successful RegenerateKey call it prints \<open>New key\<close> and then the first returned
  key when the returned list is non-empty and that key is printable, and panics after
  \<open>New key\<close> otherwise. A panic prints nothing more: no diagnostic follows, and the
  process does not end by the exit with status 1 of the error policy.
\<close>

theorem key_printing_panics:
  "(accounts_ListKeys sdk (storageClient (globals w)) groupName accountName (remote w) = ((keys, None), s')
      \<longrightarrow> getStorageKeys sdk w =
            (case Keys keys of
               None \<Rightarrow>
                 (Inl Panic,
                  w\<lparr>trace := trace w @
                       [Printed ''Get storage account keys...\<newline>'',
                        Called (storageClient (globals w)) (ListKeys groupName accountName) (KeysBody keys) None,
                        Printed (quoted accountName @ '' storage account keys\<newline>'')],
                     remote := s'\<rparr>)
             | Some ks \<Rightarrow>
                 (if list_all printable ks then Inr keys else Inl Panic,
                  w\<lparr>trace := trace w @
                       [Printed ''Get storage account keys...\<newline>'',
                        Called (storageClient (globals w)) (ListKeys groupName accountName) (KeysBody keys) None,
                        Printed (quoted accountName @ '' storage account keys\<newline>'')] @
                       concat (map (\<lambda>k. [Printed (key_report k), Printed (tab @ ''----------------\<newline>'')])
                                 (takeWhile printable ks)),
                     remote := s'\<rparr>))) \<and>
   (Keys fetched = None \<or> Keys fetched = Some []
      \<longrightarrow> regenStorageKey sdk fetched w =
            (Inl Panic, w\<lparr>trace := trace w @ [Printed ''Regenerate account key...\<newline>'']\<rparr>)) \<and>
   (Keys fetched = Some (first # rest) \<and>
    accounts_RegenerateKey sdk (storageClient (globals w)) groupName accountName
      \<lparr>regen_KeyName = KeyName first\<rparr> (remote w) = ((newKeys, None), s'')
      \<longrightarrow> regenStorageKey sdk fetched w =
            (case Keys newKeys of
               Some (new # others) \<Rightarrow>
                 if printable new then
                   (Inr (),
                    w\<lparr>trace := trace w @
                         [Printed ''Regenerate account key...\<newline>'',
                          Called (storageClient (globals w))
                            (RegenerateKey groupName accountName \<lparr>regen_KeyName = KeyName first\<rparr>)
                            (KeysBody newKeys) None,
                          Printed ''New key\<newline>'', Printed (key_report new)],
                       remote := s''\<rparr>)
                 else
                   (Inl Panic,
                    w\<lparr>trace := trace w @
                         [Printed ''Regenerate account key...\<newline>'',
                          Called (storageClient (globals w))
                            (RegenerateKey groupName accountName \<lparr>regen_KeyName = KeyName first\<rparr>)
                            (KeysBody newKeys) None,
                          Printed ''New key\<newline>''],
                       remote := s''\<rparr>)
             | _ \<Rightarrow>
                 (Inl Panic,
                  w\<lparr>trace := trace w @
                       [Printed ''Regenerate account key...\<newline>'',
                        Called (storageClient (globals w))
                          (RegenerateKey groupName accountName \<lparr>regen_KeyName = KeyName first\<rparr>)
                          (KeysBody newKeys) None,
                        Printed ''New key\<newline>''],
                     remote := s''\<rparr>))) \<and>
   (\<forall>k. printable k \<longleftrightarrow> (\<exists>n v. KeyName k = Some n \<and> key_Value k = Some v \<and> 5 \<le> length v)) \<and>
   (\<forall>k n v. KeyName k = Some n \<longrightarrow> key_Value k = Some v \<longrightarrow>
      key_report k =
        tab @ ''Key name: '' @ n @ ''\<newline>'' @ tab @ ''Value: '' @ take 5 v @ ''...\<newline>'' @
        tab @ ''Permissions: '' @ Permissions k @ ''\<newline>'')"
proof (intro conjI impI allI)
  assume "accounts_ListKeys sdk (storageClient (globals w)) groupName accountName (remote w) = ((keys, None), s')"
  from getStorageKeys_run[OF this]
  show "getStorageKeys sdk w =
            (case Keys keys of
               None \<Rightarrow>
                 (Inl Panic,
                  w\<lparr>trace := trace w @
                       [Printed ''Get storage account keys...\<newline>'',
                        Called (storageClient (globals w)) (ListKeys groupName accountName) (KeysBody keys) None,
                        Printed (quoted accountName @ '' storage account keys\<newline>'')],
                     remote := s'\<rparr>)
             | Some ks \<Rightarrow>
                 (if list_all printable ks then Inr keys else Inl Panic,
                  w\<lparr>trace := trace w @
                       [Printed ''Get storage account keys...\<newline>'',
                        Called (storageClient (globals w)) (ListKeys groupName accountName) (KeysBody keys) None,
                        Printed (quoted accountName @ '' storage account keys\<newline>'')] @
                       concat (map (\<lambda>k. [Printed (key_report k), Printed (tab @ ''----------------\<newline>'')])
                                 (takeWhile printable ks)),
                     remote := s'\<rparr>))"
    by (simp add: Let_def key_lines_def separator_def split: option.splits)
next
  assume "Keys fetched = None \<or> Keys fetched = Some []"
  then show "regenStorageKey sdk fetched w =
            (Inl Panic, w\<lparr>trace := trace w @ [Printed ''Regenerate account key...\<newline>'']\<rparr>)"
    by (rule regenStorageKey_panics)
next
  assume a: "Keys fetched = Some (first # rest) \<and>
    accounts_RegenerateKey sdk (storageClient (globals w)) groupName accountName
      \<lparr>regen_KeyName = KeyName first\<rparr> (remote w) = ((newKeys, None), s'')"
  then have k: "Keys fetched = Some (first # rest)"
    and op: "accounts_RegenerateKey sdk (storageClient (globals w)) groupName accountName
      \<lparr>regen_KeyName = KeyName first\<rparr> (remote w) = ((newKeys, None), s'')" by simp_all
  from regenStorageKey_run[OF k op]
  show "regenStorageKey sdk fetched w =
            (case Keys newKeys of
               Some (new # others) \<Rightarrow>
                 if printable new then
                   (Inr (),
                    w\<lparr>trace := trace w @
                         [Printed ''Regenerate account key...\<newline>'',
                          Called (storageClient (globals w))
                            (RegenerateKey groupName accountName \<lparr>regen_KeyName = KeyName first\<rparr>)
                            (KeysBody newKeys) None,
                          Printed ''New key\<newline>'', Printed (key_report new)],
                       remote := s''\<rparr>)
                 else
                   (Inl Panic,
                    w\<lparr>trace := trace w @
                         [Printed ''Regenerate account key...\<newline>'',
                          Called (storageClient (globals w))
                            (RegenerateKey groupName accountName \<lparr>regen_KeyName = KeyName first\<rparr>)
                            (KeysBody newKeys) None,
                          Printed ''New key\<newline>''],
                       remote := s''\<rparr>)
             | _ \<Rightarrow>
                 (Inl Panic,
                  w\<lparr>trace := trace w @
                       [Printed ''Regenerate account key...\<newline>'',
                        Called (storageClient (globals w))
                          (RegenerateKey groupName accountName \<lparr>regen_KeyName = KeyName first\<rparr>)
                          (KeysBody newKeys) None,
                        Printed ''New key\<newline>''],
                     remote := s''\<rparr>))"
    by (simp add: Let_def split: option.splits list.splits)
next
  fix k show "printable k \<longleftrightarrow> (\<exists>n v. KeyName k = Some n \<and> key_Value k = Some v \<and> 5 \<le> length v)"
    by (rule printable_iff)
next
  fix k :: AccountKey and n v
  assume "KeyName k = Some n" "key_Value k = Some v"
  then show "key_report k =
        tab @ ''Key name: '' @ n @ ''\<newline>'' @ tab @ ''Value: '' @ take 5 v @ ''...\<newline>'' @
        tab @ ''Permissions: '' @ Permissions k @ ''\<newline>''"
    by (rule key_report_eq)
qed

text \<open>
  A listing of two printable keys returns; a listing whose second key has a three-byte
  value prints the first key and panics; the regeneration step given an empty list panics
  after its banner without issuing a call; given the two listed keys it prints the new
  first key.
\<close>

theorem key_printing_panics_witness:
  "fst (getStorageKeys mock mock_world) = Inr (mock_keys 0) \<and>
   getStorageKeys mock_short_key mock_world =
     (Inl Panic,
      mock_world\<lparr>trace :=
        [Printed ''Get storage account keys...\<newline>'',
         Called mock_handle (ListKeys groupName accountName) (KeysBody short_keys) None,
         Printed (quoted accountName @ '' storage account keys\<newline>''),
         Printed (key_report (good_key ''key1'' ''AAAAA11111'')),
         Printed (tab @ ''----------------\<newline>'')]\<rparr>) \<and>
   regenStorageKey mock \<lparr>Keys = Some []\<rparr> mock_world =
     (Inl Panic, mock_world\<lparr>trace := [Printed ''Regenerate account key...\<newline>'']\<rparr>) \<and>
   regenStorageKey mock (mock_keys 0) mock_world =
     (Inr (),
      mock_world\<lparr>trace :=
        [Printed ''Regenerate account key...\<newline>'',
         Called mock_handle (RegenerateKey groupName accountName \<lparr>regen_KeyName = Some ''key1''\<rparr>)
           (KeysBody (mock_keys 1)) None,
         Printed ''New key\<newline>'', Printed (key_report (good_key ''key1'' ''BBBBB22222''))],
       remote := 1\<rparr>)"
proof -
  have a: "fst (getStorageKeys mock mock_world) = Inr (mock_keys 0)"
    using key_printing_panics[of mock mock_world "mock_keys 0" 0]
    by (simp add: mock_ListKeys mock_keys_simps)
  have b: "getStorageKeys mock_short_key mock_world =
     (Inl Panic,
      mock_world\<lparr>trace :=
        [Printed ''Get storage account keys...\<newline>'',
         Called mock_handle (ListKeys groupName accountName) (KeysBody short_keys) None,
         Printed (quoted accountName @ '' storage account keys\<newline>''),
         Printed (key_report (good_key ''key1'' ''AAAAA11111'')),
         Printed (tab @ ''----------------\<newline>'')]\<rparr>)"
    using key_printing_panics[of mock_short_key mock_world short_keys 0]
    by (simp add: mock_short_ListKeys short_keys_def)
  have c: "regenStorageKey mock \<lparr>Keys = Some []\<rparr> mock_world =
     (Inl Panic, mock_world\<lparr>trace := [Printed ''Regenerate account key...\<newline>'']\<rparr>)"
    using key_printing_panics[of mock mock_world _ _ "\<lparr>Keys = Some []\<rparr>"]
    by simp
  have d: "regenStorageKey mock (mock_keys 0) mock_world =
     (Inr (),
      mock_world\<lparr>trace :=
        [Printed ''Regenerate account key...\<newline>'',
         Called mock_handle (RegenerateKey groupName accountName \<lparr>regen_KeyName = Some ''key1''\<rparr>)
           (KeysBody (mock_keys 1)) None,
         Printed ''New key\<newline>'', Printed (key_report (good_key ''key1'' ''BBBBB22222''))],
       remote := 1\<rparr>)"
    using key_printing_panics[of mock mock_world _ _ "mock_keys 0"
      "good_key ''key1'' ''AAAAA11111''" "[good_key ''key2'' ''CCCCC33333'']" "mock_keys 1" 1]
    by (simp add: mock_RegenerateKey mock_keys_simps good_key_def)
  from a b c d show ?thesis by simp
qed

text \<open>
  A non-empty list whose only key has a ten-byte value and a nil name makes the listing
  panic; an empty list is listed without a panic.
\<close>

theorem key_printing_counterexample:
  "fst (getStorageKeys mock_nameless mock_world) = Inl Panic \<and>
   fst (getStorageKeys mock_no_keys mock_world) = Inr \<lparr>Keys = Some []\<rparr>"
  by (simp add: getStorageKeys_run[OF mock_nameless_ListKeys] getStorageKeys_run[OF mock_no_keys_ListKeys]
      printable_def)

end
